theory Spec2Isabelle
  imports Main "HOL-Library.AList"
begin

unbundle bit_operations_syntax

section \<open>JavaScript values of entity fields and wire payloads\<close>

text \<open>
  An entity attribute is \<open>undefined\<close> until it is first assigned, may then hold
  \<open>null\<close>, or a value. A slot is therefore an \<open>'a nullable option\<close>: \<open>None\<close> is
  \<open>undefined\<close>, \<open>Some Null\<close> is \<open>null\<close>, \<open>Some (Val v)\<close> is the value \<open>v\<close>.

  A wire payload is a decoded JSON object. Each of its keys has the same type: \<open>None\<close>
  says that the key is absent (\<open>'k' in data\<close> is false and \<open>data.k\<close> reads
  \<open>undefined\<close>), \<open>Some Null\<close> that it is present with \<open>null\<close>. JSON cannot carry a
  key whose value is \<open>undefined\<close>, so presence and definedness coincide.
\<close>

datatype 'a nullable = Null | Val 'a

type_synonym 'a slot = "'a nullable option"

text \<open>The operators \<open>a ?? b\<close> and \<open>x ??= b\<close> (the value that \<open>x\<close> holds afterwards).\<close>

definition nullish :: "'a slot \<Rightarrow> 'a slot \<Rightarrow> 'a slot" where
  "nullish a b = (case a of Some (Val v) \<Rightarrow> a | _ \<Rightarrow> b)"

text \<open>\<open>'k' in data\<close> for a payload key.\<close>

definition present :: "'a option \<Rightarrow> bool" where
  "present k = (k \<noteq> None)"

text \<open>Errors thrown by the modelled code; \<open>Rejected\<close> is a rejection of the REST
  collaborator.\<close>

datatype js_error = TypeError string | SyntaxError | RangeError string | Rejected string

section \<open>VoiceState\<close>

text \<open>
  The voice state payload and the \<open>VoiceState\<close> structure. The back-reference
  \<open>guild\<close> set by the constructor is never written by \<open>_patch\<close> and is left out.
  \<open>Date.parse\<close> is a parameter; its result type is \<open>'t\<close>.
\<close>

record voice_state_data =
  vd_user_id :: string
  vd_deaf :: "bool slot"
  vd_mute :: "bool slot"
  vd_self_deaf :: "bool slot"
  vd_self_mute :: "bool slot"
  vd_self_video :: "bool slot"
  vd_session_id :: "string slot"
  vd_self_stream :: "bool slot"
  vd_channel_id :: "string slot"
  vd_suppress :: "bool slot"
  vd_request_to_speak_timestamp :: "string slot"

record 't voice_state =
  vs_id :: string
  vs_serverDeaf :: "bool slot"
  vs_serverMute :: "bool slot"
  vs_selfDeaf :: "bool slot"
  vs_selfMute :: "bool slot"
  vs_selfVideo :: "bool slot"
  vs_sessionId :: "string slot"
  vs_streaming :: "bool slot"
  vs_channelId :: "string slot"
  vs_suppress :: "bool slot"
  vs_requestToSpeakTimestamp :: "(string + 't) slot"

text \<open>
  \<open>data.request_to_speak_timestamp && Date.parse(data.request_to_speak_timestamp)\<close>:
  a falsy left operand (\<open>null\<close> or the empty string) is the result itself.
\<close>

definition and_parse :: "(string \<Rightarrow> 't) \<Rightarrow> string slot \<Rightarrow> (string + 't) slot" where
  "and_parse Date_parse v =
     (case v of
        None \<Rightarrow> None
      | Some Null \<Rightarrow> Some Null
      | Some (Val s) \<Rightarrow> if s = [] then Some (Val (Inl s)) else Some (Val (Inr (Date_parse s))))"

definition VoiceState_patch ::
  "(string \<Rightarrow> 't) \<Rightarrow> voice_state_data \<Rightarrow> 't voice_state \<Rightarrow> 't voice_state" where
  "VoiceState_patch Date_parse data this =
     (let this = (if present (vd_deaf data) then this\<lparr>vs_serverDeaf := vd_deaf data\<rparr>
                  else this\<lparr>vs_serverDeaf := nullish (vs_serverDeaf this) (Some Null)\<rparr>);
          this = (if present (vd_mute data) then this\<lparr>vs_serverMute := vd_mute data\<rparr>
                  else this\<lparr>vs_serverMute := nullish (vs_serverMute this) (Some Null)\<rparr>);
          this = (if present (vd_self_deaf data) then this\<lparr>vs_selfDeaf := vd_self_deaf data\<rparr>
                  else this\<lparr>vs_selfDeaf := nullish (vs_selfDeaf this) (Some Null)\<rparr>);
          this = (if present (vd_self_mute data) then this\<lparr>vs_selfMute := vd_self_mute data\<rparr>
                  else this\<lparr>vs_selfMute := nullish (vs_selfMute this) (Some Null)\<rparr>);
          this = (if present (vd_self_video data) then this\<lparr>vs_selfVideo := vd_self_video data\<rparr>
                  else this\<lparr>vs_selfVideo := nullish (vs_selfVideo this) (Some Null)\<rparr>);
          this = (if present (vd_session_id data) then this\<lparr>vs_sessionId := vd_session_id data\<rparr>
                  else this\<lparr>vs_sessionId := nullish (vs_sessionId this) (Some Null)\<rparr>);
          this = (if present (vd_self_video data)
                  then this\<lparr>vs_streaming := nullish (vd_self_stream data) (Some (Val False))\<rparr>
                  else this\<lparr>vs_streaming := nullish (vs_streaming this) (Some Null)\<rparr>);
          this = (if present (vd_channel_id data) then this\<lparr>vs_channelId := vd_channel_id data\<rparr>
                  else this\<lparr>vs_channelId := nullish (vs_channelId this) (Some Null)\<rparr>);
          this = (if present (vd_suppress data) then this\<lparr>vs_suppress := vd_suppress data\<rparr>
                  else this);
          this = (if present (vd_request_to_speak_timestamp data)
                  then this\<lparr>vs_requestToSpeakTimestamp :=
                         and_parse Date_parse (vd_request_to_speak_timestamp data)\<rparr>
                  else this\<lparr>vs_requestToSpeakTimestamp :=
                         nullish (vs_requestToSpeakTimestamp this) (Some Null)\<rparr>)
      in this)"

text \<open>
  \<open>new VoiceState(guild, data)\<close>: the id is taken from \<open>data.user_id\<close>, every other
  attribute is still \<open>undefined\<close> when \<open>_patch\<close> runs.
\<close>

definition VoiceState_blank :: "string \<Rightarrow> 't voice_state" where
  "VoiceState_blank i =
     \<lparr>vs_id = i, vs_serverDeaf = None, vs_serverMute = None, vs_selfDeaf = None,
      vs_selfMute = None, vs_selfVideo = None, vs_sessionId = None, vs_streaming = None,
      vs_channelId = None, vs_suppress = None, vs_requestToSpeakTimestamp = None\<rparr>"

definition VoiceState_new :: "(string \<Rightarrow> 't) \<Rightarrow> voice_state_data \<Rightarrow> 't voice_state" where
  "VoiceState_new Date_parse data =
     VoiceState_patch Date_parse data (VoiceState_blank (vd_user_id data))"

section \<open>Channels\<close>

text \<open>
  Nested parts of a payload (permission overwrites, messages, forum tags) are raw decoded
  JSON; the structures built from them (\<open>PermissionOverwriteManager\<close>,
  \<open>MessageManager\<close>, \<open>ChannelFlags\<close>, \<open>transformAPIGuildForumTag\<close> of
  \<open>util/Util\<close>) are collaborators of the channel classes and are passed as parameters.
\<close>

datatype json = JNull | JBool bool | JNum int | JStr string | JArr "json list"
  | JObj "(string \<times> json) list"

record ('f, 'oc, 'mc, 'tag) collab =
  ChannelFlags_new :: "int \<Rightarrow> 'f"
  overwrites_empty :: "'oc"
  overwrites_add :: "json \<Rightarrow> 'oc \<Rightarrow> 'oc"
  messages_empty :: "'mc"
  messages_add :: "json \<Rightarrow> 'mc \<Rightarrow> 'mc"
  transformAPIGuildForumTag :: "json \<Rightarrow> 'tag"

text \<open>
  The channel object of the wire protocol. \<open>id\<close> is carried by every payload; numbers
  and booleans that the protocol never sends as \<open>null\<close> are plain options, nullable
  keys are slots.
\<close>

record channel_data =
  cd_id :: string
  cd_type :: "int option"
  cd_flags :: "int option"
  cd_name :: "string slot"
  cd_position :: "int option"
  cd_guild_id :: "string slot"
  cd_parent_id :: "string slot"
  cd_permission_overwrites :: "json list option"
  cd_topic :: "string slot"
  cd_nsfw :: "bool option"
  cd_default_auto_archive_duration :: "int slot"
  cd_default_thread_rate_limit_per_user :: "int slot"
  cd_rate_limit_per_user :: "int slot"
  cd_messages :: "json list option"
  cd_available_tags :: "json list option"

record 'f channel =
  ch_id :: "string option"
  ch_deleted :: bool
  ch_type :: string
  ch_flags :: "'f option"

record ('f, 'oc) guild_channel = "'f channel" +
  gc_guildId :: "string slot"
  gc_parentId :: "string slot"
  gc_permissionOverwrites :: "'oc"
  gc_name :: "string slot"
  gc_rawPosition :: "int option"

record ('f, 'oc, 'mc) base_guild_text_channel = "('f, 'oc) guild_channel" +
  tc_messages :: "'mc"
  tc_nsfw :: bool
  tc_topic :: "string slot"
  tc_defaultAutoArchiveDuration :: "int slot"
  tc_defaultThreadRateLimitPerUser :: "int slot"

record ('f, 'oc, 'tag) forum_channel = "('f, 'oc) guild_channel" +
  fc_availableTags :: "'tag list option"
  fc_defaultThreadRateLimitPerUser :: "int slot"
  fc_rateLimitPerUser :: "int slot"
  fc_defaultAutoArchiveDuration :: "int slot"
  fc_nsfw :: "bool option"
  fc_topic :: "string slot"

text \<open>\<open>Channel._patch\<close>.\<close>

definition Channel_patch ::
  "('f, 'oc, 'mc, 'tag) collab \<Rightarrow> channel_data \<Rightarrow> ('f, 'z) channel_scheme
     \<Rightarrow> ('f, 'z) channel_scheme" where
  "Channel_patch C data this =
     (let this = this\<lparr>ch_id := Some (cd_id data)\<rparr>;
          this = (case cd_flags data of
                    Some flags \<Rightarrow> this\<lparr>ch_flags := Some (ChannelFlags_new C flags)\<rparr>
                  | None \<Rightarrow> this)
      in this)"

text \<open>\<open>GuildChannel._patch\<close>.\<close>

definition GuildChannel_patch ::
  "('f, 'oc, 'mc, 'tag) collab \<Rightarrow> channel_data \<Rightarrow> ('f, 'oc, 'z) guild_channel_scheme
     \<Rightarrow> ('f, 'oc, 'z) guild_channel_scheme" where
  "GuildChannel_patch C data this =
     (let this = Channel_patch C data this;
          this = (if present (cd_name data) then this\<lparr>gc_name := cd_name data\<rparr> else this);
          this = (if present (cd_position data)
                  then this\<lparr>gc_rawPosition := cd_position data\<rparr> else this);
          this = (if present (cd_guild_id data)
                  then this\<lparr>gc_guildId := cd_guild_id data\<rparr> else this);
          this = (if present (cd_parent_id data)
                  then this\<lparr>gc_parentId := cd_parent_id data\<rparr> else this);
          this = (case cd_permission_overwrites data of
                    Some permission_overwrites \<Rightarrow>
                      this\<lparr>gc_permissionOverwrites :=
                        foldl (\<lambda>cache overwrite. overwrites_add C overwrite cache)
                          (overwrites_empty C) permission_overwrites\<rparr>
                  | None \<Rightarrow> this)
      in this)"

text \<open>\<open>BaseGuildTextChannel._patch\<close>; \<open>Boolean(data.nsfw)\<close> of a present boolean is
  that boolean.\<close>

definition BaseGuildTextChannel_patch ::
  "('f, 'oc, 'mc, 'tag) collab \<Rightarrow> channel_data
     \<Rightarrow> ('f, 'oc, 'mc, 'z) base_guild_text_channel_scheme
     \<Rightarrow> ('f, 'oc, 'mc, 'z) base_guild_text_channel_scheme" where
  "BaseGuildTextChannel_patch C data this =
     (let this = GuildChannel_patch C data this;
          this = (if present (cd_topic data) then this\<lparr>tc_topic := cd_topic data\<rparr> else this);
          this = (case cd_nsfw data of Some nsfw \<Rightarrow> this\<lparr>tc_nsfw := nsfw\<rparr> | None \<Rightarrow> this);
          this = (if present (cd_default_auto_archive_duration data)
                  then this\<lparr>tc_defaultAutoArchiveDuration :=
                         cd_default_auto_archive_duration data\<rparr>
                  else this);
          this = (if present (cd_default_thread_rate_limit_per_user data)
                  then this\<lparr>tc_defaultThreadRateLimitPerUser :=
                         cd_default_thread_rate_limit_per_user data\<rparr>
                  else this\<lparr>tc_defaultThreadRateLimitPerUser :=
                         nullish (tc_defaultThreadRateLimitPerUser this) (Some Null)\<rparr>);
          this = (case cd_messages data of
                    Some messages \<Rightarrow>
                      this\<lparr>tc_messages :=
                        foldl (\<lambda>cache message. messages_add C message cache)
                          (tc_messages this) messages\<rparr>
                  | None \<Rightarrow> this)
      in this)"

text \<open>
  The constructors. \<open>ChannelTypes\<close> (of \<open>util/Constants\<close>) is the table from the
  numeric channel type to its name; it is a parameter. \<open>guild\<close> is the id of the guild
  passed to the constructor, if one is passed.
\<close>

definition Channel_new :: "(int \<Rightarrow> string option) \<Rightarrow> channel_data \<Rightarrow> 'f channel" where
  "Channel_new ChannelTypes data =
     \<lparr>ch_id = None, ch_deleted = False,
      ch_type = (case cd_type data of
                   None \<Rightarrow> ''UNKNOWN''
                 | Some n \<Rightarrow> (case ChannelTypes n of None \<Rightarrow> ''UNKNOWN'' | Some t \<Rightarrow> t)),
      ch_flags = None\<rparr>"

definition GuildChannel_new ::
  "('f, 'oc, 'mc, 'tag) collab \<Rightarrow> (int \<Rightarrow> string option) \<Rightarrow> string option \<Rightarrow> channel_data
     \<Rightarrow> ('f, 'oc) guild_channel" where
  "GuildChannel_new C ChannelTypes guild data =
     channel.extend (Channel_new ChannelTypes data)
       (guild_channel.fields
          (case guild of Some g \<Rightarrow> Some (Val g) | None \<Rightarrow> cd_guild_id data)
          (Some Null) (overwrites_empty C) None None)"

definition BaseGuildTextChannel_new ::
  "('f, 'oc, 'mc, 'tag) collab \<Rightarrow> (int \<Rightarrow> string option) \<Rightarrow> string option \<Rightarrow> channel_data
     \<Rightarrow> ('f, 'oc, 'mc) base_guild_text_channel" where
  "BaseGuildTextChannel_new C ChannelTypes guild data =
     BaseGuildTextChannel_patch C data
       (guild_channel.extend (GuildChannel_new C ChannelTypes guild data)
          (base_guild_text_channel.fields (messages_empty C)
             (case cd_nsfw data of None \<Rightarrow> False | Some b \<Rightarrow> b) None None None))"

text \<open>\<open>ForumChannel._patch\<close> and the constructor.\<close>

definition ForumChannel_patch ::
  "('f, 'oc, 'mc, 'tag) collab \<Rightarrow> channel_data
     \<Rightarrow> ('f, 'oc, 'tag, 'z) forum_channel_scheme
     \<Rightarrow> ('f, 'oc, 'tag, 'z) forum_channel_scheme" where
  "ForumChannel_patch C data this =
     (let this = GuildChannel_patch C data this;
          this = (case cd_available_tags data of
                    Some available_tags \<Rightarrow>
                      this\<lparr>fc_availableTags :=
                        Some (map (transformAPIGuildForumTag C) available_tags)\<rparr>
                  | None \<Rightarrow>
                      this\<lparr>fc_availableTags :=
                        (case fc_availableTags this of None \<Rightarrow> Some [] | Some ts \<Rightarrow> Some ts)\<rparr>);
          this = (if present (cd_default_thread_rate_limit_per_user data)
                  then this\<lparr>fc_defaultThreadRateLimitPerUser :=
                         cd_default_thread_rate_limit_per_user data\<rparr>
                  else this\<lparr>fc_defaultThreadRateLimitPerUser :=
                         nullish (fc_defaultThreadRateLimitPerUser this) (Some Null)\<rparr>);
          this = (if present (cd_rate_limit_per_user data)
                  then this\<lparr>fc_rateLimitPerUser := cd_rate_limit_per_user data\<rparr>
                  else this\<lparr>fc_rateLimitPerUser := nullish (fc_rateLimitPerUser this) (Some Null)\<rparr>);
          this = (if present (cd_default_auto_archive_duration data)
                  then this\<lparr>fc_defaultAutoArchiveDuration :=
                         cd_default_auto_archive_duration data\<rparr>
                  else this\<lparr>fc_defaultAutoArchiveDuration :=
                         nullish (fc_defaultAutoArchiveDuration this) (Some Null)\<rparr>);
          this = (if present (cd_nsfw data) then this\<lparr>fc_nsfw := cd_nsfw data\<rparr>
                  else this\<lparr>fc_nsfw :=
                         (case fc_nsfw this of None \<Rightarrow> Some False | Some b \<Rightarrow> Some b)\<rparr>);
          this = (if present (cd_topic data) then this\<lparr>fc_topic := cd_topic data\<rparr> else this)
      in this)"

definition ForumChannel_new ::
  "('f, 'oc, 'mc, 'tag) collab \<Rightarrow> (int \<Rightarrow> string option) \<Rightarrow> string option \<Rightarrow> channel_data
     \<Rightarrow> ('f, 'oc, 'tag) forum_channel" where
  "ForumChannel_new C ChannelTypes guild data =
     ForumChannel_patch C data
       (guild_channel.extend (GuildChannel_new C ChannelTypes guild data)
          (forum_channel.fields None None None None None None))"

section \<open>Snowflakes as numbers\<close>

text \<open>
  Ids and permission bitfields travel as unsigned decimal strings. \<open>BigInt\<close> models the
  JavaScript conversion on such strings (the empty string converts to zero); any other
  string is reported as the \<open>SyntaxError\<close> that \<open>BigInt\<close> throws on text it cannot
  read. Signs, blanks and radix prefixes, which \<open>BigInt\<close> also reads, do not occur in
  snowflakes and are not modelled. \<open>BigInt(undefined)\<close> throws a \<open>TypeError\<close>.
\<close>

definition digit :: "char \<Rightarrow> bool" where
  "digit c = (c \<in> set ''0123456789'')"

definition BigInt :: "string \<Rightarrow> js_error + int" where
  "BigInt s =
     (if list_all digit s
      then Inr (int (foldl (\<lambda>n c. 10 * n + (of_char c - 48)) 0 s))
      else Inl SyntaxError)"

definition BigInt_id :: "string option \<Rightarrow> js_error + int" where
  "BigInt_id i =
     (case i of None \<Rightarrow> Inl (TypeError ''Cannot convert undefined to a BigInt'')
      | Some s \<Rightarrow> BigInt s)"

text \<open>\<open>a > b\<close> on numbers that may be \<open>undefined\<close>: false when either side is.\<close>

definition js_gt :: "int option \<Rightarrow> int option \<Rightarrow> bool" where
  "js_gt a b = (case a of None \<Rightarrow> False
                | Some x \<Rightarrow> (case b of None \<Rightarrow> False | Some y \<Rightarrow> x > y))"

section \<open>Role\<close>

text \<open>
  The role payload and the \<open>Role\<close> structure. A frozen \<open>Permissions\<close> object is
  represented by its bitfield. \<open>RoleFlags\<close> is a collaborator: \<open>RoleFlags_new\<close> takes
  the constructor's argument, \<open>None\<close> when it is called without one. The keys of
  \<open>data.tags\<close> that only matter by their presence carry raw JSON.
\<close>

record role_tags_data =
  td_bot_id :: "string slot"
  td_integration_id :: "string slot"
  td_premium_subscriber :: "json option"
  td_subscription_listing_id :: "string slot"
  td_available_for_purchase :: "json option"
  td_guild_connections :: "json option"

record role_tags =
  rt_botId :: "string slot"
  rt_integrationId :: "string slot"
  rt_premiumSubscriberRole :: "bool option"
  rt_subscriptionListingId :: "string slot"
  rt_availableForPurchase :: "bool option"
  rt_guildConnections :: "bool option"

record role_data =
  rd_id :: string
  rd_name :: "string option"
  rd_color :: "int option"
  rd_hoist :: "bool option"
  rd_position :: "int option"
  rd_permissions :: "string option"
  rd_managed :: "bool option"
  rd_mentionable :: "bool option"
  rd_icon :: "string slot"
  rd_unicode_emoji :: "string slot"
  rd_tags :: "role_tags_data slot"
  rd_flags :: "int option"

record 'rf role =
  r_id :: "string option"
  r_deleted :: bool
  r_icon :: "string slot"
  r_unicodeEmoji :: "string slot"
  r_name :: "string option"
  r_color :: "int option"
  r_hoist :: "bool option"
  r_rawPosition :: "int option"
  r_permissions :: "int option"
  r_managed :: "bool option"
  r_mentionable :: "bool option"
  r_tags :: "role_tags slot"
  r_flags :: "'rf option"

text \<open>The object that \<open>this.tags = {}\<close> creates, and the assignments that fill it.\<close>

definition Role_tags_of :: "role_tags_data \<Rightarrow> role_tags" where
  "Role_tags_of tags =
     (let t = \<lparr>rt_botId = None, rt_integrationId = None, rt_premiumSubscriberRole = None,
                rt_subscriptionListingId = None, rt_availableForPurchase = None,
                rt_guildConnections = None\<rparr>;
          t = (if present (td_bot_id tags) then t\<lparr>rt_botId := td_bot_id tags\<rparr> else t);
          t = (if present (td_integration_id tags)
               then t\<lparr>rt_integrationId := td_integration_id tags\<rparr> else t);
          t = (if present (td_premium_subscriber tags)
               then t\<lparr>rt_premiumSubscriberRole := Some True\<rparr> else t);
          t = (if present (td_subscription_listing_id tags)
               then t\<lparr>rt_subscriptionListingId := td_subscription_listing_id tags\<rparr> else t);
          t = (if present (td_available_for_purchase tags)
               then t\<lparr>rt_availableForPurchase := Some True\<rparr> else t);
          t = (if present (td_guild_connections tags)
               then t\<lparr>rt_guildConnections := Some True\<rparr> else t)
      in t)"

text \<open>
  \<open>Role._patch\<close>. The only statement that can throw is
  \<open>BigInt(data.permissions)\<close>; \<open>Role_patch_head\<close> is the part of the body before
  it and \<open>Role_patch_tail\<close> the part after it. When the conversion throws, the result
  is the error. The assignments made before the throw stay on the object in JavaScript;
  no property below reads a role after a failed patch.
\<close>

definition Role_patch_head :: "role_data \<Rightarrow> 'rf role \<Rightarrow> 'rf role" where
  "Role_patch_head data this =
     (let this = this\<lparr>r_id := Some (rd_id data)\<rparr>;
          this = (if present (rd_name data) then this\<lparr>r_name := rd_name data\<rparr> else this);
          this = (if present (rd_color data) then this\<lparr>r_color := rd_color data\<rparr> else this);
          this = (if present (rd_hoist data) then this\<lparr>r_hoist := rd_hoist data\<rparr> else this);
          this = (if present (rd_position data)
                  then this\<lparr>r_rawPosition := rd_position data\<rparr> else this)
      in this)"

definition Role_patch_tail :: "(int option \<Rightarrow> 'rf) \<Rightarrow> role_data \<Rightarrow> 'rf role \<Rightarrow> 'rf role" where
  "Role_patch_tail RoleFlags_new data this =
     (let this = (if present (rd_managed data)
                  then this\<lparr>r_managed := rd_managed data\<rparr> else this);
          this = (if present (rd_mentionable data)
                  then this\<lparr>r_mentionable := rd_mentionable data\<rparr> else this);
          this = (if present (rd_icon data) then this\<lparr>r_icon := rd_icon data\<rparr> else this);
          this = (if present (rd_unicode_emoji data)
                  then this\<lparr>r_unicodeEmoji := rd_unicode_emoji data\<rparr> else this);
          this = this\<lparr>r_tags :=
                   (case rd_tags data of
                      Some (Val tags) \<Rightarrow> Some (Val (Role_tags_of tags))
                    | _ \<Rightarrow> Some Null)\<rparr>;
          this = (case rd_flags data of
                    Some flags \<Rightarrow> this\<lparr>r_flags := Some (RoleFlags_new (Some flags))\<rparr>
                  | None \<Rightarrow>
                      this\<lparr>r_flags :=
                        (case r_flags this of
                           None \<Rightarrow> Some (RoleFlags_new None)
                         | Some f \<Rightarrow> Some f)\<rparr>)
      in this)"

definition Role_patch :: "(int option \<Rightarrow> 'rf) \<Rightarrow> role_data \<Rightarrow> 'rf role \<Rightarrow> js_error + 'rf role" where
  "Role_patch RoleFlags_new data this =
     (let this = Role_patch_head data this
      in case rd_permissions data of
           None \<Rightarrow> Inr (Role_patch_tail RoleFlags_new data this)
         | Some permissions \<Rightarrow>
             (case BigInt permissions of
                Inl e \<Rightarrow> Inl e
              | Inr bits \<Rightarrow>
                  Inr (Role_patch_tail RoleFlags_new data (this\<lparr>r_permissions := Some bits\<rparr>))))"

text \<open>\<open>new Role(client, data, guild)\<close> with data.\<close>

definition Role_blank :: "'rf role" where
  "Role_blank =
     \<lparr>r_id = None, r_deleted = False, r_icon = Some Null, r_unicodeEmoji = Some Null,
      r_name = None, r_color = None, r_hoist = None, r_rawPosition = None,
      r_permissions = None, r_managed = None, r_mentionable = None, r_tags = None,
      r_flags = None\<rparr>"

definition Role_new :: "(int option \<Rightarrow> 'rf) \<Rightarrow> role_data \<Rightarrow> js_error + 'rf role" where
  "Role_new RoleFlags_new data = Role_patch RoleFlags_new data Role_blank"

section \<open>Computed positions\<close>

text \<open>
  The getter \<open>Role.position\<close>. Its argument \<open>roles\<close> is
  \<open>this.guild.roles.cache.values()\<close> in iteration order; the loop carries \<open>count\<close>.
  \<open>BigInt\<close> is only evaluated for a role of equal raw position, the id of \<open>this\<close>
  first.
\<close>

fun Role_position_loop :: "'rf role \<Rightarrow> 'rf role list \<Rightarrow> nat \<Rightarrow> js_error + nat" where
  "Role_position_loop this [] count = Inr count"
| "Role_position_loop this (role # roles) count =
     (if js_gt (r_rawPosition this) (r_rawPosition role)
      then Role_position_loop this roles (count + 1)
      else if r_rawPosition this = r_rawPosition role
      then (case BigInt_id (r_id this) of
              Inl e \<Rightarrow> Inl e
            | Inr a \<Rightarrow>
                (case BigInt_id (r_id role) of
                   Inl e \<Rightarrow> Inl e
                 | Inr b \<Rightarrow>
                     if a < b then Role_position_loop this roles (count + 1)
                     else Role_position_loop this roles count))
      else Role_position_loop this roles count)"

definition Role_position :: "'rf role list \<Rightarrow> 'rf role \<Rightarrow> js_error + nat" where
  "Role_position roles this = Role_position_loop this roles 0"

text \<open>
  The getter \<open>GuildChannel.position\<close>. \<open>channels\<close> is
  \<open>this.guild.channels.cache.values()\<close>; \<open>getSortableGroupTypes\<close> (of
  \<open>util/Util\<close>) is a parameter. Here the id of the other channel is converted first.
\<close>

fun GuildChannel_position_loop ::
  "string list \<Rightarrow> ('f, 'oc, 'z) guild_channel_scheme \<Rightarrow> ('f, 'oc, 'z) guild_channel_scheme list
     \<Rightarrow> nat \<Rightarrow> js_error + nat" where
  "GuildChannel_position_loop types this [] count = Inr count"
| "GuildChannel_position_loop types this (channel # channels) count =
     (if ch_type channel \<notin> set types
      then GuildChannel_position_loop types this channels count
      else if ch_type this \<noteq> ''GUILD_CATEGORY'' \<and> gc_parentId channel \<noteq> gc_parentId this
      then GuildChannel_position_loop types this channels count
      else if gc_rawPosition this = gc_rawPosition channel
      then (case BigInt_id (ch_id channel) of
              Inl e \<Rightarrow> Inl e
            | Inr b \<Rightarrow>
                (case BigInt_id (ch_id this) of
                   Inl e \<Rightarrow> Inl e
                 | Inr a \<Rightarrow>
                     if b < a then GuildChannel_position_loop types this channels (count + 1)
                     else GuildChannel_position_loop types this channels count))
      else if js_gt (gc_rawPosition this) (gc_rawPosition channel)
      then GuildChannel_position_loop types this channels (count + 1)
      else GuildChannel_position_loop types this channels count)"

definition GuildChannel_position ::
  "(string \<Rightarrow> string list) \<Rightarrow> ('f, 'oc, 'z) guild_channel_scheme list
     \<Rightarrow> ('f, 'oc, 'z) guild_channel_scheme \<Rightarrow> js_error + nat" where
  "GuildChannel_position getSortableGroupTypes channels this =
     GuildChannel_position_loop (getSortableGroupTypes (ch_type this)) this channels 0"

section \<open>Collections and managers\<close>

text \<open>
  A \<open>Collection\<close> is a JavaScript \<open>Map\<close>: keys are unique and keep their insertion
  order, \<open>set\<close> on a key that exists replaces the value in place. It is an association
  list; \<open>cache.get(k)\<close> is \<open>map_of cache k\<close>, \<open>cache.set(k, v)\<close> is
  \<open>AList.update k v cache\<close>, \<open>cache.delete(k)\<close> is \<open>AList.delete k cache\<close> and
  \<open>cache.clear()\<close> leaves \<open>[]\<close>.

  Roles and guilds are owned by one cache each and are kept there by value; the slot of
  the cache is the instance. A channel object is held by the cache of the client and by
  the cache of its guild at once, so channel objects live in a store and the caches hold
  their addresses.
\<close>

type_synonym 'v collection = "(string \<times> 'v) list"

text \<open>
  Modelled from the spec: \<open>resolve\<close> of the manager base class
  (\<open>managers/DataManager.js\<close> is not under src): it "accepts either an id or an
  already-resolved instance (idempotent); returns cache hit or null".
\<close>

datatype 'v resolvable = ById string | ByInstance 'v

definition Manager_resolve :: "'v collection \<Rightarrow> 'v resolvable \<Rightarrow> 'v option" where
  "Manager_resolve cache idOrInstance =
     (case idOrInstance of ByInstance v \<Rightarrow> Some v | ById i \<Rightarrow> map_of cache i)"

text \<open>
  Modelled from the spec: \<open>_add\<close> of the manager base class
  (\<open>managers/CachedManager.js\<close> is not under src): it "either creates a new V via new
  V(context, data, ...extraCtx) and inserts, or, if an entry with that id exists, calls
  existing.patch(data) and returns the same instance". \<open>key\<close> reads the id of a
  payload, \<open>new\<close> and \<open>patch\<close> are the constructor and the patch of the entity kind;
  an error of either is the result.
\<close>

definition Manager_add ::
  "('d \<Rightarrow> string) \<Rightarrow> ('d \<Rightarrow> js_error + 'v) \<Rightarrow> ('d \<Rightarrow> 'v \<Rightarrow> js_error + 'v) \<Rightarrow> 'd
     \<Rightarrow> 'v collection \<Rightarrow> js_error + ('v \<times> 'v collection)" where
  "Manager_add key new patch data cache =
     (case map_of cache (key data) of
        Some existing \<Rightarrow>
          (case patch data existing of
             Inl e \<Rightarrow> Inl e
           | Inr patched \<Rightarrow> Inr (patched, AList.update (key data) patched cache))
      | None \<Rightarrow>
          (case new data of
             Inl e \<Rightarrow> Inl e
           | Inr entry \<Rightarrow> Inr (entry, AList.update (key data) entry cache)))"

text \<open>\<open>RoleManager._add\<close>: the base class's \<open>_add\<close> for roles.\<close>

definition RoleManager_add ::
  "(int option \<Rightarrow> 'rf) \<Rightarrow> role_data \<Rightarrow> 'rf role collection
     \<Rightarrow> js_error + ('rf role \<times> 'rf role collection)" where
  "RoleManager_add RoleFlags_new data cache =
     Manager_add rd_id (Role_new RoleFlags_new) (Role_patch RoleFlags_new) data cache"

text \<open>
  The store of channel objects. An object is represented by the attributes of
  \<open>GuildChannel\<close>; \<open>next_channel\<close> is the address of the next object to be created.
  \<open>client_channels\<close> is \<open>client.channels.cache\<close>.
\<close>

record ('f, 'oc) channel_store =
  channel_at :: "nat \<Rightarrow> ('f, 'oc) guild_channel"
  next_channel :: nat
  client_channels :: "nat collection"

text \<open>
  The cache of a guild's channel manager. Its entries are set under \<open>channel.id\<close>,
  read from the channel object, and a \<open>Map\<close> takes \<open>undefined\<close> as a key like any
  other value; a key of this cache is therefore a \<open>string option\<close>, \<open>None\<close> being
  \<open>undefined\<close>. \<open>string_keys\<close> are the entries under a string, the only ones that
  a lookup by id can hit.
\<close>

type_synonym channel_cache = "(string option \<times> nat) list"

definition string_keys :: "(string option \<times> 'v) list \<Rightarrow> 'v collection" where
  "string_keys cache =
     concat (map (\<lambda>(k, v). case k of None \<Rightarrow> [] | Some i \<Rightarrow> [(i, v)]) cache)"

section \<open>Channel creation\<close>

text \<open>
  A \<open>ThreadChannel\<close> extends \<open>Channel\<close>, not \<open>GuildChannel\<close>. Of the attributes of
  the channel record it has \<open>id\<close>, \<open>type\<close>, \<open>flags\<close>, \<open>name\<close>, \<open>guildId\<close> and
  \<open>parentId\<close>; these are what \<open>ThreadChannel_new\<close> and \<open>ThreadChannel_patch\<close> give.
  The attributes that only threads have are not part of the record.
\<close>

definition ThreadChannel_patch ::
  "('f, 'oc, 'mc, 'tag) collab \<Rightarrow> channel_data \<Rightarrow> ('f, 'oc) guild_channel
     \<Rightarrow> ('f, 'oc) guild_channel" where
  "ThreadChannel_patch C data this =
     (let this = Channel_patch C data this;
          this = (if present (cd_name data) then this\<lparr>gc_name := cd_name data\<rparr> else this);
          this = (if present (cd_guild_id data)
                  then this\<lparr>gc_guildId := cd_guild_id data\<rparr> else this);
          this = (if present (cd_parent_id data)
                  then this\<lparr>gc_parentId := cd_parent_id data\<rparr>
                  else this\<lparr>gc_parentId := nullish (gc_parentId this) (Some Null)\<rparr>)
      in this)"

definition ThreadChannel_new ::
  "('f, 'oc, 'mc, 'tag) collab \<Rightarrow> (int \<Rightarrow> string option) \<Rightarrow> string option \<Rightarrow> channel_data
     \<Rightarrow> ('f, 'oc) guild_channel" where
  "ThreadChannel_new C ChannelTypes guild data =
     ThreadChannel_patch C data
       (channel.extend (Channel_new ChannelTypes data)
          (guild_channel.fields
             (case guild of Some g \<Rightarrow> Some (Val g) | None \<Rightarrow> cd_guild_id data)
             None (overwrites_empty C) None None))"

definition thread_types :: "string list" where
  "thread_types = [''GUILD_NEWS_THREAD'', ''GUILD_PUBLIC_THREAD'', ''GUILD_PRIVATE_THREAD'']"

definition guild_channel_types :: "string list" where
  "guild_channel_types =
     [''GUILD_TEXT'', ''GUILD_VOICE'', ''GUILD_CATEGORY'', ''GUILD_NEWS'',
      ''GUILD_STAGE_VOICE'', ''GUILD_FORUM'']"

text \<open>The name of the type of a payload under the table \<open>ChannelTypes\<close>.\<close>

definition type_name :: "(int \<Rightarrow> string option) \<Rightarrow> channel_data \<Rightarrow> string option" where
  "type_name ChannelTypes data =
     (case cd_type data of None \<Rightarrow> None | Some n \<Rightarrow> ChannelTypes n)"

text \<open>
  \<open>GuildChannelManager.resolve(channel)\<close>, which overrides the \<open>resolve\<close> of the
  base class: a \<open>ThreadChannel\<close> instance is resolved by its id through the cache, any
  other argument by the base class. An instance is a channel object, that is an address.
  The \<open>type\<close> of a channel is assigned by the constructor only, and \<open>Channel.create\<close>
  constructs a \<open>ThreadChannel\<close> exactly for the thread types, so an object is an
  instance of \<open>ThreadChannel\<close> when its type is a thread type. \<open>resolve(undefined)\<close>
  is \<open>null\<close>: \<open>undefined\<close> is neither an instance nor an id.
\<close>

definition GuildChannelManager_resolve ::
  "('f, 'oc) channel_store \<Rightarrow> channel_cache \<Rightarrow> nat resolvable \<Rightarrow> nat option" where
  "GuildChannelManager_resolve store cache channel =
     (case channel of
        ByInstance c \<Rightarrow>
          if ch_type (channel_at store c) \<in> set thread_types
          then (case ch_id (channel_at store c) of
                  None \<Rightarrow> None
                | Some i \<Rightarrow> Manager_resolve (string_keys cache) (ById i))
          else Manager_resolve (string_keys cache) (ByInstance c)
      | ById i \<Rightarrow> Manager_resolve (string_keys cache) (ById i))"

text \<open>
  \<open>GuildChannelManager._add(channel)\<close>. \<open>channel\<close> is a channel object and
  \<open>cache\<close> the cache of the guild's manager. The result is the returned object and
  the cache. An object without an id resolves to nothing and is set under the key
  \<open>undefined\<close>.
\<close>

definition GuildChannelManager_add ::
  "('f, 'oc) channel_store \<Rightarrow> nat \<Rightarrow> channel_cache \<Rightarrow> nat \<times> channel_cache" where
  "GuildChannelManager_add store channel cache =
     (case (case ch_id (channel_at store channel) of
              None \<Rightarrow> None
            | Some i \<Rightarrow> GuildChannelManager_resolve store cache (ById i)) of
        Some existing \<Rightarrow> (existing, cache)
      | None \<Rightarrow> (channel, AList.update (ch_id (channel_at store channel)) channel cache))"

text \<open>
  \<open>Channel.create(client, data, guild)\<close> as \<open>Guild._patch\<close> calls it: a guild is
  passed and \<open>allowUnknownGuild\<close> is not set, so the branch for direct messages is not
  taken. \<open>guild\<close> is the id of that guild and \<open>cache\<close> the cache of its channel
  manager. The \<open>switch\<close> compares \<open>data.type\<close> with the numbers of \<open>ChannelTypes\<close>;
  the table is two-way, so the comparison is made on the names. The classes that extend
  \<open>GuildChannel\<close> all construct with \<open>GuildChannel\<close>'s constructor and patch. A
  payload of any other type creates nothing, and nothing is cached. The registration of
  a thread with the thread manager of its parent is not modelled.
\<close>

definition Channel_create ::
  "('f, 'oc, 'mc, 'tag) collab \<Rightarrow> (int \<Rightarrow> string option) \<Rightarrow> channel_data \<Rightarrow> string
     \<Rightarrow> ('f, 'oc) channel_store \<times> channel_cache
     \<Rightarrow> nat option \<times> ('f, 'oc) channel_store \<times> channel_cache" where
  "Channel_create C ChannelTypes data guild sc =
     (let store = fst sc; cache = snd sc;
          channel =
            (case type_name ChannelTypes data of
               None \<Rightarrow> None
             | Some t \<Rightarrow>
                 if t \<in> set guild_channel_types
                 then Some (GuildChannel_patch C data
                              (GuildChannel_new C ChannelTypes (Some guild) data))
                 else if t \<in> set thread_types
                 then Some (ThreadChannel_new C ChannelTypes (Some guild) data)
                 else None)
      in case channel of
           None \<Rightarrow> (None, store, cache)
         | Some object \<Rightarrow>
             (Some (next_channel store),
              store\<lparr>channel_at := (channel_at store)(next_channel store := object),
                    next_channel := next_channel store + 1\<rparr>,
              AList.update (ch_id object) (next_channel store) cache))"


text \<open>
  \<open>existing._patch(data)\<close> on a channel object: the \<open>_patch\<close> of the object's class.
\<close>

definition object_patch ::
  "('f, 'oc, 'mc, 'tag) collab \<Rightarrow> channel_data \<Rightarrow> ('f, 'oc) guild_channel
     \<Rightarrow> ('f, 'oc) guild_channel" where
  "object_patch C data this =
     (if ch_type this \<in> set thread_types then ThreadChannel_patch C data this
      else GuildChannel_patch C data this)"

text \<open>
  Modelled from the spec: \<open>ChannelManager._add(data, guild)\<close>
  (\<open>managers/ChannelManager.js\<close> is not under src), the manager's \<open>add\<close> of the spec
  for \<open>client.channels\<close>: an entry of the client's cache with that id is patched and
  returned; otherwise \<open>Channel.create\<close> constructs the channel, and what it constructs
  is inserted into the client's cache. The entry that is found is also handed to
  \<open>GuildChannelManager._add\<close> of the guild that \<open>add\<close> is given: that method,
  which is under src, takes a channel object and has no other caller, and
  \<open>Guild._patch\<close> relies on it when it clears the guild's cache and adds channels that
  the client already holds.
\<close>

definition ChannelManager_add ::
  "('f, 'oc, 'mc, 'tag) collab \<Rightarrow> (int \<Rightarrow> string option) \<Rightarrow> channel_data \<Rightarrow> string
     \<Rightarrow> ('f, 'oc) channel_store \<times> channel_cache
     \<Rightarrow> nat option \<times> ('f, 'oc) channel_store \<times> channel_cache" where
  "ChannelManager_add C ChannelTypes data guild sc =
     (let store = fst sc; cache = snd sc
      in case map_of (client_channels store) (cd_id data) of
           Some existing \<Rightarrow>
             (let store = store\<lparr>channel_at := (channel_at store)
                            (existing := object_patch C data (channel_at store existing))\<rparr>
              in (Some existing, store, snd (GuildChannelManager_add store existing cache)))
         | None \<Rightarrow>
             (case Channel_create C ChannelTypes data guild (store, cache) of
                (None, store', cache') \<Rightarrow> (None, store', cache')
              | (Some channel, store', cache') \<Rightarrow>
                  (Some channel,
                   store'\<lparr>client_channels :=
                     AList.update (cd_id data) channel (client_channels store')\<rparr>,
                   cache')))"

section \<open>Guild\<close>

text \<open>
  The guild payload and the \<open>Guild\<close> structure, restricted to the id, the name, the
  availability and the collections that a snapshot carries. The other keys of the
  payload are scalars that \<open>_patch\<close> assigns under \<open>'key' in data\<close>; emojis, stickers
  and presences are left out. The managers of members, stage instances, scheduled
  events and voice states are collaborators: each is given by its empty cache and its
  \<open>_add\<close>.
\<close>

record guild_data =
  gd_id :: string
  gd_name :: "string option"
  gd_unavailable :: "bool option"
  gd_channels :: "channel_data list option"
  gd_threads :: "channel_data list option"
  gd_roles :: "role_data list option"
  gd_members :: "json list option"
  gd_stage_instances :: "json list option"
  gd_guild_scheduled_events :: "json list option"
  gd_voice_states :: "json list option"

record ('rf, 'mc, 'sc, 'ec, 'vc) guild =
  g_id :: "string option"
  g_deleted :: bool
  g_name :: "string option"
  g_available :: "bool option"
  g_channels :: channel_cache
  g_roles :: "'rf role collection"
  g_members :: "'mc"
  g_stageInstances :: "'sc"
  g_scheduledEvents :: "'ec"
  g_voiceStates :: "'vc"

record ('mc, 'sc, 'ec, 'vc) guild_managers =
  members_empty :: "'mc"
  members_add :: "json \<Rightarrow> 'mc \<Rightarrow> 'mc"
  stageInstances_empty :: "'sc"
  stageInstances_add :: "json \<Rightarrow> 'sc \<Rightarrow> 'sc"
  scheduledEvents_empty :: "'ec"
  scheduledEvents_add :: "json \<Rightarrow> 'ec \<Rightarrow> 'ec"
  voiceStates_empty :: "'vc"
  voiceStates_add :: "json \<Rightarrow> 'vc \<Rightarrow> 'vc"









text \<open>
  Modelled from the spec: the constructors of the base classes of \<open>Guild\<close>
  (\<open>structures/BaseGuild.js\<close> and \<open>structures/AnonymousGuild.js\<close> are not under
  src), which \<open>super(client, data, false)\<close> runs: an entity is "constructed with
  (context, rawData)" and has its id from then on; the name is taken from the data with
  it, and no patch is asked for. \<open>Guild_blank\<close> is the guild when the constructor of
  \<open>Guild\<close> reaches \<open>if (data.unavailable)\<close>: the base classes have run and the
  managers are empty.
\<close>

definition Guild_blank ::
  "('gm, 'gs, 'ge, 'gv) guild_managers \<Rightarrow> guild_data \<Rightarrow> ('rf, 'gm, 'gs, 'ge, 'gv) guild" where
  "Guild_blank M data =
     \<lparr>g_id = Some (gd_id data), g_deleted = False, g_name = gd_name data, g_available = None,
      g_channels = [], g_roles = [], g_members = members_empty M,
      g_stageInstances = stageInstances_empty M,
      g_scheduledEvents = scheduledEvents_empty M, g_voiceStates = voiceStates_empty M\<rparr>"


section \<open>The client and its action handlers\<close>

record ('f, 'oc, 'rf, 'gm, 'gs, 'ge, 'gv) client =
  client_store :: "('f, 'oc) channel_store"
  client_guilds :: "('rf, 'gm, 'gs, 'ge, 'gv) guild collection"





text \<open>
  The position updates. An entry of \<open>data.roles\<close> or \<open>data.channels\<close> has an id and
  a position.
\<close>

record position_entry =
  pe_id :: string
  pe_position :: "int option"

record positions_data =
  pd_guild_id :: string
  pd_entries :: "position_entry list"

fun set_role_positions :: "position_entry list \<Rightarrow> 'rf role collection \<Rightarrow> 'rf role collection" where
  "set_role_positions [] roles = roles"
| "set_role_positions (partialRole # rest) roles =
     set_role_positions rest
       (case Manager_resolve roles (ById (pe_id partialRole)) of
          None \<Rightarrow> roles
        | Some role \<Rightarrow>
            AList.update (pe_id partialRole)
              (role\<lparr>r_rawPosition := pe_position partialRole\<rparr>) roles)"

definition GuildRolesPositionUpdate_handle ::
  "positions_data \<Rightarrow> ('f, 'oc, 'rf, 'gm, 'gs, 'ge, 'gv) client
     \<Rightarrow> ('f, 'oc, 'rf, 'gm, 'gs, 'ge, 'gv) client \<times> ('rf, 'gm, 'gs, 'ge, 'gv) guild option" where
  "GuildRolesPositionUpdate_handle data client =
     (case Manager_resolve (client_guilds client) (ById (pd_guild_id data)) of
        None \<Rightarrow> (client, None)
      | Some guild \<Rightarrow>
          (let guild = guild\<lparr>g_roles := set_role_positions (pd_entries data) (g_roles guild)\<rparr>
           in (client\<lparr>client_guilds := AList.update (pd_guild_id data) guild (client_guilds client)\<rparr>,
               Some guild)))"

fun set_channel_positions ::
  "position_entry list \<Rightarrow> channel_cache \<Rightarrow> ('f, 'oc) channel_store \<Rightarrow> ('f, 'oc) channel_store" where
  "set_channel_positions [] cache store = store"
| "set_channel_positions (partialChannel # rest) cache store =
     set_channel_positions rest cache
       (case GuildChannelManager_resolve store cache (ById (pe_id partialChannel)) of
          None \<Rightarrow> store
        | Some channel \<Rightarrow>
            store\<lparr>channel_at := (channel_at store)
              (channel := (channel_at store channel)
                 \<lparr>gc_rawPosition := pe_position partialChannel\<rparr>)\<rparr>)"

definition GuildChannelsPositionUpdate_handle ::
  "positions_data \<Rightarrow> ('f, 'oc, 'rf, 'gm, 'gs, 'ge, 'gv) client
     \<Rightarrow> ('f, 'oc, 'rf, 'gm, 'gs, 'ge, 'gv) client \<times> ('rf, 'gm, 'gs, 'ge, 'gv) guild option" where
  "GuildChannelsPositionUpdate_handle data client =
     (case Manager_resolve (client_guilds client) (ById (pd_guild_id data)) of
        None \<Rightarrow> (client, None)
      | Some guild \<Rightarrow>
          (client\<lparr>client_store :=
             set_channel_positions (pd_entries data) (g_channels guild) (client_store client)\<rparr>,
           Some guild))"

section \<open>REST-triggered operations of the managers\<close>

text \<open>
  The REST collaborator is a parameter of each operation: it stands for the translation
  of the caller's options into the request body and the request, and answers with a
  payload or with the error that is thrown or rejected on the way. The classes of the
  Action layer (\<open>client/actions/GuildRoleCreate.js\<close>, \<open>ChannelCreate.js\<close>,
  \<open>ChannelUpdate.js\<close>) are not under src; the \<open>handle\<close> of each is a parameter
  that takes the payload and the client and gives the client and the object it returns.
  The result of an operation is the client after the call and what the promise settles
  to.

  \<open>RoleManager.create(options)\<close>; \<open>guild_id\<close> is \<open>this.guild.id\<close>, and \<open>'r\<close> the
  \<open>role\<close> of the handler's result.
\<close>

definition RoleManager_create ::
  "(string option \<Rightarrow> role_data \<Rightarrow> 'c \<Rightarrow> 'c \<times> 'r)
     \<Rightarrow> (string option \<Rightarrow> 'opts \<Rightarrow> js_error + role_data)
     \<Rightarrow> string option \<Rightarrow> 'opts \<Rightarrow> 'c \<Rightarrow> 'c \<times> (js_error + 'r)" where
  "RoleManager_create GuildRoleCreate_handle api_post guild_id options client =
     (case api_post guild_id options of
        Inl e \<Rightarrow> (client, Inl e)
      | Inr data \<Rightarrow>
          (case GuildRoleCreate_handle guild_id data client of
             (client', role) \<Rightarrow> (client', Inr role)))"

text \<open>
  \<open>RoleManager.edit(role, data, reason)\<close> on the role cache of a guild, the only part
  of the client that it reads. The result is the cache after the call and what the
  promise settles to. \<open>role._clone()\<close> is a copy of the role.
\<close>

definition RoleManager_edit ::
  "(int option \<Rightarrow> 'rf) \<Rightarrow> (string option \<Rightarrow> 'opts \<Rightarrow> js_error + role_data)
     \<Rightarrow> 'rf role resolvable \<Rightarrow> 'opts \<Rightarrow> 'rf role collection
     \<Rightarrow> 'rf role collection \<times> (js_error + 'rf role)" where
  "RoleManager_edit RoleFlags_new api_patch role data cache =
     (case Manager_resolve cache role of
        None \<Rightarrow> (cache, Inl (TypeError ''INVALID_TYPE''))
      | Some role \<Rightarrow>
          (case api_patch (r_id role) data of
             Inl e \<Rightarrow> (cache, Inl e)
           | Inr d \<Rightarrow>
               (let clone = role
                in (cache, Role_patch RoleFlags_new d clone))))"

text \<open>
  \<open>GuildChannelManager.create(name, options)\<close>; \<open>'r\<close> is the \<open>channel\<close> of the
  handler's result.
\<close>

definition GuildChannelManager_create ::
  "(channel_data \<Rightarrow> 'c \<Rightarrow> 'c \<times> 'r)
     \<Rightarrow> (string option \<Rightarrow> string \<Rightarrow> 'opts \<Rightarrow> js_error + channel_data)
     \<Rightarrow> string option \<Rightarrow> string \<Rightarrow> 'opts \<Rightarrow> 'c \<Rightarrow> 'c \<times> (js_error + 'r)" where
  "GuildChannelManager_create ChannelCreate_handle api_post guild_id name options client =
     (case api_post guild_id name options of
        Inl e \<Rightarrow> (client, Inl e)
      | Inr data \<Rightarrow>
          (case ChannelCreate_handle data client of
             (client', channel) \<Rightarrow> (client', Inr channel)))"

text \<open>
  \<open>GuildChannelManager.edit(channel, data, reason)\<close>. \<open>store\<close> holds the channel
  objects and \<open>cache\<close> is the cache of the manager; \<open>'r\<close> is the \<open>updated\<close> of the
  handler's result. The channel is resolved by the manager's own \<open>resolve\<close>.
\<close>

definition GuildChannelManager_edit ::
  "(channel_data \<Rightarrow> 'c \<Rightarrow> 'c \<times> 'r)
     \<Rightarrow> (string option \<Rightarrow> 'opts \<Rightarrow> js_error + channel_data)
     \<Rightarrow> ('f, 'oc) channel_store \<Rightarrow> channel_cache \<Rightarrow> nat resolvable \<Rightarrow> 'opts \<Rightarrow> 'c
     \<Rightarrow> 'c \<times> (js_error + 'r)" where
  "GuildChannelManager_edit ChannelUpdate_handle api_patch store cache channel data client =
     (case GuildChannelManager_resolve store cache channel of
        None \<Rightarrow> (client, Inl (TypeError ''INVALID_TYPE''))
      | Some channel \<Rightarrow>
          (case api_patch (ch_id (channel_at store channel)) data of
             Inl e \<Rightarrow> (client, Inl e)
           | Inr newData \<Rightarrow>
               (case ChannelUpdate_handle newData client of
                  (client', updated) \<Rightarrow> (client', Inr updated))))"

text \<open>
  Modelled from the spec: \<open>resolveId\<close> of the manager base class
  (\<open>managers/DataManager.js\<close> is not under src), the "symmetric id-extraction": an
  instance gives its id, an id is given back. \<open>id_of\<close> reads the id of an instance.
\<close>

definition Manager_resolveId :: "('v \<Rightarrow> string option) \<Rightarrow> 'v resolvable \<Rightarrow> string option" where
  "Manager_resolveId id_of idOrInstance =
     (case idOrInstance of ByInstance v \<Rightarrow> id_of v | ById i \<Rightarrow> Some i)"

text \<open>
  \<open>GuildChannelManager.resolveId(channel)\<close>, which overrides the base class like
  \<open>resolve\<close> does; \<open>resolveId(undefined)\<close> is \<open>null\<close>.
\<close>

definition GuildChannelManager_resolveId ::
  "('f, 'oc) channel_store \<Rightarrow> nat resolvable \<Rightarrow> string option" where
  "GuildChannelManager_resolveId store channel =
     (case channel of
        ByInstance c \<Rightarrow>
          if ch_type (channel_at store c) \<in> set thread_types
          then (case ch_id (channel_at store c) of
                  None \<Rightarrow> None
                | Some i \<Rightarrow> Manager_resolveId (\<lambda>c. ch_id (channel_at store c)) (ById i))
          else Manager_resolveId (\<lambda>c. ch_id (channel_at store c)) (ByInstance c)
      | ById i \<Rightarrow> Manager_resolveId (\<lambda>c. ch_id (channel_at store c)) (ById i))"

text \<open>
  \<open>GuildChannelManager.delete(channel, reason)\<close>. \<open>!id\<close> holds for \<open>null\<close> and for
  the empty string. The answer of the collaborator is not used, no handler is called and
  the promise resolves with \<open>undefined\<close>.
\<close>

definition GuildChannelManager_delete ::
  "(string \<Rightarrow> 'reason \<Rightarrow> js_error + 'a) \<Rightarrow> ('f, 'oc) channel_store \<Rightarrow> nat resolvable
     \<Rightarrow> 'reason \<Rightarrow> 'c \<Rightarrow> 'c \<times> (js_error + unit)" where
  "GuildChannelManager_delete api_delete store channel reason client =
     (case GuildChannelManager_resolveId store channel of
        None \<Rightarrow> (client, Inl (TypeError ''INVALID_TYPE''))
      | Some i \<Rightarrow>
          if i = [] then (client, Inl (TypeError ''INVALID_TYPE''))
          else (case api_delete i reason of
                  Inl e \<Rightarrow> (client, Inl e)
                | Inr answer \<Rightarrow> (client, Inr ())))"

section \<open>Permissions\<close>

text \<open>
  The constants \<open>Permissions.FLAGS.ADMINISTRATOR\<close>, \<open>Permissions.ALL\<close> and
  \<open>Permissions.defaultBit\<close> are parameters.
\<close>

record permission_constants =
  FLAGS_ADMINISTRATOR :: int
  Permissions_ALL :: int
  Permissions_defaultBit :: int

text \<open>
  Modelled from the spec: the Bitflag value type (\<open>util/BitField.js\<close> and
  \<open>util/Permissions.js\<close> are not under src), "a named set of boolean capabilities
  packed into an integer" with value semantics. \<open>has(flag, checkAdministratorOverride)\<close>:
  "when true and an all-powerful flag is present, has short-circuits to true regardless
  of the specific flag queried"; otherwise the bits of the flag decide. \<open>add\<close> and
  \<open>remove\<close> give the set with the bits added or removed; a set built from a list of
  sets is their union. A \<open>Permissions\<close> object is its bitfield, an integer as a
  JavaScript \<open>BigInt\<close> is.
\<close>

definition BitField_has :: "int \<Rightarrow> int \<Rightarrow> bool" where
  "BitField_has bitfield bits = (bitfield AND bits = bits)"

definition Permissions_has :: "permission_constants \<Rightarrow> int \<Rightarrow> int \<Rightarrow> bool \<Rightarrow> bool" where
  "Permissions_has K bitfield permission checkAdmin =
     ((checkAdmin \<and> BitField_has bitfield (FLAGS_ADMINISTRATOR K)) \<or> BitField_has bitfield permission)"

definition Permissions_add :: "int \<Rightarrow> int \<Rightarrow> int" where
  "Permissions_add bitfield bits = bitfield OR bits"

definition Permissions_remove :: "int \<Rightarrow> int \<Rightarrow> int" where
  "Permissions_remove bitfield bits = bitfield AND NOT bits"

definition Permissions_of_list :: "permission_constants \<Rightarrow> int list \<Rightarrow> int" where
  "Permissions_of_list K bits = foldl (\<lambda>prev p. prev OR p) (Permissions_defaultBit K) bits"

text \<open>
  Modelled from the spec: the constructor of the Bitflag value type on an array, as
  \<open>new Permissions(roles.map(role => role.permissions))\<close> calls it. A set is
  "constructed from a raw integer, an array of flag names, or another instance"; an
  element of the array that is none of these, as \<open>undefined\<close> is, makes the
  construction throw a \<open>RangeError\<close>. Otherwise the set is the union of the elements.
\<close>

definition Permissions_new :: "permission_constants \<Rightarrow> int option list \<Rightarrow> js_error + int" where
  "Permissions_new K bits =
     (if None \<in> set bits then Inl (RangeError ''BITFIELD_INVALID'')
      else Inr (Permissions_of_list K
                  (concat (map (\<lambda>b. case b of None \<Rightarrow> [] | Some p \<Rightarrow> [p]) bits))))"

text \<open>
  A permission overwrite, with the bitfields of its \<open>allow\<close> and \<open>deny\<close>; a guild
  member, with the cache of its roles; and the result of \<open>overwritesFor\<close>.
\<close>

record overwrite =
  ow_id :: string
  ow_allow :: int
  ow_deny :: int

record 'rf member =
  m_id :: string
  m_roles :: "'rf role collection"

record overwrites_for =
  of_everyone :: "overwrite option"
  of_roles :: "overwrite list"
  of_member :: "overwrite option"

text \<open>
  \<open>GuildChannel.overwritesFor(member, true, roles)\<close> as \<open>memberPermissions\<close> calls
  it: the member is verified and \<open>roles\<close> is the member's role cache. \<open>guild_id\<close> is
  \<open>this.guild.id\<close>.
\<close>

fun overwritesFor_loop ::
  "string option \<Rightarrow> 'rf member \<Rightarrow> overwrite list \<Rightarrow> overwrites_for \<Rightarrow> overwrites_for" where
  "overwritesFor_loop guild_id member [] acc = acc"
| "overwritesFor_loop guild_id member (overwrite # rest) acc =
     overwritesFor_loop guild_id member rest
       (if Some (ow_id overwrite) = guild_id then acc\<lparr>of_everyone := Some overwrite\<rparr>
        else if map_of (m_roles member) (ow_id overwrite) \<noteq> None
        then acc\<lparr>of_roles := of_roles acc @ [overwrite]\<rparr>
        else if ow_id overwrite = m_id member then acc\<lparr>of_member := Some overwrite\<rparr>
        else acc)"

definition overwritesFor ::
  "string option \<Rightarrow> overwrite collection \<Rightarrow> 'rf member \<Rightarrow> overwrites_for" where
  "overwritesFor guild_id permissionOverwrites member =
     overwritesFor_loop guild_id member (map snd permissionOverwrites)
       \<lparr>of_everyone = None, of_roles = [], of_member = None\<rparr>"

text \<open>
  \<open>GuildChannel.memberPermissions\<close> and \<open>GuildChannel.rolePermissions\<close>.
  \<open>ownerId\<close> is \<open>this.guild.ownerId\<close> and \<open>permissionOverwrites\<close> the cache of the
  channel's overwrite manager. The \<open>permissions\<close> of a role that was never given any
  are \<open>undefined\<close>: the set of a member with such a role cannot be constructed, and
  \<open>rolePermissions\<close> on such a role throws, since it calls a method of \<open>undefined\<close>.
\<close>

definition memberPermissions ::
  "permission_constants \<Rightarrow> string option \<Rightarrow> string option \<Rightarrow> overwrite collection
     \<Rightarrow> 'rf member \<Rightarrow> bool \<Rightarrow> js_error + int" where
  "memberPermissions K guild_id ownerId permissionOverwrites member checkAdmin =
     (if checkAdmin \<and> Some (m_id member) = ownerId then Inr (Permissions_ALL K)
      else
        (let roles = m_roles member
         in case Permissions_new K (map (r_permissions \<circ> snd) roles) of
              Inl e \<Rightarrow> Inl e
            | Inr permissions \<Rightarrow>
                if checkAdmin \<and> Permissions_has K permissions (FLAGS_ADMINISTRATOR K) True
                then Inr (Permissions_ALL K)
                else
                  (let overwrites = overwritesFor guild_id permissionOverwrites member;
                       permissions = Permissions_remove permissions
                         (case of_everyone overwrites of
                            Some e \<Rightarrow> ow_deny e | None \<Rightarrow> Permissions_defaultBit K);
                       permissions = Permissions_add permissions
                         (case of_everyone overwrites of
                            Some e \<Rightarrow> ow_allow e | None \<Rightarrow> Permissions_defaultBit K);
                       permissions = Permissions_remove permissions
                         (if length (of_roles overwrites) > 0
                          then Permissions_of_list K (map ow_deny (of_roles overwrites))
                          else Permissions_defaultBit K);
                       permissions = Permissions_add permissions
                         (if length (of_roles overwrites) > 0
                          then Permissions_of_list K (map ow_allow (of_roles overwrites))
                          else Permissions_defaultBit K);
                       permissions = Permissions_remove permissions
                         (case of_member overwrites of
                            Some m \<Rightarrow> ow_deny m | None \<Rightarrow> Permissions_defaultBit K);
                       permissions = Permissions_add permissions
                         (case of_member overwrites of
                            Some m \<Rightarrow> ow_allow m | None \<Rightarrow> Permissions_defaultBit K)
                   in Inr permissions)))"

definition rolePermissions ::
  "permission_constants \<Rightarrow> string option \<Rightarrow> overwrite collection \<Rightarrow> 'rf role \<Rightarrow> bool
     \<Rightarrow> js_error + int" where
  "rolePermissions K guild_id permissionOverwrites role checkAdmin =
     (case r_permissions role of
        None \<Rightarrow> Inl (TypeError ''Cannot read properties of undefined'')
      | Some bits \<Rightarrow>
          if checkAdmin \<and> Permissions_has K bits (FLAGS_ADMINISTRATOR K) True then Inr (Permissions_ALL K)
          else
            (let everyoneOverwrites =
                   (case guild_id of None \<Rightarrow> None | Some g \<Rightarrow> map_of permissionOverwrites g);
                 roleOverwrites =
                   (case r_id role of None \<Rightarrow> None | Some i \<Rightarrow> map_of permissionOverwrites i);
                 permissions = Permissions_remove bits
                   (case everyoneOverwrites of Some e \<Rightarrow> ow_deny e | None \<Rightarrow> Permissions_defaultBit K);
                 permissions = Permissions_add permissions
                   (case everyoneOverwrites of Some e \<Rightarrow> ow_allow e | None \<Rightarrow> Permissions_defaultBit K);
                 permissions = Permissions_remove permissions
                   (case roleOverwrites of Some r \<Rightarrow> ow_deny r | None \<Rightarrow> Permissions_defaultBit K);
                 permissions = Permissions_add permissions
                   (case roleOverwrites of Some r \<Rightarrow> ow_allow r | None \<Rightarrow> Permissions_defaultBit K)
             in Inr permissions))"

section \<open>What the position loops count\<close>

text \<open>
  \<open>idnum\<close> is the number a numeric id denotes and \<open>numeric_id\<close> says that the id
  converts. \<open>role_below this role\<close> and \<open>channel_before types this channel\<close> are the
  tests under which the two loops increment \<open>count\<close>. Two channels are siblings when
  they have the same sortable group, to which both belong, are both categories or both
  not, and have the same parent.
\<close>

definition idnum :: "string option \<Rightarrow> int" where
  "idnum i = (case BigInt_id i of Inr n \<Rightarrow> n | Inl e \<Rightarrow> 0)"

definition numeric_id :: "string option \<Rightarrow> bool" where
  "numeric_id i = (case BigInt_id i of Inr n \<Rightarrow> True | Inl e \<Rightarrow> False)"

definition role_below :: "'rf role \<Rightarrow> 'rf role \<Rightarrow> bool" where
  "role_below this role =
     (js_gt (r_rawPosition this) (r_rawPosition role)
      \<or> (r_rawPosition this = r_rawPosition role \<and> idnum (r_id this) < idnum (r_id role)))"

definition channel_before ::
  "string list \<Rightarrow> ('f, 'oc, 'z) guild_channel_scheme \<Rightarrow> ('f, 'oc, 'z) guild_channel_scheme \<Rightarrow> bool" where
  "channel_before types this channel =
     (ch_type channel \<in> set types
      \<and> (ch_type this = ''GUILD_CATEGORY'' \<or> gc_parentId channel = gc_parentId this)
      \<and> (if gc_rawPosition this = gc_rawPosition channel
          then idnum (ch_id channel) < idnum (ch_id this)
          else js_gt (gc_rawPosition this) (gc_rawPosition channel)))"

definition channel_siblings ::
  "(string \<Rightarrow> string list) \<Rightarrow> ('f, 'oc, 'z) guild_channel_scheme
     \<Rightarrow> ('f, 'oc, 'z) guild_channel_scheme \<Rightarrow> bool" where
  "channel_siblings G a b =
     (G (ch_type a) = G (ch_type b)
      \<and> ch_type a \<in> set (G (ch_type a)) \<and> ch_type b \<in> set (G (ch_type b))
      \<and> (ch_type a = ''GUILD_CATEGORY'') = (ch_type b = ''GUILD_CATEGORY'')
      \<and> gc_parentId a = gc_parentId b)"

text \<open>A grouping of channel types for the examples.\<close>

definition example_getSortableGroupTypes :: "string \<Rightarrow> string list" where
  "example_getSortableGroupTypes t =
     (if t \<in> set [''GUILD_TEXT'', ''GUILD_NEWS'', ''GUILD_FORUM'']
      then [''GUILD_TEXT'', ''GUILD_NEWS'', ''GUILD_FORUM'']
      else [t])"

section \<open>Payload algebra used to state the patch laws\<close>

text \<open>
  The field-wise union of two payloads, the later payload winning where both carry a
  key, and disjointness of their field sets. The \<open>id\<close> of a channel payload and the
  \<open>user_id\<close> of a voice state payload identify the entity and are carried by every
  payload; they are not counted among the fields.
\<close>

definition later :: "'a option \<Rightarrow> 'a option \<Rightarrow> 'a option" where
  "later p1 p2 = (case p2 of Some v \<Rightarrow> Some v | None \<Rightarrow> p1)"

definition both :: "'a option \<Rightarrow> 'b option \<Rightarrow> bool" where
  "both p1 p2 = (present p1 \<and> present p2)"

definition voice_state_data_union :: "voice_state_data \<Rightarrow> voice_state_data \<Rightarrow> voice_state_data" where
  "voice_state_data_union P1 P2 =
     \<lparr>vd_user_id = vd_user_id P2,
      vd_deaf = later (vd_deaf P1) (vd_deaf P2),
      vd_mute = later (vd_mute P1) (vd_mute P2),
      vd_self_deaf = later (vd_self_deaf P1) (vd_self_deaf P2),
      vd_self_mute = later (vd_self_mute P1) (vd_self_mute P2),
      vd_self_video = later (vd_self_video P1) (vd_self_video P2),
      vd_session_id = later (vd_session_id P1) (vd_session_id P2),
      vd_self_stream = later (vd_self_stream P1) (vd_self_stream P2),
      vd_channel_id = later (vd_channel_id P1) (vd_channel_id P2),
      vd_suppress = later (vd_suppress P1) (vd_suppress P2),
      vd_request_to_speak_timestamp =
        later (vd_request_to_speak_timestamp P1) (vd_request_to_speak_timestamp P2)\<rparr>"

definition voice_state_data_disjoint :: "voice_state_data \<Rightarrow> voice_state_data \<Rightarrow> bool" where
  "voice_state_data_disjoint P1 P2 =
     (\<not> both (vd_deaf P1) (vd_deaf P2) \<and> \<not> both (vd_mute P1) (vd_mute P2)
      \<and> \<not> both (vd_self_deaf P1) (vd_self_deaf P2)
      \<and> \<not> both (vd_self_mute P1) (vd_self_mute P2)
      \<and> \<not> both (vd_self_video P1) (vd_self_video P2)
      \<and> \<not> both (vd_session_id P1) (vd_session_id P2)
      \<and> \<not> both (vd_self_stream P1) (vd_self_stream P2)
      \<and> \<not> both (vd_channel_id P1) (vd_channel_id P2)
      \<and> \<not> both (vd_suppress P1) (vd_suppress P2)
      \<and> \<not> both (vd_request_to_speak_timestamp P1) (vd_request_to_speak_timestamp P2))"

definition channel_data_union :: "channel_data \<Rightarrow> channel_data \<Rightarrow> channel_data" where
  "channel_data_union P1 P2 =
     \<lparr>cd_id = cd_id P2,
      cd_type = later (cd_type P1) (cd_type P2),
      cd_flags = later (cd_flags P1) (cd_flags P2),
      cd_name = later (cd_name P1) (cd_name P2),
      cd_position = later (cd_position P1) (cd_position P2),
      cd_guild_id = later (cd_guild_id P1) (cd_guild_id P2),
      cd_parent_id = later (cd_parent_id P1) (cd_parent_id P2),
      cd_permission_overwrites =
        later (cd_permission_overwrites P1) (cd_permission_overwrites P2),
      cd_topic = later (cd_topic P1) (cd_topic P2),
      cd_nsfw = later (cd_nsfw P1) (cd_nsfw P2),
      cd_default_auto_archive_duration =
        later (cd_default_auto_archive_duration P1) (cd_default_auto_archive_duration P2),
      cd_default_thread_rate_limit_per_user =
        later (cd_default_thread_rate_limit_per_user P1)
          (cd_default_thread_rate_limit_per_user P2),
      cd_rate_limit_per_user = later (cd_rate_limit_per_user P1) (cd_rate_limit_per_user P2),
      cd_messages = later (cd_messages P1) (cd_messages P2),
      cd_available_tags = later (cd_available_tags P1) (cd_available_tags P2)\<rparr>"

section \<open>Concrete payloads and collaborators for the examples\<close>

text \<open>
  \<open>vd_only u\<close> is the payload \<open>{user_id: u}\<close>, and \<open>cd_only i\<close> and
  \<open>gd_only i\<close> are the channel and the guild payload \<open>{id: i}\<close>; larger payloads
  are written as updates of these. The example
  collaborators keep raw JSON: caches are lists in insertion order, a flags object is its
  bitfield, \<open>Date.parse\<close> is a stand-in that returns the length of its argument.
\<close>

definition vd_only :: "string \<Rightarrow> voice_state_data" where
  "vd_only u =
     \<lparr>vd_user_id = u, vd_deaf = None, vd_mute = None, vd_self_deaf = None,
      vd_self_mute = None, vd_self_video = None, vd_session_id = None,
      vd_self_stream = None, vd_channel_id = None, vd_suppress = None,
      vd_request_to_speak_timestamp = None\<rparr>"

definition cd_only :: "string \<Rightarrow> channel_data" where
  "cd_only i =
     \<lparr>cd_id = i, cd_type = None, cd_flags = None, cd_name = None, cd_position = None,
      cd_guild_id = None, cd_parent_id = None, cd_permission_overwrites = None,
      cd_topic = None, cd_nsfw = None, cd_default_auto_archive_duration = None,
      cd_default_thread_rate_limit_per_user = None, cd_rate_limit_per_user = None,
      cd_messages = None, cd_available_tags = None\<rparr>"

definition gd_only :: "string \<Rightarrow> guild_data" where
  "gd_only i =
     \<lparr>gd_id = i, gd_name = None, gd_unavailable = None, gd_channels = None,
      gd_threads = None, gd_roles = None, gd_members = None, gd_stage_instances = None,
      gd_guild_scheduled_events = None, gd_voice_states = None\<rparr>"

definition example_Date_parse :: "string \<Rightarrow> nat" where
  "example_Date_parse s = length s"

definition example_collab :: "(int, json list, json list, json) collab" where
  "example_collab =
     \<lparr>ChannelFlags_new = (\<lambda>bits. bits),
      overwrites_empty = [],
      overwrites_add = (\<lambda>overwrite cache. cache @ [overwrite]),
      messages_empty = [],
      messages_add = (\<lambda>message cache. cache @ [message]),
      transformAPIGuildForumTag = (\<lambda>tag. tag)\<rparr>"

text \<open>The channel types of the wire protocol that the examples use.\<close>

definition example_ChannelTypes :: "int \<Rightarrow> string option" where
  "example_ChannelTypes n =
     (if n = 0 then Some ''GUILD_TEXT'' else if n = 2 then Some ''GUILD_VOICE''
      else if n = 4 then Some ''GUILD_CATEGORY'' else if n = 15 then Some ''GUILD_FORUM''
      else None)"

text \<open>
  Example collaborators for roles and guilds, an example text channel with an id and a
  name, an example role at raw position 0, and a store that holds the given channel
  objects at the addresses 0, 1, ...
\<close>

definition example_RoleFlags_new :: "int option \<Rightarrow> int" where
  "example_RoleFlags_new bits = (case bits of None \<Rightarrow> 0 | Some b \<Rightarrow> b)"

definition example_guild_managers :: "(json list, json list, json list, json list) guild_managers" where
  "example_guild_managers =
     \<lparr>members_empty = [], members_add = (\<lambda>raw cache. cache @ [raw]),
      stageInstances_empty = [], stageInstances_add = (\<lambda>raw cache. cache @ [raw]),
      scheduledEvents_empty = [], scheduledEvents_add = (\<lambda>raw cache. cache @ [raw]),
      voiceStates_empty = [], voiceStates_add = (\<lambda>raw cache. cache @ [raw])\<rparr>"

definition example_channel :: "string \<Rightarrow> string \<Rightarrow> (int, json list) guild_channel" where
  "example_channel i n =
     GuildChannel_patch example_collab ((cd_only i)\<lparr>cd_type := Some 0, cd_name := Some (Val n)\<rparr>)
       (GuildChannel_new example_collab example_ChannelTypes (Some ''9'')
          ((cd_only i)\<lparr>cd_type := Some 0, cd_name := Some (Val n)\<rparr>))"

definition example_store :: "(int, json list) guild_channel list \<Rightarrow> (int, json list) channel_store" where
  "example_store objects =
     \<lparr>channel_at = (\<lambda>a. if a < length objects then objects ! a else example_channel [] []),
      next_channel = length objects, client_channels = []\<rparr>"

definition example_role :: "string \<Rightarrow> string \<Rightarrow> int role" where
  "example_role i n = Role_blank\<lparr>r_id := Some i, r_name := Some n, r_rawPosition := Some 0\<rparr>"

text \<open>
  An example client: the guild \<open>"9"\<close> with the role \<open>"10"\<close> and the channel \<open>"1"\<close>,
  which is the object at address 0.
\<close>

definition example_guild :: "(int, json list, json list, json list, json list) guild" where
  "example_guild =
     (Guild_blank example_guild_managers (gd_only ''9''))
       \<lparr>g_channels := [(Some ''1'', 0)],
        g_roles := [(''10'', example_role ''10'' ''everyone'')]\<rparr>"

definition example_client ::
  "(int, json list, int, json list, json list, json list, json list) client" where
  "example_client =
     \<lparr>client_store = (example_store [example_channel ''1'' ''general''])
                        \<lparr>client_channels := [(''1'', 0)]\<rparr>,
      client_guilds = [(''9'', example_guild)]\<rparr>"




text \<open>
  \<open>rd_only i\<close> is the role payload \<open>{id: i}\<close>. The example REST collaborator
  answers an edit of a role with \<open>{id, name}\<close>, where the name is the caller's option.
\<close>

definition rd_only :: "string \<Rightarrow> role_data" where
  "rd_only i =
     \<lparr>rd_id = i, rd_name = None, rd_color = None, rd_hoist = None, rd_position = None,
      rd_permissions = None, rd_managed = None, rd_mentionable = None, rd_icon = None,
      rd_unicode_emoji = None, rd_tags = None, rd_flags = None\<rparr>"

definition example_api_patch :: "string option \<Rightarrow> string \<Rightarrow> js_error + role_data" where
  "example_api_patch i name =
     (case i of
        None \<Rightarrow> Inl (Rejected ''404'')
      | Some role_id \<Rightarrow> Inr ((rd_only role_id)\<lparr>rd_name := Some name\<rparr>))"

text \<open>
  Examples for the parameters of the channel operations: a \<open>ChannelUpdate\<close> handler
  that patches the channel which the client holds under the payload's id and reports it
  as updated, a REST collaborator that answers an edit with \<open>{id, name}\<close>, one that
  answers a deletion, and a thread, which is the example channel with the type of a
  public thread.
\<close>

definition example_ChannelUpdate_handle ::
  "channel_data \<Rightarrow> (int, json list, int, json list, json list, json list, json list) client
     \<Rightarrow> (int, json list, int, json list, json list, json list, json list) client \<times> nat option" where
  "example_ChannelUpdate_handle data client =
     (case map_of (client_channels (client_store client)) (cd_id data) of
        None \<Rightarrow> (client, None)
      | Some channel \<Rightarrow>
          (client\<lparr>client_store :=
             (client_store client)
               \<lparr>channel_at := (channel_at (client_store client))
                  (channel := object_patch example_collab data
                                (channel_at (client_store client) channel))\<rparr>\<rparr>,
           Some channel))"

definition example_channel_api_patch :: "string option \<Rightarrow> string \<Rightarrow> js_error + channel_data" where
  "example_channel_api_patch i name =
     (case i of
        None \<Rightarrow> Inl (Rejected ''404'')
      | Some channel_id \<Rightarrow> Inr ((cd_only channel_id)\<lparr>cd_name := Some (Val name)\<rparr>))"

definition example_api_delete :: "string \<Rightarrow> string \<Rightarrow> js_error + json" where
  "example_api_delete i reason = Inr JNull"

definition example_thread :: "string \<Rightarrow> string \<Rightarrow> (int, json list) guild_channel" where
  "example_thread i n = (example_channel i n)\<lparr>ch_type := ''GUILD_PUBLIC_THREAD''\<rparr>"

text \<open>
  Example permission constants: \<open>ADMINISTRATOR\<close> is bit 3, \<open>ALL\<close> the twelve lowest
  bits. The flag 2048 (bit 11) stands for \<open>SEND_MESSAGES\<close>.
\<close>

definition example_permissions :: permission_constants where
  "example_permissions = \<lparr>FLAGS_ADMINISTRATOR = 8, Permissions_ALL = 2047 + 2048, Permissions_defaultBit = 0\<rparr>"



text \<open>The channel objects that a position update lists and the guild's cache holds.\<close>

definition listed_channels :: "position_entry list \<Rightarrow> channel_cache \<Rightarrow> nat set" where
  "listed_channels ps cache = {a. \<exists>p \<in> set ps. map_of cache (Some (pe_id p)) = Some a}"

section \<open>Properties of VoiceState\<close>

lemma nullish_simps:
  "nullish None b = b"
  "nullish (Some Null) b = b"
  "nullish (Some (Val v)) b = Some (Val v)"
  by (simp_all add: nullish_def)

lemma later_simps:
  "later p None = p"
  "later p (Some v) = Some v"
  by (simp_all add: later_def)

lemma VoiceState_patch_sels:
  "vs_id (VoiceState_patch D data this) = vs_id this"
  "vs_serverDeaf (VoiceState_patch D data this) =
     (if present (vd_deaf data) then vd_deaf data else nullish (vs_serverDeaf this) (Some Null))"
  "vs_serverMute (VoiceState_patch D data this) =
     (if present (vd_mute data) then vd_mute data else nullish (vs_serverMute this) (Some Null))"
  "vs_selfDeaf (VoiceState_patch D data this) =
     (if present (vd_self_deaf data) then vd_self_deaf data
      else nullish (vs_selfDeaf this) (Some Null))"
  "vs_selfMute (VoiceState_patch D data this) =
     (if present (vd_self_mute data) then vd_self_mute data
      else nullish (vs_selfMute this) (Some Null))"
  "vs_selfVideo (VoiceState_patch D data this) =
     (if present (vd_self_video data) then vd_self_video data
      else nullish (vs_selfVideo this) (Some Null))"
  "vs_sessionId (VoiceState_patch D data this) =
     (if present (vd_session_id data) then vd_session_id data
      else nullish (vs_sessionId this) (Some Null))"
  "vs_streaming (VoiceState_patch D data this) =
     (if present (vd_self_video data) then nullish (vd_self_stream data) (Some (Val False))
      else nullish (vs_streaming this) (Some Null))"
  "vs_channelId (VoiceState_patch D data this) =
     (if present (vd_channel_id data) then vd_channel_id data
      else nullish (vs_channelId this) (Some Null))"
  "vs_suppress (VoiceState_patch D data this) =
     (if present (vd_suppress data) then vd_suppress data else vs_suppress this)"
  "vs_requestToSpeakTimestamp (VoiceState_patch D data this) =
     (if present (vd_request_to_speak_timestamp data)
      then and_parse D (vd_request_to_speak_timestamp data)
      else nullish (vs_requestToSpeakTimestamp this) (Some Null))"
  by (simp_all add: VoiceState_patch_def Let_def)

lemma voice_state_data_union_sels:
  "vd_deaf (voice_state_data_union P1 P2) = later (vd_deaf P1) (vd_deaf P2)"
  "vd_mute (voice_state_data_union P1 P2) = later (vd_mute P1) (vd_mute P2)"
  "vd_self_deaf (voice_state_data_union P1 P2) = later (vd_self_deaf P1) (vd_self_deaf P2)"
  "vd_self_mute (voice_state_data_union P1 P2) = later (vd_self_mute P1) (vd_self_mute P2)"
  "vd_self_video (voice_state_data_union P1 P2) = later (vd_self_video P1) (vd_self_video P2)"
  "vd_session_id (voice_state_data_union P1 P2) = later (vd_session_id P1) (vd_session_id P2)"
  "vd_self_stream (voice_state_data_union P1 P2) =
     later (vd_self_stream P1) (vd_self_stream P2)"
  "vd_channel_id (voice_state_data_union P1 P2) = later (vd_channel_id P1) (vd_channel_id P2)"
  "vd_suppress (voice_state_data_union P1 P2) = later (vd_suppress P1) (vd_suppress P2)"
  "vd_request_to_speak_timestamp (voice_state_data_union P1 P2) =
     later (vd_request_to_speak_timestamp P1) (vd_request_to_speak_timestamp P2)"
  by (simp_all add: voice_state_data_union_def)

text \<open>After the constructor, and after every later patch, \<open>streaming\<close> is defined.\<close>

lemma VoiceState_patch_streaming_defined:
  "vs_streaming (VoiceState_patch D data this) \<noteq> None"
  by (cases "vs_streaming this"; cases "vd_self_stream data")
     (auto simp: VoiceState_patch_sels nullish_def split: nullable.splits)

lemma VoiceState_new_streaming_defined: "vs_streaming (VoiceState_new D data) \<noteq> None"
  unfolding VoiceState_new_def by (rule VoiceState_patch_streaming_defined)

text \<open>
  C9. A patch assigns \<open>streaming\<close> exactly when the payload has the key \<open>self_video\<close>,
  and then to \<open>self_stream\<close> if that is present, else to \<open>false\<close>. A payload without
  \<open>self_video\<close> (with or without \<open>self_stream\<close>) leaves the \<open>streaming\<close> of a
  constructed voice state as it is, and the constructor sets it to \<open>null\<close> when the
  first payload has no \<open>self_video\<close>.
\<close>

theorem VoiceState_streaming_follows_self_video:
  "(present (vd_self_video data) \<longrightarrow>
      vs_streaming (VoiceState_patch D data this) =
        (case vd_self_stream data of Some (Val b) \<Rightarrow> Some (Val b) | _ \<Rightarrow> Some (Val False)))
   \<and> (\<not> present (vd_self_video data) \<and> vs_streaming this \<noteq> None \<longrightarrow>
      vs_streaming (VoiceState_patch D data this) = vs_streaming this)
   \<and> (\<not> present (vd_self_video data) \<longrightarrow>
      vs_streaming (VoiceState_new D data) = Some Null)"
proof (intro conjI impI)
  assume "present (vd_self_video data)"
  then show "vs_streaming (VoiceState_patch D data this) =
        (case vd_self_stream data of Some (Val b) \<Rightarrow> Some (Val b) | _ \<Rightarrow> Some (Val False))"
    by (simp add: VoiceState_patch_sels nullish_def split: option.splits nullable.splits)
next
  assume "\<not> present (vd_self_video data) \<and> vs_streaming this \<noteq> None"
  then show "vs_streaming (VoiceState_patch D data this) = vs_streaming this"
    by (cases "vs_streaming this")
       (auto simp: VoiceState_patch_sels nullish_def split: nullable.splits)
next
  assume "\<not> present (vd_self_video data)"
  then show "vs_streaming (VoiceState_new D data) = Some Null"
    by (simp add: VoiceState_new_def VoiceState_patch_sels VoiceState_blank_def nullish_def)
qed

text \<open>
  The three cases at concrete payloads: \<open>{self_video: true, self_stream: true}\<close> on a
  state that was not streaming, \<open>{self_stream: true}\<close> alone on that state, and the
  construction from \<open>{user_id: "7"}\<close>.
\<close>

theorem VoiceState_streaming_follows_self_video_witness:
  "vs_streaming (VoiceState_patch example_Date_parse
       ((vd_only ''7'')\<lparr>vd_self_video := Some (Val True), vd_self_stream := Some (Val True)\<rparr>)
       ((VoiceState_blank ''7'')\<lparr>vs_streaming := Some (Val False)\<rparr>)) = Some (Val True)
   \<and> vs_streaming (VoiceState_patch example_Date_parse
       ((vd_only ''7'')\<lparr>vd_self_stream := Some (Val True)\<rparr>)
       ((VoiceState_blank ''7'')\<lparr>vs_streaming := Some (Val False)\<rparr>)) = Some (Val False)
   \<and> vs_streaming (VoiceState_new example_Date_parse (vd_only ''7'')) = Some Null"
proof (intro conjI)
  let ?on = "(vd_only ''7'')\<lparr>vd_self_video := Some (Val True),
                vd_self_stream := Some (Val True)\<rparr>"
  let ?stream_only = "(vd_only ''7'')\<lparr>vd_self_stream := Some (Val True)\<rparr>"
  let ?S = "(VoiceState_blank ''7'')\<lparr>vs_streaming := Some (Val False)\<rparr> :: nat voice_state"
  show "vs_streaming (VoiceState_patch example_Date_parse ?on ?S) = Some (Val True)"
    using VoiceState_streaming_follows_self_video [of ?on example_Date_parse ?S]
    by (simp add: present_def vd_only_def)
  show "vs_streaming (VoiceState_patch example_Date_parse ?stream_only ?S) = Some (Val False)"
    using VoiceState_streaming_follows_self_video [of ?stream_only example_Date_parse ?S]
    by (simp add: present_def vd_only_def)
  show "vs_streaming (VoiceState_new example_Date_parse (vd_only ''7'')) = Some Null"
    using VoiceState_streaming_follows_self_video [of "vd_only ''7''" example_Date_parse ?S]
    by (simp add: present_def vd_only_def)
qed

section \<open>The patch merge law\<close>

lemma keep_merge:
  "(if present p2 then p2 else nullish (if present p1 then p1 else nullish s (Some Null)) (Some Null))
   = (if present (later p1 p2) then later p1 p2 else nullish s (Some Null))"
  by (cases p1; cases p2; cases s)
     (auto simp: present_def later_def nullish_def split: option.splits nullable.splits)

lemma plain_merge:
  "(if present p2 then p2 else (if present p1 then p1 else s))
   = (if present (later p1 p2) then later p1 p2 else s)"
  by (cases p1; cases p2) (auto simp: present_def later_def)

lemma parse_merge:
  "(if present p2 then and_parse D p2
    else nullish (if present p1 then and_parse D p1 else nullish s (Some Null)) (Some Null))
   = (if present (later p1 p2) then and_parse D (later p1 p2) else nullish s (Some Null))"
  by (cases p1; cases p2)
     (auto simp: present_def later_def nullish_def and_parse_def split: option.splits nullable.splits)

lemma stream_merge:
  assumes "\<not> both v1 v2" "\<not> both s1 s2" "present s1 \<longrightarrow> present v1" "present s2 \<longrightarrow> present v2"
  shows "(if present v2 then nullish s2 (Some (Val False))
          else nullish (if present v1 then nullish s1 (Some (Val False)) else nullish s (Some Null))
                 (Some Null))
       = (if present (later v1 v2) then nullish (later s1 s2) (Some (Val False))
          else nullish s (Some Null))"
  using assms
  by (cases v1; cases v2; cases s1; cases s2)
     (auto simp: both_def present_def later_def nullish_def split: option.splits nullable.splits)

lemma VoiceState_merge:
  assumes "voice_state_data_disjoint P1 P2"
    and "present (vd_self_stream P1) \<longrightarrow> present (vd_self_video P1)"
    and "present (vd_self_stream P2) \<longrightarrow> present (vd_self_video P2)"
  shows "VoiceState_patch D P2 (VoiceState_patch D P1 S) = VoiceState_patch D (voice_state_data_union P1 P2) S"
proof (rule voice_state.equality)
  have d: "\<not> both (vd_self_video P1) (vd_self_video P2)" "\<not> both (vd_self_stream P1) (vd_self_stream P2)"
    using assms(1) by (simp_all add: voice_state_data_disjoint_def)
  show "vs_streaming (VoiceState_patch D P2 (VoiceState_patch D P1 S)) =
    vs_streaming (VoiceState_patch D (voice_state_data_union P1 P2) S)"
    unfolding VoiceState_patch_sels voice_state_data_union_sels
    by (rule stream_merge [OF d assms(2,3)])
  show "voice_state.more (VoiceState_patch D P2 (VoiceState_patch D P1 S)) =
    voice_state.more (VoiceState_patch D (voice_state_data_union P1 P2) S)"
    by simp
qed (simp_all only: VoiceState_patch_sels voice_state_data_union_sels keep_merge plain_merge parse_merge)

section \<open>Selectors of the channel patches\<close>

lemma Channel_patch_sels:
  "ch_id (Channel_patch C data this) = Some (cd_id data)"
  "ch_deleted (Channel_patch C data this) = ch_deleted this"
  "ch_type (Channel_patch C data this) = ch_type this"
  "ch_flags (Channel_patch C data this) =
     (case cd_flags data of Some flags \<Rightarrow> Some (ChannelFlags_new C flags) | None \<Rightarrow> ch_flags this)"
  "channel.more (Channel_patch C data this) = channel.more this"
  by (simp_all add: Channel_patch_def Let_def split: option.splits)

lemma GuildChannel_patch_sels:
  "ch_id (GuildChannel_patch C data this) = Some (cd_id data)"
  "ch_deleted (GuildChannel_patch C data this) = ch_deleted this"
  "ch_type (GuildChannel_patch C data this) = ch_type this"
  "ch_flags (GuildChannel_patch C data this) =
     (case cd_flags data of Some flags \<Rightarrow> Some (ChannelFlags_new C flags) | None \<Rightarrow> ch_flags this)"
  "gc_guildId (GuildChannel_patch C data this) =
     (if present (cd_guild_id data) then cd_guild_id data else gc_guildId this)"
  "gc_parentId (GuildChannel_patch C data this) =
     (if present (cd_parent_id data) then cd_parent_id data else gc_parentId this)"
  "gc_permissionOverwrites (GuildChannel_patch C data this) =
     (case cd_permission_overwrites data of
        Some permission_overwrites \<Rightarrow>
          foldl (\<lambda>cache overwrite. overwrites_add C overwrite cache) (overwrites_empty C)
            permission_overwrites
      | None \<Rightarrow> gc_permissionOverwrites this)"
  "gc_name (GuildChannel_patch C data this) =
     (if present (cd_name data) then cd_name data else gc_name this)"
  "gc_rawPosition (GuildChannel_patch C data this) =
     (if present (cd_position data) then cd_position data else gc_rawPosition this)"
  "guild_channel.more (GuildChannel_patch C data this) = guild_channel.more this"
  by (simp_all add: GuildChannel_patch_def Channel_patch_def Let_def split: option.splits)

lemma ForumChannel_patch_base:
  "ch_id (ForumChannel_patch C data this) = ch_id (GuildChannel_patch C data this)"
  "ch_deleted (ForumChannel_patch C data this) = ch_deleted (GuildChannel_patch C data this)"
  "ch_type (ForumChannel_patch C data this) = ch_type (GuildChannel_patch C data this)"
  "ch_flags (ForumChannel_patch C data this) = ch_flags (GuildChannel_patch C data this)"
  "gc_guildId (ForumChannel_patch C data this) = gc_guildId (GuildChannel_patch C data this)"
  "gc_parentId (ForumChannel_patch C data this) = gc_parentId (GuildChannel_patch C data this)"
  "gc_permissionOverwrites (ForumChannel_patch C data this) =
     gc_permissionOverwrites (GuildChannel_patch C data this)"
  "gc_name (ForumChannel_patch C data this) = gc_name (GuildChannel_patch C data this)"
  "gc_rawPosition (ForumChannel_patch C data this) =
     gc_rawPosition (GuildChannel_patch C data this)"
  by (simp_all add: ForumChannel_patch_def Let_def split: option.splits)

lemma ForumChannel_patch_sels:
  "fc_availableTags (ForumChannel_patch C data this) =
     (case cd_available_tags data of
        Some available_tags \<Rightarrow> Some (map (transformAPIGuildForumTag C) available_tags)
      | None \<Rightarrow> (case fc_availableTags this of None \<Rightarrow> Some [] | Some ts \<Rightarrow> Some ts))"
  "fc_defaultThreadRateLimitPerUser (ForumChannel_patch C data this) =
     (if present (cd_default_thread_rate_limit_per_user data)
      then cd_default_thread_rate_limit_per_user data
      else nullish (fc_defaultThreadRateLimitPerUser this) (Some Null))"
  "fc_rateLimitPerUser (ForumChannel_patch C data this) =
     (if present (cd_rate_limit_per_user data) then cd_rate_limit_per_user data
      else nullish (fc_rateLimitPerUser this) (Some Null))"
  "fc_defaultAutoArchiveDuration (ForumChannel_patch C data this) =
     (if present (cd_default_auto_archive_duration data)
      then cd_default_auto_archive_duration data
      else nullish (fc_defaultAutoArchiveDuration this) (Some Null))"
  "fc_nsfw (ForumChannel_patch C data this) =
     (if present (cd_nsfw data) then cd_nsfw data
      else (case fc_nsfw this of None \<Rightarrow> Some False | Some b \<Rightarrow> Some b))"
  "fc_topic (ForumChannel_patch C data this) =
     (if present (cd_topic data) then cd_topic data else fc_topic this)"
  "forum_channel.more (ForumChannel_patch C data this) = forum_channel.more this"
  by (simp_all add: ForumChannel_patch_def GuildChannel_patch_def Channel_patch_def Let_def
      split: option.splits)

lemma channel_data_union_sels:
  "cd_id (channel_data_union P1 P2) = cd_id P2"
  "cd_type (channel_data_union P1 P2) = later (cd_type P1) (cd_type P2)"
  "cd_flags (channel_data_union P1 P2) = later (cd_flags P1) (cd_flags P2)"
  "cd_name (channel_data_union P1 P2) = later (cd_name P1) (cd_name P2)"
  "cd_position (channel_data_union P1 P2) = later (cd_position P1) (cd_position P2)"
  "cd_guild_id (channel_data_union P1 P2) = later (cd_guild_id P1) (cd_guild_id P2)"
  "cd_parent_id (channel_data_union P1 P2) = later (cd_parent_id P1) (cd_parent_id P2)"
  "cd_permission_overwrites (channel_data_union P1 P2) =
     later (cd_permission_overwrites P1) (cd_permission_overwrites P2)"
  "cd_topic (channel_data_union P1 P2) = later (cd_topic P1) (cd_topic P2)"
  "cd_nsfw (channel_data_union P1 P2) = later (cd_nsfw P1) (cd_nsfw P2)"
  "cd_default_auto_archive_duration (channel_data_union P1 P2) =
     later (cd_default_auto_archive_duration P1) (cd_default_auto_archive_duration P2)"
  "cd_default_thread_rate_limit_per_user (channel_data_union P1 P2) =
     later (cd_default_thread_rate_limit_per_user P1) (cd_default_thread_rate_limit_per_user P2)"
  "cd_rate_limit_per_user (channel_data_union P1 P2) =
     later (cd_rate_limit_per_user P1) (cd_rate_limit_per_user P2)"
  "cd_messages (channel_data_union P1 P2) = later (cd_messages P1) (cd_messages P2)"
  "cd_available_tags (channel_data_union P1 P2) =
     later (cd_available_tags P1) (cd_available_tags P2)"
  by (simp_all add: channel_data_union_def)

lemma case_merge:
  "(case p2 of Some v \<Rightarrow> f v | None \<Rightarrow> (case p1 of Some v \<Rightarrow> f v | None \<Rightarrow> s))
   = (case later p1 p2 of Some v \<Rightarrow> f v | None \<Rightarrow> s)"
  by (cases p1; cases p2) (simp_all add: later_def)

lemma tags_merge:
  "(case p2 of Some v \<Rightarrow> Some (f v)
    | None \<Rightarrow> (case (case p1 of Some v \<Rightarrow> Some (f v)
                              | None \<Rightarrow> (case s of None \<Rightarrow> Some d | Some ts \<Rightarrow> Some ts)) of
                  None \<Rightarrow> Some d | Some ts \<Rightarrow> Some ts))
   = (case later p1 p2 of Some v \<Rightarrow> Some (f v)
      | None \<Rightarrow> (case s of None \<Rightarrow> Some d | Some ts \<Rightarrow> Some ts))"
  by (cases p1; cases p2; cases s) (simp_all add: later_def)

lemma default_merge:
  "(if present p2 then p2
    else (case (if present p1 then p1 else (case s of None \<Rightarrow> Some d | Some b \<Rightarrow> Some b)) of
            None \<Rightarrow> Some d | Some b \<Rightarrow> Some b))
   = (if present (later p1 p2) then later p1 p2
      else (case s of None \<Rightarrow> Some d | Some b \<Rightarrow> Some b))"
  by (cases p1; cases p2; cases s) (simp_all add: later_def present_def)

lemma ForumChannel_merge:
  "ForumChannel_patch C P2 (ForumChannel_patch C P1 S) =
   ForumChannel_patch C (channel_data_union P1 P2) (S :: ('f, 'oc, 'tag) forum_channel)"
proof (rule forum_channel.equality)
  show "forum_channel.more (ForumChannel_patch C P2 (ForumChannel_patch C P1 S)) =
    forum_channel.more (ForumChannel_patch C (channel_data_union P1 P2) S)"
    by simp
qed (simp_all only: ForumChannel_patch_base GuildChannel_patch_sels ForumChannel_patch_sels case_merge
       channel_data_union_sels keep_merge plain_merge tags_merge default_merge)


text \<open>
  C3, as the code has it. For a forum channel, patching with \<open>P1\<close> and then with
  \<open>P2\<close> is the single patch with their field-wise union (the later payload winning),
  for any two payloads. For a voice state the same holds when the two payloads have
  disjoint field sets and \<open>self_stream\<close> is only carried by a payload that also carries
  \<open>self_video\<close>: \<open>streaming\<close> is read from \<open>self_stream\<close> but assigned under the
  test for \<open>self_video\<close>.
\<close>

theorem patch_merge_law:
  "ForumChannel_patch C P2 (ForumChannel_patch C P1 S) =
     ForumChannel_patch C (channel_data_union P1 P2) (S :: ('f, 'oc, 'tag) forum_channel)
   \<and> (voice_state_data_disjoint Q1 Q2
        \<and> (present (vd_self_stream Q1) \<longrightarrow> present (vd_self_video Q1))
        \<and> (present (vd_self_stream Q2) \<longrightarrow> present (vd_self_video Q2)) \<longrightarrow>
      VoiceState_patch D Q2 (VoiceState_patch D Q1 V) =
        VoiceState_patch D (voice_state_data_union Q1 Q2) V)"
  using ForumChannel_merge [of C P2 P1 S] VoiceState_merge [of Q1 Q2 D V] by blast

text \<open>
  The law at \<open>{id: "1", name: "general"}\<close> then \<open>{id: "1", topic: "hi"}\<close> on a forum
  channel, and at \<open>{self_video: true, self_stream: true}\<close> then \<open>{deaf: true}\<close> on a
  voice state.
\<close>

theorem patch_merge_law_witness:
  "ForumChannel_patch example_collab ((cd_only ''1'')\<lparr>cd_topic := Some (Val ''hi'')\<rparr>)
      (ForumChannel_patch example_collab ((cd_only ''1'')\<lparr>cd_name := Some (Val ''general'')\<rparr>)
         (ForumChannel_new example_collab example_ChannelTypes None
            ((cd_only ''1'')\<lparr>cd_type := Some 15\<rparr>)))
     = ForumChannel_patch example_collab
         (channel_data_union ((cd_only ''1'')\<lparr>cd_name := Some (Val ''general'')\<rparr>)
            ((cd_only ''1'')\<lparr>cd_topic := Some (Val ''hi'')\<rparr>))
         (ForumChannel_new example_collab example_ChannelTypes None
            ((cd_only ''1'')\<lparr>cd_type := Some 15\<rparr>))
   \<and> voice_state_data_disjoint
        ((vd_only ''7'')\<lparr>vd_self_video := Some (Val True), vd_self_stream := Some (Val True)\<rparr>)
        ((vd_only ''7'')\<lparr>vd_deaf := Some (Val True)\<rparr>)
   \<and> VoiceState_patch example_Date_parse ((vd_only ''7'')\<lparr>vd_deaf := Some (Val True)\<rparr>)
        (VoiceState_patch example_Date_parse
           ((vd_only ''7'')\<lparr>vd_self_video := Some (Val True),
              vd_self_stream := Some (Val True)\<rparr>)
           (VoiceState_new example_Date_parse (vd_only ''7'')))
     = VoiceState_patch example_Date_parse
         (voice_state_data_union
            ((vd_only ''7'')\<lparr>vd_self_video := Some (Val True),
               vd_self_stream := Some (Val True)\<rparr>)
            ((vd_only ''7'')\<lparr>vd_deaf := Some (Val True)\<rparr>))
         (VoiceState_new example_Date_parse (vd_only ''7''))"
proof -
  let ?Q1 = "(vd_only ''7'')\<lparr>vd_self_video := Some (Val True),
               vd_self_stream := Some (Val True)\<rparr>"
  let ?Q2 = "(vd_only ''7'')\<lparr>vd_deaf := Some (Val True)\<rparr>"
  have d: "voice_state_data_disjoint ?Q1 ?Q2"
    by (simp add: voice_state_data_disjoint_def both_def present_def vd_only_def)
  have s1: "present (vd_self_stream ?Q1) \<longrightarrow> present (vd_self_video ?Q1)"
    by (simp add: present_def)
  have s2: "present (vd_self_stream ?Q2) \<longrightarrow> present (vd_self_video ?Q2)"
    by (simp add: present_def vd_only_def)
  show ?thesis
    using d s1 s2
      patch_merge_law [of example_collab "(cd_only ''1'')\<lparr>cd_topic := Some (Val ''hi'')\<rparr>"
        "(cd_only ''1'')\<lparr>cd_name := Some (Val ''general'')\<rparr>"
        "ForumChannel_new example_collab example_ChannelTypes None
           ((cd_only ''1'')\<lparr>cd_type := Some 15\<rparr>)"
        ?Q1 ?Q2 example_Date_parse "VoiceState_new example_Date_parse (vd_only ''7'')"]
    by blast
qed

text \<open>
  C3 as stated fails for voice states: \<open>{self_stream: true}\<close> and
  \<open>{self_video: true}\<close> have disjoint field sets; applied one after the other to a
  fresh voice state they leave \<open>streaming = false\<close>, while their union sets
  \<open>streaming = true\<close>.
\<close>

theorem patch_merge_law_counterexample:
  "voice_state_data_disjoint ((vd_only ''7'')\<lparr>vd_self_stream := Some (Val True)\<rparr>)
      ((vd_only ''7'')\<lparr>vd_self_video := Some (Val True)\<rparr>)
   \<and> vs_streaming (VoiceState_patch example_Date_parse
          ((vd_only ''7'')\<lparr>vd_self_video := Some (Val True)\<rparr>)
          (VoiceState_patch example_Date_parse
             ((vd_only ''7'')\<lparr>vd_self_stream := Some (Val True)\<rparr>)
             (VoiceState_new example_Date_parse (vd_only ''7'')))) = Some (Val False)
   \<and> vs_streaming (VoiceState_patch example_Date_parse
          (voice_state_data_union ((vd_only ''7'')\<lparr>vd_self_stream := Some (Val True)\<rparr>)
             ((vd_only ''7'')\<lparr>vd_self_video := Some (Val True)\<rparr>))
          (VoiceState_new example_Date_parse (vd_only ''7''))) = Some (Val True)"
  by (simp add: voice_state_data_disjoint_def both_def present_def vd_only_def
      VoiceState_patch_sels voice_state_data_union_sels later_def nullish_def
      VoiceState_new_def VoiceState_blank_def)

section \<open>Tie-break of computed positions\<close>

lemma numeric_id_BigInt: "numeric_id i \<Longrightarrow> BigInt_id i = Inr (idnum i)"
  by (simp add: numeric_id_def idnum_def split: sum.splits)

lemma filter_length_mono:
  "(\<And>x. x \<in> set xs \<Longrightarrow> P x \<Longrightarrow> Q x) \<Longrightarrow> length (filter P xs) \<le> length (filter Q xs)"
  by (induction xs) auto

lemma filter_length_less:
  assumes "\<And>x. x \<in> set xs \<Longrightarrow> P x \<Longrightarrow> Q x" and "y \<in> set xs" and "Q y" and "\<not> P y"
  shows "length (filter P xs) < length (filter Q xs)"
  using assms
proof (induction xs)
  case Nil
  then show ?case by simp
next
  case (Cons x xs)
  have mono: "length (filter P xs) \<le> length (filter Q xs)"
    using Cons.prems(1) by (intro filter_length_mono) auto
  show ?case
  proof (cases "x = y")
    case True
    with Cons.prems mono show ?thesis by simp
  next
    case False
    with Cons.prems have "y \<in> set xs" by simp
    then have "length (filter P xs) < length (filter Q xs)"
      using Cons.IH Cons.prems by auto
    moreover have "P x \<Longrightarrow> Q x" using Cons.prems(1) by simp
    ultimately show ?thesis by auto
  qed
qed

lemma js_gt_irrefl: "js_gt a a = False"
  by (simp add: js_gt_def split: option.splits)

lemma js_gt_neq: "js_gt a b \<Longrightarrow> a \<noteq> b"
  by (auto simp: js_gt_def split: option.splits)

lemma Role_position_loop_count:
  assumes "numeric_id (r_id this)" and "list_all (\<lambda>r. numeric_id (r_id r)) roles"
  shows "Role_position_loop this roles count =
           Inr (count + length (filter (role_below this) roles))"
  using assms(2)
proof (induction roles arbitrary: count)
  case Nil
  then show ?case by simp
next
  case (Cons role roles)
  then have n: "BigInt_id (r_id role) = Inr (idnum (r_id role))"
    and rest: "list_all (\<lambda>r. numeric_id (r_id r)) roles"
    by (simp_all add: numeric_id_BigInt)
  have t: "BigInt_id (r_id this) = Inr (idnum (r_id this))"
    using assms(1) by (rule numeric_id_BigInt)
  show ?case
    using Cons.IH [OF rest] n t
    by (auto simp: role_below_def dest: js_gt_neq)
qed

lemma Role_position_tie:
  assumes "a \<in> set roles" "b \<in> set roles" "list_all (\<lambda>r. numeric_id (r_id r)) roles"
    and "r_rawPosition a = r_rawPosition b" and "idnum (r_id a) < idnum (r_id b)"
  shows "\<exists>pa pb. Role_position roles a = Inr pa \<and> Role_position roles b = Inr pb \<and> pb < pa"
proof -
  have na: "numeric_id (r_id a)" and nb: "numeric_id (r_id b)"
    using assms(1,2,3) by (auto simp: list_all_iff)
  have "length (filter (role_below b) roles) < length (filter (role_below a) roles)"
  proof (rule filter_length_less [where y = b])
    fix x assume "x \<in> set roles" "role_below b x"
    then show "role_below a x"
      using assms(4,5) by (auto simp: role_below_def)
  next
    show "b \<in> set roles" by fact
    show "role_below a b" using assms(4,5) by (simp add: role_below_def)
    show "\<not> role_below b b" by (simp add: role_below_def js_gt_irrefl)
  qed
  then show ?thesis
    by (simp add: Role_position_def Role_position_loop_count [OF na assms(3)]
        Role_position_loop_count [OF nb assms(3)])
qed

lemma GuildChannel_position_loop_count:
  assumes "numeric_id (ch_id this)" and "list_all (\<lambda>c. numeric_id (ch_id c)) channels"
  shows "GuildChannel_position_loop types this channels count =
           Inr (count + length (filter (channel_before types this) channels))"
  using assms(2)
proof (induction channels arbitrary: count)
  case Nil
  then show ?case by simp
next
  case (Cons channel channels)
  then have n: "BigInt_id (ch_id channel) = Inr (idnum (ch_id channel))"
    and rest: "list_all (\<lambda>c. numeric_id (ch_id c)) channels"
    by (simp_all add: numeric_id_BigInt)
  have t: "BigInt_id (ch_id this) = Inr (idnum (ch_id this))"
    using assms(1) by (rule numeric_id_BigInt)
  show ?case
    using Cons.IH [OF rest] n t
    by (auto simp: channel_before_def)
qed

lemma GuildChannel_position_tie:
  assumes "a \<in> set channels" "b \<in> set channels"
    and "list_all (\<lambda>c. numeric_id (ch_id c)) channels"
    and "channel_siblings G a b"
    and "gc_rawPosition a = gc_rawPosition b" and "idnum (ch_id a) < idnum (ch_id b)"
  shows "\<exists>pa pb. GuildChannel_position G channels a = Inr pa
           \<and> GuildChannel_position G channels b = Inr pb \<and> pa < pb"
proof -
  let ?T = "G (ch_type a)"
  have na: "numeric_id (ch_id a)" and nb: "numeric_id (ch_id b)"
    using assms(1,2,3) by (auto simp: list_all_iff)
  have sib: "G (ch_type b) = ?T" "ch_type a \<in> set ?T"
    "(ch_type a = ''GUILD_CATEGORY'') = (ch_type b = ''GUILD_CATEGORY'')"
    "gc_parentId a = gc_parentId b"
    using assms(4) by (auto simp: channel_siblings_def)
  have "length (filter (channel_before ?T a) channels)
          < length (filter (channel_before ?T b) channels)"
  proof (rule filter_length_less [where y = a])
    fix x assume "x \<in> set channels" "channel_before ?T a x"
    then show "channel_before ?T b x"
      using assms(5,6) sib(3,4) by (auto simp: channel_before_def split: if_splits)
  next
    show "a \<in> set channels" by fact
    show "channel_before ?T b a"
      using assms(5,6) sib by (simp add: channel_before_def)
    show "\<not> channel_before ?T a a" by (simp add: channel_before_def)
  qed
  then show ?thesis
    by (simp add: GuildChannel_position_def sib(1)
        GuildChannel_position_loop_count [OF na assms(3)]
        GuildChannel_position_loop_count [OF nb assms(3)])
qed

text \<open>
  C4, as the code has it. Among the cached entities of a guild whose ids are numeric,
  two sibling channels with equal raw position are ordered by ascending id (the lower id
  has the lower position), and two roles with equal raw position are ordered the other
  way round (the lower id has the higher position). Both getters return.
\<close>

theorem position_tie_break:
  "(a \<in> set channels \<and> b \<in> set channels \<and> list_all (\<lambda>c. numeric_id (ch_id c)) channels
      \<and> channel_siblings G a b \<and> gc_rawPosition a = gc_rawPosition b
      \<and> idnum (ch_id a) < idnum (ch_id b) \<longrightarrow>
    (\<exists>pa pb. GuildChannel_position G channels a = Inr pa
        \<and> GuildChannel_position G channels b = Inr pb \<and> pa < pb))
   \<and> (r \<in> set roles \<and> q \<in> set roles \<and> list_all (\<lambda>x. numeric_id (r_id x)) roles
      \<and> r_rawPosition r = r_rawPosition q \<and> idnum (r_id r) < idnum (r_id q) \<longrightarrow>
    (\<exists>pr pq. Role_position roles r = Inr pr \<and> Role_position roles q = Inr pq \<and> pq < pr))"
  using GuildChannel_position_tie [of a channels b G] Role_position_tie [of r roles q]
  by blast

lemma BigInt_examples:
  "BigInt_id (Some ''1'') = Inr 1" "BigInt_id (Some ''2'') = Inr 2"
  "BigInt_id (Some ''10'') = Inr 10"
  by (simp_all add: BigInt_id_def BigInt_def digit_def)

lemma idnum_examples:
  "idnum (Some ''1'') = 1" "idnum (Some ''2'') = 2" "numeric_id (Some ''1'')"
  "numeric_id (Some ''2'')"
  by (simp_all add: idnum_def numeric_id_def BigInt_examples)

text \<open>
  Two text channels \<open>"1"\<close> and \<open>"2"\<close> of one guild, both at raw position 0 and without
  a parent, get the positions 0 and 1; two roles \<open>"1"\<close> and \<open>"2"\<close> at raw position 0
  get the positions 1 and 0.
\<close>

theorem position_tie_break_witness:
  "GuildChannel_position example_getSortableGroupTypes
      [GuildChannel_patch example_collab ((cd_only ''1'')\<lparr>cd_position := Some 0\<rparr>)
         (GuildChannel_new example_collab example_ChannelTypes (Some ''9'')
            ((cd_only ''1'')\<lparr>cd_type := Some 0\<rparr>)),
       GuildChannel_patch example_collab ((cd_only ''2'')\<lparr>cd_position := Some 0\<rparr>)
         (GuildChannel_new example_collab example_ChannelTypes (Some ''9'')
            ((cd_only ''2'')\<lparr>cd_type := Some 0\<rparr>))]
      (GuildChannel_patch example_collab ((cd_only ''1'')\<lparr>cd_position := Some 0\<rparr>)
         (GuildChannel_new example_collab example_ChannelTypes (Some ''9'')
            ((cd_only ''1'')\<lparr>cd_type := Some 0\<rparr>))) = Inr 0
   \<and> GuildChannel_position example_getSortableGroupTypes
      [GuildChannel_patch example_collab ((cd_only ''1'')\<lparr>cd_position := Some 0\<rparr>)
         (GuildChannel_new example_collab example_ChannelTypes (Some ''9'')
            ((cd_only ''1'')\<lparr>cd_type := Some 0\<rparr>)),
       GuildChannel_patch example_collab ((cd_only ''2'')\<lparr>cd_position := Some 0\<rparr>)
         (GuildChannel_new example_collab example_ChannelTypes (Some ''9'')
            ((cd_only ''2'')\<lparr>cd_type := Some 0\<rparr>))]
      (GuildChannel_patch example_collab ((cd_only ''2'')\<lparr>cd_position := Some 0\<rparr>)
         (GuildChannel_new example_collab example_ChannelTypes (Some ''9'')
            ((cd_only ''2'')\<lparr>cd_type := Some 0\<rparr>))) = Inr 1
   \<and> Role_position
        [Role_blank\<lparr>r_id := Some ''1'', r_rawPosition := Some 0\<rparr>,
         Role_blank\<lparr>r_id := Some ''2'', r_rawPosition := Some 0\<rparr>]
        (Role_blank\<lparr>r_id := Some ''1'', r_rawPosition := Some 0\<rparr> :: int role) = Inr 1
   \<and> Role_position
        [Role_blank\<lparr>r_id := Some ''1'', r_rawPosition := Some 0\<rparr>,
         Role_blank\<lparr>r_id := Some ''2'', r_rawPosition := Some 0\<rparr>]
        (Role_blank\<lparr>r_id := Some ''2'', r_rawPosition := Some 0\<rparr> :: int role) = Inr 0"
proof -
  let ?a = "GuildChannel_patch example_collab ((cd_only ''1'')\<lparr>cd_position := Some 0\<rparr>)
         (GuildChannel_new example_collab example_ChannelTypes (Some ''9'')
            ((cd_only ''1'')\<lparr>cd_type := Some 0\<rparr>))"
  let ?b = "GuildChannel_patch example_collab ((cd_only ''2'')\<lparr>cd_position := Some 0\<rparr>)
         (GuildChannel_new example_collab example_ChannelTypes (Some ''9'')
            ((cd_only ''2'')\<lparr>cd_type := Some 0\<rparr>))"
  let ?r = "Role_blank\<lparr>r_id := Some ''1'', r_rawPosition := Some 0\<rparr> :: int role"
  let ?q = "Role_blank\<lparr>r_id := Some ''2'', r_rawPosition := Some 0\<rparr> :: int role"
  have a: "ch_id ?a = Some ''1''" "ch_type ?a = ''GUILD_TEXT''" "gc_rawPosition ?a = Some 0"
    "gc_parentId ?a = Some Null"
    by (simp_all add: GuildChannel_patch_sels GuildChannel_new_def Channel_new_def
        channel.defs guild_channel.defs cd_only_def example_ChannelTypes_def present_def)
  have b: "ch_id ?b = Some ''2''" "ch_type ?b = ''GUILD_TEXT''" "gc_rawPosition ?b = Some 0"
    "gc_parentId ?b = Some Null"
    by (simp_all add: GuildChannel_patch_sels GuildChannel_new_def Channel_new_def
        channel.defs guild_channel.defs cd_only_def example_ChannelTypes_def present_def)
  have ch: "?a \<in> set [?a, ?b] \<and> ?b \<in> set [?a, ?b]
      \<and> list_all (\<lambda>c. numeric_id (ch_id c)) [?a, ?b]
      \<and> channel_siblings example_getSortableGroupTypes ?a ?b
      \<and> gc_rawPosition ?a = gc_rawPosition ?b \<and> idnum (ch_id ?a) < idnum (ch_id ?b)"
    by (simp add: channel_siblings_def a b idnum_examples example_getSortableGroupTypes_def)
  have ro: "?r \<in> set [?r, ?q] \<and> ?q \<in> set [?r, ?q]
      \<and> list_all (\<lambda>x. numeric_id (r_id x)) [?r, ?q]
      \<and> r_rawPosition ?r = r_rawPosition ?q \<and> idnum (r_id ?r) < idnum (r_id ?q)"
    by (simp add: idnum_examples)
  have pa: "GuildChannel_position example_getSortableGroupTypes [?a, ?b] ?a = Inr 0"
    unfolding GuildChannel_position_def GuildChannel_position_loop.simps a b BigInt_examples
    by (simp add: example_getSortableGroupTypes_def)
  have pr: "Role_position [?r, ?q] ?q = Inr 0"
    by (simp add: Role_position_def BigInt_examples js_gt_def)
  from position_tie_break [of ?a "[?a, ?b]" ?b example_getSortableGroupTypes ?r "[?r, ?q]" ?q]
    ch ro
  obtain pa' pb' pr' pq' where
    "GuildChannel_position example_getSortableGroupTypes [?a, ?b] ?a = Inr pa'"
    "GuildChannel_position example_getSortableGroupTypes [?a, ?b] ?b = Inr pb'" "pa' < pb'"
    "Role_position [?r, ?q] ?r = Inr pr'" "Role_position [?r, ?q] ?q = Inr pq'" "pq' < pr'"
    by blast
  moreover have "GuildChannel_position example_getSortableGroupTypes [?a, ?b] ?b = Inr 1"
    unfolding GuildChannel_position_def GuildChannel_position_loop.simps a b BigInt_examples
    by (simp add: example_getSortableGroupTypes_def)
  moreover have "Role_position [?r, ?q] ?r = Inr 1"
    by (simp add: Role_position_def BigInt_examples js_gt_def)
  ultimately show ?thesis
    using pa pr by simp
qed

text \<open>
  C4 as stated fails for roles: of two roles at the same raw position the one with the
  lower id gets the higher position, so positions descend where ids ascend.
\<close>

theorem position_tie_break_counterexample:
  "idnum (r_id (Role_blank\<lparr>r_id := Some ''1'', r_rawPosition := Some 0\<rparr> :: int role))
     < idnum (r_id (Role_blank\<lparr>r_id := Some ''2'', r_rawPosition := Some 0\<rparr> :: int role))
   \<and> Role_position
        [Role_blank\<lparr>r_id := Some ''1'', r_rawPosition := Some 0\<rparr>,
         Role_blank\<lparr>r_id := Some ''2'', r_rawPosition := Some 0\<rparr>]
        (Role_blank\<lparr>r_id := Some ''1'', r_rawPosition := Some 0\<rparr> :: int role) = Inr 1
   \<and> Role_position
        [Role_blank\<lparr>r_id := Some ''1'', r_rawPosition := Some 0\<rparr>,
         Role_blank\<lparr>r_id := Some ''2'', r_rawPosition := Some 0\<rparr>]
        (Role_blank\<lparr>r_id := Some ''2'', r_rawPosition := Some 0\<rparr> :: int role) = Inr 0"
  by (simp add: Role_position_def BigInt_examples idnum_examples js_gt_def)

section \<open>Selectors of the role patch\<close>

lemma Role_patch_head_sels:
  "r_id (Role_patch_head data this) = Some (rd_id data)"
  "r_deleted (Role_patch_head data this) = r_deleted this"
  "r_icon (Role_patch_head data this) = r_icon this"
  "r_unicodeEmoji (Role_patch_head data this) = r_unicodeEmoji this"
  "r_name (Role_patch_head data this) =
     (if present (rd_name data) then rd_name data else r_name this)"
  "r_color (Role_patch_head data this) =
     (if present (rd_color data) then rd_color data else r_color this)"
  "r_hoist (Role_patch_head data this) =
     (if present (rd_hoist data) then rd_hoist data else r_hoist this)"
  "r_rawPosition (Role_patch_head data this) =
     (if present (rd_position data) then rd_position data else r_rawPosition this)"
  "r_permissions (Role_patch_head data this) = r_permissions this"
  "r_managed (Role_patch_head data this) = r_managed this"
  "r_mentionable (Role_patch_head data this) = r_mentionable this"
  "r_tags (Role_patch_head data this) = r_tags this"
  "r_flags (Role_patch_head data this) = r_flags this"
  by (simp_all add: Role_patch_head_def Let_def)

lemma Role_patch_tail_sels:
  "r_id (Role_patch_tail R data this) = r_id this"
  "r_deleted (Role_patch_tail R data this) = r_deleted this"
  "r_icon (Role_patch_tail R data this) =
     (if present (rd_icon data) then rd_icon data else r_icon this)"
  "r_unicodeEmoji (Role_patch_tail R data this) =
     (if present (rd_unicode_emoji data) then rd_unicode_emoji data else r_unicodeEmoji this)"
  "r_name (Role_patch_tail R data this) = r_name this"
  "r_color (Role_patch_tail R data this) = r_color this"
  "r_hoist (Role_patch_tail R data this) = r_hoist this"
  "r_rawPosition (Role_patch_tail R data this) = r_rawPosition this"
  "r_permissions (Role_patch_tail R data this) = r_permissions this"
  "r_managed (Role_patch_tail R data this) =
     (if present (rd_managed data) then rd_managed data else r_managed this)"
  "r_mentionable (Role_patch_tail R data this) =
     (if present (rd_mentionable data) then rd_mentionable data else r_mentionable this)"
  "r_tags (Role_patch_tail R data this) =
     (case rd_tags data of Some (Val tags) \<Rightarrow> Some (Val (Role_tags_of tags)) | _ \<Rightarrow> Some Null)"
  "r_flags (Role_patch_tail R data this) =
     (case rd_flags data of
        Some flags \<Rightarrow> Some (R (Some flags))
      | None \<Rightarrow> (case r_flags this of None \<Rightarrow> Some (R None) | Some f \<Rightarrow> Some f))"
  by (simp_all add: Role_patch_tail_def Let_def split: option.splits)

lemma Role_patch_cases:
  "Role_patch R data this =
     (case rd_permissions data of
        None \<Rightarrow> Inr (Role_patch_tail R data (Role_patch_head data this))
      | Some permissions \<Rightarrow>
          (case BigInt permissions of
             Inl e \<Rightarrow> Inl e
           | Inr bits \<Rightarrow>
               Inr (Role_patch_tail R data
                      ((Role_patch_head data this)\<lparr>r_permissions := Some bits\<rparr>))))"
  by (simp add: Role_patch_def Let_def)

lemma Role_patch_tags:
  assumes "Role_patch R data this = Inr this'"
  shows "r_tags this' =
           (case rd_tags data of Some (Val tags) \<Rightarrow> Some (Val (Role_tags_of tags)) | _ \<Rightarrow> Some Null)"
  using assms
  by (auto simp: Role_patch_cases Role_patch_tail_sels split: option.splits sum.splits)

lemma Role_patch_name:
  assumes "Role_patch R data this = Inr this'"
  shows "r_name this' = (if present (rd_name data) then rd_name data else r_name this)"
    and "r_id this' = Some (rd_id data)" 
    and "r_rawPosition this' = (if present (rd_position data) then rd_position data else r_rawPosition this)" 
  using assms
  by (auto simp: Role_patch_cases Role_patch_tail_sels Role_patch_head_sels split: option.splits sum.splits)

lemma Role_patch_returns:
  "rd_permissions data = None \<or> numeric_id (rd_permissions data)
     \<Longrightarrow> \<exists>this'. Role_patch R data this = Inr this'"
  by (auto simp: Role_patch_cases numeric_id_def BigInt_id_def split: option.splits sum.splits)

section \<open>Partial updates keep what the payload does not mention\<close>

lemma BaseGuildTextChannel_patch_base:
  "ch_id (BaseGuildTextChannel_patch C data this) = ch_id (GuildChannel_patch C data this)"
  "ch_deleted (BaseGuildTextChannel_patch C data this) =
     ch_deleted (GuildChannel_patch C data this)"
  "ch_type (BaseGuildTextChannel_patch C data this) = ch_type (GuildChannel_patch C data this)"
  "ch_flags (BaseGuildTextChannel_patch C data this) =
     ch_flags (GuildChannel_patch C data this)"
  "gc_guildId (BaseGuildTextChannel_patch C data this) =
     gc_guildId (GuildChannel_patch C data this)"
  "gc_parentId (BaseGuildTextChannel_patch C data this) =
     gc_parentId (GuildChannel_patch C data this)"
  "gc_permissionOverwrites (BaseGuildTextChannel_patch C data this) =
     gc_permissionOverwrites (GuildChannel_patch C data this)"
  "gc_name (BaseGuildTextChannel_patch C data this) = gc_name (GuildChannel_patch C data this)"
  "gc_rawPosition (BaseGuildTextChannel_patch C data this) =
     gc_rawPosition (GuildChannel_patch C data this)"
  by (simp_all add: BaseGuildTextChannel_patch_def Let_def split: option.splits)

lemma BaseGuildTextChannel_patch_sels:
  "tc_messages (BaseGuildTextChannel_patch C data this) =
     (case cd_messages data of
        Some messages \<Rightarrow>
          foldl (\<lambda>cache message. messages_add C message cache) (tc_messages this) messages
      | None \<Rightarrow> tc_messages this)"
  "tc_nsfw (BaseGuildTextChannel_patch C data this) =
     (case cd_nsfw data of Some nsfw \<Rightarrow> nsfw | None \<Rightarrow> tc_nsfw this)"
  "tc_topic (BaseGuildTextChannel_patch C data this) =
     (if present (cd_topic data) then cd_topic data else tc_topic this)"
  "tc_defaultAutoArchiveDuration (BaseGuildTextChannel_patch C data this) =
     (if present (cd_default_auto_archive_duration data)
      then cd_default_auto_archive_duration data else tc_defaultAutoArchiveDuration this)"
  "tc_defaultThreadRateLimitPerUser (BaseGuildTextChannel_patch C data this) =
     (if present (cd_default_thread_rate_limit_per_user data)
      then cd_default_thread_rate_limit_per_user data
      else nullish (tc_defaultThreadRateLimitPerUser this) (Some Null))"
  "base_guild_text_channel.more (BaseGuildTextChannel_patch C data this) =
     base_guild_text_channel.more this"
  by (simp_all add: BaseGuildTextChannel_patch_def GuildChannel_patch_def Channel_patch_def
      Let_def split: option.splits)

lemma nullish_keeps: "x \<noteq> None \<Longrightarrow> nullish x (Some Null) = x"
  by (cases x) (auto simp: nullish_def split: nullable.splits)

lemma partial_update_scenario:
  "gc_name (BaseGuildTextChannel_patch C ((cd_only ''1'')\<lparr>cd_topic := Some (Val ''hi'')\<rparr>)
       (BaseGuildTextChannel_new C T g
          ((cd_only ''1'')\<lparr>cd_name := Some (Val ''general''), cd_nsfw := Some False\<rparr>)))
     = Some (Val ''general'')"
  "tc_nsfw (BaseGuildTextChannel_patch C ((cd_only ''1'')\<lparr>cd_topic := Some (Val ''hi'')\<rparr>)
       (BaseGuildTextChannel_new C T g
          ((cd_only ''1'')\<lparr>cd_name := Some (Val ''general''), cd_nsfw := Some False\<rparr>)))
     = False"
  "tc_topic (BaseGuildTextChannel_patch C ((cd_only ''1'')\<lparr>cd_topic := Some (Val ''hi'')\<rparr>)
       (BaseGuildTextChannel_new C T g
          ((cd_only ''1'')\<lparr>cd_name := Some (Val ''general''), cd_nsfw := Some False\<rparr>)))
     = Some (Val ''hi'')"
  by (simp_all add: BaseGuildTextChannel_patch_base BaseGuildTextChannel_patch_sels
      GuildChannel_patch_sels present_def BaseGuildTextChannel_new_def cd_only_def)

text \<open>
  C1, as the code has it. A patch of a guild channel or of a text-based guild channel
  leaves every attribute whose key the payload lacks as it was (\<open>type\<close> and
  \<open>deleted\<close> are never written; an undefined \<open>defaultThreadRateLimitPerUser\<close> becomes
  \<open>null\<close>). A text channel constructed from \<open>{id: "1", name: "general", nsfw: false}\<close>
  and patched with \<open>{id: "1", topic: "hi"}\<close> has the name \<open>"general"\<close>, \<open>nsfw\<close>
  false and the topic \<open>"hi"\<close>. The rule does not hold for every entity: a voice state
  patch with \<open>self_video\<close> and without \<open>self_stream\<close> sets \<open>streaming\<close> to false, and
  a role patch without \<open>tags\<close> sets \<open>tags\<close> to \<open>null\<close>.
\<close>

theorem patch_keeps_absent_fields:
  "(ch_deleted (GuildChannel_patch C P S) = ch_deleted S
    \<and> ch_type (GuildChannel_patch C P S) = ch_type S
    \<and> (\<not> present (cd_flags P) \<longrightarrow> ch_flags (GuildChannel_patch C P S) = ch_flags S)
    \<and> (\<not> present (cd_name P) \<longrightarrow> gc_name (GuildChannel_patch C P S) = gc_name S)
    \<and> (\<not> present (cd_position P) \<longrightarrow>
         gc_rawPosition (GuildChannel_patch C P S) = gc_rawPosition S)
    \<and> (\<not> present (cd_guild_id P) \<longrightarrow> gc_guildId (GuildChannel_patch C P S) = gc_guildId S)
    \<and> (\<not> present (cd_parent_id P) \<longrightarrow>
         gc_parentId (GuildChannel_patch C P S) = gc_parentId S)
    \<and> (\<not> present (cd_permission_overwrites P) \<longrightarrow>
         gc_permissionOverwrites (GuildChannel_patch C P S) = gc_permissionOverwrites S))
   \<and> (ch_deleted (BaseGuildTextChannel_patch C P T) = ch_deleted T
    \<and> ch_type (BaseGuildTextChannel_patch C P T) = ch_type T
    \<and> (\<not> present (cd_flags P) \<longrightarrow> ch_flags (BaseGuildTextChannel_patch C P T) = ch_flags T)
    \<and> (\<not> present (cd_name P) \<longrightarrow> gc_name (BaseGuildTextChannel_patch C P T) = gc_name T)
    \<and> (\<not> present (cd_position P) \<longrightarrow>
         gc_rawPosition (BaseGuildTextChannel_patch C P T) = gc_rawPosition T)
    \<and> (\<not> present (cd_guild_id P) \<longrightarrow>
         gc_guildId (BaseGuildTextChannel_patch C P T) = gc_guildId T)
    \<and> (\<not> present (cd_parent_id P) \<longrightarrow>
         gc_parentId (BaseGuildTextChannel_patch C P T) = gc_parentId T)
    \<and> (\<not> present (cd_permission_overwrites P) \<longrightarrow>
         gc_permissionOverwrites (BaseGuildTextChannel_patch C P T) = gc_permissionOverwrites T)
    \<and> (\<not> present (cd_topic P) \<longrightarrow> tc_topic (BaseGuildTextChannel_patch C P T) = tc_topic T)
    \<and> (\<not> present (cd_nsfw P) \<longrightarrow> tc_nsfw (BaseGuildTextChannel_patch C P T) = tc_nsfw T)
    \<and> (\<not> present (cd_default_auto_archive_duration P) \<longrightarrow>
         tc_defaultAutoArchiveDuration (BaseGuildTextChannel_patch C P T) =
           tc_defaultAutoArchiveDuration T)
    \<and> (\<not> present (cd_default_thread_rate_limit_per_user P)
         \<and> tc_defaultThreadRateLimitPerUser T \<noteq> None \<longrightarrow>
         tc_defaultThreadRateLimitPerUser (BaseGuildTextChannel_patch C P T) =
           tc_defaultThreadRateLimitPerUser T)
    \<and> (\<not> present (cd_messages P) \<longrightarrow>
         tc_messages (BaseGuildTextChannel_patch C P T) = tc_messages T))
   \<and> (gc_name (BaseGuildTextChannel_patch C ((cd_only ''1'')\<lparr>cd_topic := Some (Val ''hi'')\<rparr>)
          (BaseGuildTextChannel_new C CT g
             ((cd_only ''1'')\<lparr>cd_name := Some (Val ''general''), cd_nsfw := Some False\<rparr>)))
        = Some (Val ''general'')
    \<and> tc_nsfw (BaseGuildTextChannel_patch C ((cd_only ''1'')\<lparr>cd_topic := Some (Val ''hi'')\<rparr>)
          (BaseGuildTextChannel_new C CT g
             ((cd_only ''1'')\<lparr>cd_name := Some (Val ''general''), cd_nsfw := Some False\<rparr>)))
        = False
    \<and> tc_topic (BaseGuildTextChannel_patch C ((cd_only ''1'')\<lparr>cd_topic := Some (Val ''hi'')\<rparr>)
          (BaseGuildTextChannel_new C CT g
             ((cd_only ''1'')\<lparr>cd_name := Some (Val ''general''), cd_nsfw := Some False\<rparr>)))
        = Some (Val ''hi''))
   \<and> (present (vd_self_video Q) \<and> \<not> present (vd_self_stream Q) \<longrightarrow>
        vs_streaming (VoiceState_patch D Q V) = Some (Val False))
   \<and> (\<not> present (rd_tags R) \<and> Role_patch RF R r = Inr r' \<longrightarrow> r_tags r' = Some Null)"
proof -
  have role: "\<not> present (rd_tags R) \<and> Role_patch RF R r = Inr r' \<longrightarrow> r_tags r' = Some Null"
    using Role_patch_tags [of RF R r r'] by (auto simp: present_def)
  have voice: "present (vd_self_video Q) \<and> \<not> present (vd_self_stream Q) \<longrightarrow>
        vs_streaming (VoiceState_patch D Q V) = Some (Val False)"
    by (simp add: VoiceState_patch_sels present_def nullish_simps)
  have guild_channel:
    "ch_deleted (GuildChannel_patch C P S) = ch_deleted S
    \<and> ch_type (GuildChannel_patch C P S) = ch_type S
    \<and> (\<not> present (cd_flags P) \<longrightarrow> ch_flags (GuildChannel_patch C P S) = ch_flags S)
    \<and> (\<not> present (cd_name P) \<longrightarrow> gc_name (GuildChannel_patch C P S) = gc_name S)
    \<and> (\<not> present (cd_position P) \<longrightarrow>
         gc_rawPosition (GuildChannel_patch C P S) = gc_rawPosition S)
    \<and> (\<not> present (cd_guild_id P) \<longrightarrow> gc_guildId (GuildChannel_patch C P S) = gc_guildId S)
    \<and> (\<not> present (cd_parent_id P) \<longrightarrow>
         gc_parentId (GuildChannel_patch C P S) = gc_parentId S)
    \<and> (\<not> present (cd_permission_overwrites P) \<longrightarrow>
         gc_permissionOverwrites (GuildChannel_patch C P S) = gc_permissionOverwrites S)"
    by (intro conjI impI) (simp_all add: GuildChannel_patch_sels present_def)
  have text_channel:
    "ch_deleted (BaseGuildTextChannel_patch C P T) = ch_deleted T
    \<and> ch_type (BaseGuildTextChannel_patch C P T) = ch_type T
    \<and> (\<not> present (cd_flags P) \<longrightarrow> ch_flags (BaseGuildTextChannel_patch C P T) = ch_flags T)
    \<and> (\<not> present (cd_name P) \<longrightarrow> gc_name (BaseGuildTextChannel_patch C P T) = gc_name T)
    \<and> (\<not> present (cd_position P) \<longrightarrow>
         gc_rawPosition (BaseGuildTextChannel_patch C P T) = gc_rawPosition T)
    \<and> (\<not> present (cd_guild_id P) \<longrightarrow>
         gc_guildId (BaseGuildTextChannel_patch C P T) = gc_guildId T)
    \<and> (\<not> present (cd_parent_id P) \<longrightarrow>
         gc_parentId (BaseGuildTextChannel_patch C P T) = gc_parentId T)
    \<and> (\<not> present (cd_permission_overwrites P) \<longrightarrow>
         gc_permissionOverwrites (BaseGuildTextChannel_patch C P T) = gc_permissionOverwrites T)
    \<and> (\<not> present (cd_topic P) \<longrightarrow> tc_topic (BaseGuildTextChannel_patch C P T) = tc_topic T)
    \<and> (\<not> present (cd_nsfw P) \<longrightarrow> tc_nsfw (BaseGuildTextChannel_patch C P T) = tc_nsfw T)
    \<and> (\<not> present (cd_default_auto_archive_duration P) \<longrightarrow>
         tc_defaultAutoArchiveDuration (BaseGuildTextChannel_patch C P T) =
           tc_defaultAutoArchiveDuration T)
    \<and> (\<not> present (cd_default_thread_rate_limit_per_user P)
         \<and> tc_defaultThreadRateLimitPerUser T \<noteq> None \<longrightarrow>
         tc_defaultThreadRateLimitPerUser (BaseGuildTextChannel_patch C P T) =
           tc_defaultThreadRateLimitPerUser T)
    \<and> (\<not> present (cd_messages P) \<longrightarrow>
         tc_messages (BaseGuildTextChannel_patch C P T) = tc_messages T)"
    by (intro conjI impI)
       (simp_all add: BaseGuildTextChannel_patch_base BaseGuildTextChannel_patch_sels
          GuildChannel_patch_sels present_def nullish_keeps)
  have scenario:
    "gc_name (BaseGuildTextChannel_patch C ((cd_only ''1'')\<lparr>cd_topic := Some (Val ''hi'')\<rparr>)
          (BaseGuildTextChannel_new C CT g
             ((cd_only ''1'')\<lparr>cd_name := Some (Val ''general''), cd_nsfw := Some False\<rparr>)))
        = Some (Val ''general'')
    \<and> tc_nsfw (BaseGuildTextChannel_patch C ((cd_only ''1'')\<lparr>cd_topic := Some (Val ''hi'')\<rparr>)
          (BaseGuildTextChannel_new C CT g
             ((cd_only ''1'')\<lparr>cd_name := Some (Val ''general''), cd_nsfw := Some False\<rparr>)))
        = False
    \<and> tc_topic (BaseGuildTextChannel_patch C ((cd_only ''1'')\<lparr>cd_topic := Some (Val ''hi'')\<rparr>)
          (BaseGuildTextChannel_new C CT g
             ((cd_only ''1'')\<lparr>cd_name := Some (Val ''general''), cd_nsfw := Some False\<rparr>)))
        = Some (Val ''hi'')"
    by (intro conjI) (rule partial_update_scenario)+
  show ?thesis
    by (rule conjI [OF guild_channel conjI [OF text_channel conjI [OF scenario
          conjI [OF voice role]]]])
qed



text \<open>
  The payload \<open>{id: "1", topic: "hi"}\<close> lacks \<open>name\<close> and \<open>nsfw\<close>; patched into the
  channel constructed from \<open>{id: "1", type: 0, name: "general", nsfw: false}\<close> it
  leaves both as they were.
\<close>

theorem patch_keeps_absent_fields_witness:
  "\<not> present (cd_name ((cd_only ''1'')\<lparr>cd_topic := Some (Val ''hi'')\<rparr>))
   \<and> \<not> present (cd_nsfw ((cd_only ''1'')\<lparr>cd_topic := Some (Val ''hi'')\<rparr>))
   \<and> gc_name (BaseGuildTextChannel_patch example_collab
        ((cd_only ''1'')\<lparr>cd_topic := Some (Val ''hi'')\<rparr>)
        (BaseGuildTextChannel_new example_collab example_ChannelTypes (Some ''9'')
           ((cd_only ''1'')\<lparr>cd_type := Some 0, cd_name := Some (Val ''general''),
              cd_nsfw := Some False\<rparr>)))
     = gc_name (BaseGuildTextChannel_new example_collab example_ChannelTypes (Some ''9'')
           ((cd_only ''1'')\<lparr>cd_type := Some 0, cd_name := Some (Val ''general''),
              cd_nsfw := Some False\<rparr>))
   \<and> tc_nsfw (BaseGuildTextChannel_patch example_collab
        ((cd_only ''1'')\<lparr>cd_topic := Some (Val ''hi'')\<rparr>)
        (BaseGuildTextChannel_new example_collab example_ChannelTypes (Some ''9'')
           ((cd_only ''1'')\<lparr>cd_type := Some 0, cd_name := Some (Val ''general''),
              cd_nsfw := Some False\<rparr>)))
     = tc_nsfw (BaseGuildTextChannel_new example_collab example_ChannelTypes (Some ''9'')
           ((cd_only ''1'')\<lparr>cd_type := Some 0, cd_name := Some (Val ''general''),
              cd_nsfw := Some False\<rparr>))"
proof -
  let ?P = "(cd_only ''1'')\<lparr>cd_topic := Some (Val ''hi'')\<rparr>"
  let ?T = "BaseGuildTextChannel_new example_collab example_ChannelTypes (Some ''9'')
           ((cd_only ''1'')\<lparr>cd_type := Some 0, cd_name := Some (Val ''general''),
              cd_nsfw := Some False\<rparr>)"
  have absent: "\<not> present (cd_name ?P)" "\<not> present (cd_nsfw ?P)"
    by (simp_all add: present_def cd_only_def)
  note text_channel =
    patch_keeps_absent_fields [of example_collab ?P _ ?T, THEN conjunct2, THEN conjunct1]
  note name = text_channel [THEN conjunct2, THEN conjunct2, THEN conjunct2, THEN conjunct1]
  note nsfw = text_channel [THEN conjunct2, THEN conjunct2, THEN conjunct2, THEN conjunct2,
    THEN conjunct2, THEN conjunct2, THEN conjunct2, THEN conjunct2, THEN conjunct2,
    THEN conjunct1]
  show ?thesis
    by (intro conjI absent name [rule_format, OF absent(1)] nsfw [rule_format, OF absent(2)])
qed

text \<open>
  C1 as stated fails for voice states: a voice state that is streaming has a prior
  value for \<open>streaming\<close>; the payload \<open>{self_video: false}\<close> lacks \<open>self_stream\<close>, and
  the patch sets \<open>streaming\<close> to false.
\<close>

theorem patch_keeps_absent_fields_counterexample:
  "\<not> present (vd_self_stream ((vd_only ''7'')\<lparr>vd_self_video := Some (Val False)\<rparr>))
   \<and> vs_streaming (VoiceState_new example_Date_parse
        ((vd_only ''7'')\<lparr>vd_self_video := Some (Val True),
           vd_self_stream := Some (Val True)\<rparr>)) = Some (Val True)
   \<and> vs_streaming (VoiceState_patch example_Date_parse
        ((vd_only ''7'')\<lparr>vd_self_video := Some (Val False)\<rparr>)
        (VoiceState_new example_Date_parse
           ((vd_only ''7'')\<lparr>vd_self_video := Some (Val True),
              vd_self_stream := Some (Val True)\<rparr>))) = Some (Val False)"
  by (simp add: present_def vd_only_def VoiceState_patch_sels nullish_def VoiceState_new_def)


section \<open>Position updates\<close>

lemma example_channel_sels:
  "ch_id (example_channel i n) = Some i" "gc_name (example_channel i n) = Some (Val n)"
  "ch_type (example_channel i n) = ''GUILD_TEXT''"
  by (simp_all add: example_channel_def GuildChannel_patch_sels present_def cd_only_def
      GuildChannel_new_def Channel_new_def channel.defs guild_channel.defs example_ChannelTypes_def)

lemma update_existing_keys:
  "map_of al k = Some v \<Longrightarrow> map fst (AList.update k w al) = map fst al"
  by (simp add: update_keys map_of_eq_None_iff [symmetric] del: map_of_eq_None_iff)

lemma set_role_positions_keys:
  "map fst (set_role_positions ps roles) = map fst roles"
proof (induction ps arbitrary: roles)
  case Nil
  then show ?case by simp
next
  case (Cons p ps)
  show ?case
    by (cases "map_of roles (pe_id p)")
       (simp_all add: Cons.IH Manager_resolve_def update_existing_keys)
qed

lemma set_role_positions_entry:
  "map_of (set_role_positions ps roles) i = Some r' \<Longrightarrow>
   \<exists>r. map_of roles i = Some r \<and> r'\<lparr>r_rawPosition := r_rawPosition r\<rparr> = r
        \<and> (i \<notin> pe_id ` set ps \<longrightarrow> r' = r)"
proof (induction ps arbitrary: roles)
  case Nil
  then show ?case by simp
next
  case (Cons p ps)
  show ?case
  proof (cases "map_of roles (pe_id p)")
    case None
    with Cons.prems have "map_of (set_role_positions ps roles) i = Some r'"
      by (simp add: Manager_resolve_def)
    from Cons.IH [OF this] obtain r where r: "map_of roles i = Some r"
      "r'\<lparr>r_rawPosition := r_rawPosition r\<rparr> = r" "i \<notin> pe_id ` set ps \<longrightarrow> r' = r"
      by blast
    then show ?thesis by auto
  next
    case (Some role)
    let ?roles1 = "AList.update (pe_id p) (role\<lparr>r_rawPosition := pe_position p\<rparr>) roles"
    from Some Cons.prems have "map_of (set_role_positions ps ?roles1) i = Some r'"
      by (simp add: Manager_resolve_def)
    from Cons.IH [OF this] obtain r1 where r1: "map_of ?roles1 i = Some r1"
      "r'\<lparr>r_rawPosition := r_rawPosition r1\<rparr> = r1" "i \<notin> pe_id ` set ps \<longrightarrow> r' = r1"
      by blast
    show ?thesis
    proof (cases "i = pe_id p")
      case True
      with r1(1) have eq: "r1 = role\<lparr>r_rawPosition := pe_position p\<rparr>"
        by (simp add: update_conv')
      have "r'\<lparr>r_rawPosition := r_rawPosition role\<rparr>
              = (r'\<lparr>r_rawPosition := r_rawPosition r1\<rparr>)\<lparr>r_rawPosition := r_rawPosition role\<rparr>"
        by simp
      also have "\<dots> = r1\<lparr>r_rawPosition := r_rawPosition role\<rparr>"
        by (simp only: r1(2))
      also have "\<dots> = role" by (simp add: eq)
      finally show ?thesis using True Some by simp
    next
      case False
      with r1(1) have "map_of roles i = Some r1" by (simp add: update_conv')
      with r1 False show ?thesis by auto
    qed
  qed
qed

lemma set_role_positions_assigns:
  "distinct (map pe_id ps) \<Longrightarrow> p \<in> set ps \<Longrightarrow> map_of roles (pe_id p) = Some r \<Longrightarrow>
   map_of (set_role_positions ps roles) (pe_id p) = Some (r\<lparr>r_rawPosition := pe_position p\<rparr>)"
proof (induction ps arbitrary: roles r)
  case Nil
  then show ?case by simp
next
  case (Cons q qs)
  let ?roles1 = "(case Manager_resolve roles (ById (pe_id q)) of None \<Rightarrow> roles
        | Some role \<Rightarrow> AList.update (pe_id q) (role\<lparr>r_rawPosition := pe_position q\<rparr>) roles)"
  show ?case
  proof (cases "p = q")
    case True
    have notin: "pe_id p \<notin> pe_id ` set qs" using Cons.prems(1) True by auto
    have m1: "map_of ?roles1 (pe_id p) = Some (r\<lparr>r_rawPosition := pe_position p\<rparr>)"
      using Cons.prems(3) True by (simp add: Manager_resolve_def update_conv')
    obtain r' where r': "map_of (set_role_positions qs ?roles1) (pe_id p) = Some r'"
    proof -
      have "map_of ?roles1 (pe_id p) \<noteq> None" using m1 by simp
      then have "pe_id p \<in> fst ` set ?roles1" by (simp only: map_of_eq_None_iff not_not)
      then have "pe_id p \<in> set (map fst (set_role_positions qs ?roles1))"
        by (simp only: set_role_positions_keys set_map)
      then have "map_of (set_role_positions qs ?roles1) (pe_id p) \<noteq> None"
        by (simp only: map_of_eq_None_iff set_map not_not)
      then show ?thesis using that by blast
    qed
    from set_role_positions_entry [OF r'] notin m1
    have "r' = r\<lparr>r_rawPosition := pe_position p\<rparr>" by auto
    with r' show ?thesis by simp
  next
    case False
    with Cons.prems have pin: "p \<in> set qs" and d: "distinct (map pe_id qs)"
      and nq: "pe_id q \<notin> pe_id ` set qs" by auto
    from pin have "pe_id p \<in> pe_id ` set qs" by (rule imageI)
    with nq have ne: "pe_id p \<noteq> pe_id q" by auto
    have "map_of ?roles1 (pe_id p) = Some r"
      using Cons.prems(3) ne by (simp add: Manager_resolve_def update_conv' split: option.splits)
    from Cons.IH [OF d pin this] show ?thesis by simp
  qed
qed


lemma map_of_string_keys: "map_of (string_keys cache) i = map_of cache (Some i)"
  by (induction cache) (auto simp: string_keys_def split: option.splits)

lemma GuildChannelManager_resolve_ById:
  "GuildChannelManager_resolve store cache (ById i) = map_of cache (Some i)"
  by (simp add: GuildChannelManager_resolve_def Manager_resolve_def map_of_string_keys)

lemma set_channel_positions_rest:
  "next_channel (set_channel_positions ps cache store) = next_channel store"
  "client_channels (set_channel_positions ps cache store) = client_channels store"
  by (induction ps arbitrary: store; simp add: GuildChannelManager_resolve_ById split: option.splits)+

lemma set_channel_positions_frame:
  "(channel_at (set_channel_positions ps cache store) a)
      \<lparr>gc_rawPosition := gc_rawPosition (channel_at store a)\<rparr> = channel_at store a
   \<and> (a \<notin> listed_channels ps cache \<longrightarrow>
        channel_at (set_channel_positions ps cache store) a = channel_at store a)"
proof (induction ps arbitrary: store)
  case Nil
  then show ?case by simp
next
  case (Cons p ps)
  let ?store1 = "(case GuildChannelManager_resolve store cache (ById (pe_id p)) of None \<Rightarrow> store
      | Some channel \<Rightarrow> store\<lparr>channel_at := (channel_at store)
           (channel := (channel_at store channel)\<lparr>gc_rawPosition := pe_position p\<rparr>)\<rparr>)"
  let ?c' = "channel_at (set_channel_positions ps cache ?store1) a"
  have step: "(channel_at ?store1 a)\<lparr>gc_rawPosition := gc_rawPosition (channel_at store a)\<rparr>
                = channel_at store a"
    "map_of cache (Some (pe_id p)) \<noteq> Some a \<Longrightarrow> channel_at ?store1 a = channel_at store a"
    by (simp_all add: GuildChannelManager_resolve_ById split: option.splits)
  have ih: "?c'\<lparr>gc_rawPosition := gc_rawPosition (channel_at ?store1 a)\<rparr> = channel_at ?store1 a"
    "a \<notin> listed_channels ps cache \<Longrightarrow> ?c' = channel_at ?store1 a"
    using Cons.IH [of ?store1] by simp_all
  have "?c'\<lparr>gc_rawPosition := gc_rawPosition (channel_at store a)\<rparr>
          = (?c'\<lparr>gc_rawPosition := gc_rawPosition (channel_at ?store1 a)\<rparr>)
              \<lparr>gc_rawPosition := gc_rawPosition (channel_at store a)\<rparr>"
    by simp
  also have "\<dots> = (channel_at ?store1 a)\<lparr>gc_rawPosition := gc_rawPosition (channel_at store a)\<rparr>"
    by (simp only: ih(1))
  also have "\<dots> = channel_at store a" by (rule step(1))
  finally have one: "?c'\<lparr>gc_rawPosition := gc_rawPosition (channel_at store a)\<rparr> = channel_at store a" .
  have two: "a \<notin> listed_channels (p # ps) cache \<longrightarrow> ?c' = channel_at store a"
  proof
    assume n: "a \<notin> listed_channels (p # ps) cache"
    then have "a \<notin> listed_channels ps cache" "map_of cache (Some (pe_id p)) \<noteq> Some a"
      by (auto simp: listed_channels_def)
    then show "?c' = channel_at store a" using ih(2) step(2) by simp
  qed
  from one two show ?case by simp
qed

lemma set_channel_positions_assigns:
  "map_of cache (Some (pe_id p)) = Some a \<Longrightarrow>
   gc_rawPosition (channel_at (set_channel_positions [p] cache store) a) = pe_position p"
  by (simp add: GuildChannelManager_resolve_ById)


lemma set_channel_positions_append:
  "set_channel_positions (qs @ rs) cache store =
     set_channel_positions rs cache (set_channel_positions qs cache store)"
  by (induction qs arbitrary: store) simp_all

lemma set_channel_positions_last:
  "map_of cache (Some (pe_id p)) = Some a \<Longrightarrow>
   gc_rawPosition (channel_at (set_channel_positions (qs @ [p]) cache store) a) = pe_position p"
  by (simp add: set_channel_positions_append GuildChannelManager_resolve_ById)

lemma set_role_positions_skip:
  "\<forall>p \<in> set ps. map_of roles (pe_id p) = None \<Longrightarrow> set_role_positions ps roles = roles"
  by (induction ps) (simp_all add: Manager_resolve_def)

lemma set_channel_positions_skip:
  "\<forall>p \<in> set ps. map_of cache (Some (pe_id p)) = None \<Longrightarrow>
   set_channel_positions ps cache store = store"
  by (induction ps) (simp_all add: GuildChannelManager_resolve_ById)

lemma roles_handler_frame:
  assumes "map_of (client_guilds (fst (GuildRolesPositionUpdate_handle data client))) k = Some g'"
  shows "\<exists>g. map_of (client_guilds client) k = Some g
            \<and> g'\<lparr>g_roles := g_roles g\<rparr> = g
            \<and> map fst (g_roles g') = map fst (g_roles g)
            \<and> (\<forall>i r'. map_of (g_roles g') i = Some r' \<longrightarrow>
                 (\<exists>r. map_of (g_roles g) i = Some r
                    \<and> r'\<lparr>r_rawPosition := r_rawPosition r\<rparr> = r
                    \<and> (k \<noteq> pd_guild_id data \<or> i \<notin> pe_id ` set (pd_entries data) \<longrightarrow> r' = r)))"
proof (cases "map_of (client_guilds client) (pd_guild_id data)")
  case None
  with assms have "map_of (client_guilds client) k = Some g'"
    by (simp add: GuildRolesPositionUpdate_handle_def Manager_resolve_def)
  then show ?thesis by simp
next
  case (Some guild)
  let ?guild' = "guild\<lparr>g_roles := set_role_positions (pd_entries data) (g_roles guild)\<rparr>"
  from Some assms have m: "map_of (AList.update (pd_guild_id data) ?guild' (client_guilds client)) k
      = Some g'"
    by (simp add: GuildRolesPositionUpdate_handle_def Manager_resolve_def Let_def)
  show ?thesis
  proof (cases "k = pd_guild_id data")
    case True
    with m have g': "g' = ?guild'" by (simp add: update_conv')
    have "\<forall>i r'. map_of (g_roles g') i = Some r' \<longrightarrow>
            (\<exists>r. map_of (g_roles guild) i = Some r
               \<and> r'\<lparr>r_rawPosition := r_rawPosition r\<rparr> = r
               \<and> (k \<noteq> pd_guild_id data \<or> i \<notin> pe_id ` set (pd_entries data) \<longrightarrow> r' = r))"
      using set_role_positions_entry [where ps = "pd_entries data" and roles = "g_roles guild"] True
      by (simp add: g')
    moreover have "g'\<lparr>g_roles := g_roles guild\<rparr> = guild" by (simp add: g')
    moreover have "map fst (g_roles g') = map fst (g_roles guild)"
      by (simp add: g' set_role_positions_keys)
    ultimately show ?thesis using Some True by blast
  next
    case False
    with m have "map_of (client_guilds client) k = Some g'" by (simp add: update_conv')
    then show ?thesis by simp
  qed
qed

lemma roles_handler_rest:
  "client_store (fst (GuildRolesPositionUpdate_handle data client)) = client_store client"
  "map fst (client_guilds (fst (GuildRolesPositionUpdate_handle data client)))
     = map fst (client_guilds client)"
  by (simp_all add: GuildRolesPositionUpdate_handle_def Manager_resolve_def Let_def
      update_existing_keys split: option.splits)

lemma roles_handler_assigns:
  assumes "map_of (client_guilds client) (pd_guild_id data) = Some g"
    and "distinct (map pe_id (pd_entries data))" and "p \<in> set (pd_entries data)"
    and "map_of (g_roles g) (pe_id p) = Some r"
  shows "\<exists>g'. map_of (client_guilds (fst (GuildRolesPositionUpdate_handle data client)))
                 (pd_guild_id data) = Some g'
            \<and> map_of (g_roles g') (pe_id p) = Some (r\<lparr>r_rawPosition := pe_position p\<rparr>)"
  using assms(1) set_role_positions_assigns [OF assms(2,3,4)]
  by (simp add: GuildRolesPositionUpdate_handle_def Manager_resolve_def Let_def update_conv')

lemma roles_handler_skip:
  assumes "\<forall>g. map_of (client_guilds client) (pd_guild_id data) = Some g \<longrightarrow>
             (\<forall>p \<in> set (pd_entries data). map_of (g_roles g) (pe_id p) = None)"
  shows "fst (GuildRolesPositionUpdate_handle data client) = client"
proof (cases "map_of (client_guilds client) (pd_guild_id data)")
  case None
  then show ?thesis by (simp add: GuildRolesPositionUpdate_handle_def Manager_resolve_def)
next
  case (Some g)
  with assms have "set_role_positions (pd_entries data) (g_roles g) = g_roles g"
    by (intro set_role_positions_skip) simp
  with Some show ?thesis
    by (simp add: GuildRolesPositionUpdate_handle_def Manager_resolve_def Let_def update_triv)
qed

lemma channels_handler_frame:
  "client_guilds (fst (GuildChannelsPositionUpdate_handle data client)) = client_guilds client"
  "next_channel (client_store (fst (GuildChannelsPositionUpdate_handle data client)))
     = next_channel (client_store client)"
  "client_channels (client_store (fst (GuildChannelsPositionUpdate_handle data client)))
     = client_channels (client_store client)"
  "(channel_at (client_store (fst (GuildChannelsPositionUpdate_handle data client))) a)
      \<lparr>gc_rawPosition := gc_rawPosition (channel_at (client_store client) a)\<rparr>
     = channel_at (client_store client) a"
  "(\<forall>g. map_of (client_guilds client) (pd_guild_id data) = Some g \<longrightarrow>
        a \<notin> listed_channels (pd_entries data) (g_channels g)) \<Longrightarrow>
   channel_at (client_store (fst (GuildChannelsPositionUpdate_handle data client))) a
     = channel_at (client_store client) a"
  using set_channel_positions_frame [where ps = "pd_entries data" and store = "client_store client" and a = a]
  by (simp_all add: GuildChannelsPositionUpdate_handle_def Manager_resolve_def
      set_channel_positions_rest split: option.splits)

lemma channels_handler_assigns:
  assumes "map_of (client_guilds client) (pd_guild_id data) = Some g"
    and "pd_entries data = qs @ [p]" and "map_of (g_channels g) (Some (pe_id p)) = Some a"
  shows "gc_rawPosition
           (channel_at (client_store (fst (GuildChannelsPositionUpdate_handle data client))) a)
         = pe_position p"
  using assms(1,2) set_channel_positions_last [OF assms(3)]
  by (simp add: GuildChannelsPositionUpdate_handle_def Manager_resolve_def)


text \<open>
  C10. A roles position update leaves the channel store and the keys of the guild cache
  as they are; in every guild it leaves all attributes but the role cache, and the keys
  of the role cache, as they are; every cached role keeps all attributes but
  \<open>rawPosition\<close>, and keeps that too unless it is a role of the addressed guild whose
  id the payload lists. When no listed id is cached, nothing changes. A listed cached
  role gets the position of its entry. A channels position update leaves the guilds, the
  client's channel cache and the allocation as they are; every channel object keeps all
  attributes but \<open>rawPosition\<close>, and keeps that too unless the payload lists an id
  under which the guild's cache holds it; the object of the last entry gets that entry's
  position. The handlers are total: an id that is not cached is skipped.
\<close>

theorem position_update_frame:
  "(client_store (fst (GuildRolesPositionUpdate_handle data client)) = client_store client
    \<and> map fst (client_guilds (fst (GuildRolesPositionUpdate_handle data client)))
        = map fst (client_guilds client)
    \<and> (\<forall>k g'. map_of (client_guilds (fst (GuildRolesPositionUpdate_handle data client))) k
                 = Some g' \<longrightarrow>
          (\<exists>g. map_of (client_guilds client) k = Some g
             \<and> g'\<lparr>g_roles := g_roles g\<rparr> = g
             \<and> map fst (g_roles g') = map fst (g_roles g)
             \<and> (\<forall>i r'. map_of (g_roles g') i = Some r' \<longrightarrow>
                  (\<exists>r. map_of (g_roles g) i = Some r
                     \<and> r'\<lparr>r_rawPosition := r_rawPosition r\<rparr> = r
                     \<and> (k \<noteq> pd_guild_id data \<or> i \<notin> pe_id ` set (pd_entries data)
                          \<longrightarrow> r' = r)))))
    \<and> ((\<forall>g. map_of (client_guilds client) (pd_guild_id data) = Some g \<longrightarrow>
            (\<forall>p \<in> set (pd_entries data). map_of (g_roles g) (pe_id p) = None)) \<longrightarrow>
         fst (GuildRolesPositionUpdate_handle data client) = client)
    \<and> (map_of (client_guilds client) (pd_guild_id data) = Some guild
         \<and> distinct (map pe_id (pd_entries data)) \<and> p \<in> set (pd_entries data)
         \<and> map_of (g_roles guild) (pe_id p) = Some role \<longrightarrow>
         (\<exists>g'. map_of (client_guilds (fst (GuildRolesPositionUpdate_handle data client)))
                  (pd_guild_id data) = Some g'
            \<and> map_of (g_roles g') (pe_id p)
                = Some (role\<lparr>r_rawPosition := pe_position p\<rparr>))))
   \<and> (client_guilds (fst (GuildChannelsPositionUpdate_handle data client)) = client_guilds client
    \<and> next_channel (client_store (fst (GuildChannelsPositionUpdate_handle data client)))
        = next_channel (client_store client)
    \<and> client_channels (client_store (fst (GuildChannelsPositionUpdate_handle data client)))
        = client_channels (client_store client)
    \<and> (\<forall>a. (channel_at (client_store (fst (GuildChannelsPositionUpdate_handle data client))) a)
              \<lparr>gc_rawPosition := gc_rawPosition (channel_at (client_store client) a)\<rparr>
            = channel_at (client_store client) a
          \<and> ((\<forall>g. map_of (client_guilds client) (pd_guild_id data) = Some g \<longrightarrow>
                  a \<notin> listed_channels (pd_entries data) (g_channels g)) \<longrightarrow>
               channel_at (client_store (fst (GuildChannelsPositionUpdate_handle data client))) a
                 = channel_at (client_store client) a))
    \<and> (map_of (client_guilds client) (pd_guild_id data) = Some guild
         \<and> pd_entries data = qs @ [q] \<and> map_of (g_channels guild) (Some (pe_id q)) = Some c \<longrightarrow>
         gc_rawPosition
           (channel_at (client_store (fst (GuildChannelsPositionUpdate_handle data client))) c)
         = pe_position q))"
proof -
  have roles:
    "client_store (fst (GuildRolesPositionUpdate_handle data client)) = client_store client
    \<and> map fst (client_guilds (fst (GuildRolesPositionUpdate_handle data client)))
        = map fst (client_guilds client)
    \<and> (\<forall>k g'. map_of (client_guilds (fst (GuildRolesPositionUpdate_handle data client))) k
                 = Some g' \<longrightarrow>
          (\<exists>g. map_of (client_guilds client) k = Some g
             \<and> g'\<lparr>g_roles := g_roles g\<rparr> = g
             \<and> map fst (g_roles g') = map fst (g_roles g)
             \<and> (\<forall>i r'. map_of (g_roles g') i = Some r' \<longrightarrow>
                  (\<exists>r. map_of (g_roles g) i = Some r
                     \<and> r'\<lparr>r_rawPosition := r_rawPosition r\<rparr> = r
                     \<and> (k \<noteq> pd_guild_id data \<or> i \<notin> pe_id ` set (pd_entries data)
                          \<longrightarrow> r' = r)))))
    \<and> ((\<forall>g. map_of (client_guilds client) (pd_guild_id data) = Some g \<longrightarrow>
            (\<forall>p \<in> set (pd_entries data). map_of (g_roles g) (pe_id p) = None)) \<longrightarrow>
         fst (GuildRolesPositionUpdate_handle data client) = client)
    \<and> (map_of (client_guilds client) (pd_guild_id data) = Some guild
         \<and> distinct (map pe_id (pd_entries data)) \<and> p \<in> set (pd_entries data)
         \<and> map_of (g_roles guild) (pe_id p) = Some role \<longrightarrow>
         (\<exists>g'. map_of (client_guilds (fst (GuildRolesPositionUpdate_handle data client)))
                  (pd_guild_id data) = Some g'
            \<and> map_of (g_roles g') (pe_id p)
                = Some (role\<lparr>r_rawPosition := pe_position p\<rparr>)))"
  proof (intro conjI allI impI)
    show "client_store (fst (GuildRolesPositionUpdate_handle data client)) = client_store client"
      by (rule roles_handler_rest)
    show "map fst (client_guilds (fst (GuildRolesPositionUpdate_handle data client)))
        = map fst (client_guilds client)"
      by (rule roles_handler_rest)
  next
    fix k g'
    assume "map_of (client_guilds (fst (GuildRolesPositionUpdate_handle data client))) k = Some g'"
    then show "\<exists>g. map_of (client_guilds client) k = Some g
             \<and> g'\<lparr>g_roles := g_roles g\<rparr> = g
             \<and> map fst (g_roles g') = map fst (g_roles g)
             \<and> (\<forall>i r'. map_of (g_roles g') i = Some r' \<longrightarrow>
                  (\<exists>r. map_of (g_roles g) i = Some r
                     \<and> r'\<lparr>r_rawPosition := r_rawPosition r\<rparr> = r
                     \<and> (k \<noteq> pd_guild_id data \<or> i \<notin> pe_id ` set (pd_entries data)
                          \<longrightarrow> r' = r)))"
      by (rule roles_handler_frame)
  next
    assume "\<forall>g. map_of (client_guilds client) (pd_guild_id data) = Some g \<longrightarrow>
            (\<forall>p \<in> set (pd_entries data). map_of (g_roles g) (pe_id p) = None)"
    then show "fst (GuildRolesPositionUpdate_handle data client) = client"
      by (rule roles_handler_skip)
  next
    assume a: "map_of (client_guilds client) (pd_guild_id data) = Some guild
         \<and> distinct (map pe_id (pd_entries data)) \<and> p \<in> set (pd_entries data)
         \<and> map_of (g_roles guild) (pe_id p) = Some role"
    show "\<exists>g'. map_of (client_guilds (fst (GuildRolesPositionUpdate_handle data client)))
                  (pd_guild_id data) = Some g'
            \<and> map_of (g_roles g') (pe_id p)
                = Some (role\<lparr>r_rawPosition := pe_position p\<rparr>)"
      by (rule roles_handler_assigns [OF a [THEN conjunct1] a [THEN conjunct2, THEN conjunct1]
            a [THEN conjunct2, THEN conjunct2, THEN conjunct1]
            a [THEN conjunct2, THEN conjunct2, THEN conjunct2]])
  qed
  have channels:
    "client_guilds (fst (GuildChannelsPositionUpdate_handle data client)) = client_guilds client
    \<and> next_channel (client_store (fst (GuildChannelsPositionUpdate_handle data client)))
        = next_channel (client_store client)
    \<and> client_channels (client_store (fst (GuildChannelsPositionUpdate_handle data client)))
        = client_channels (client_store client)
    \<and> (\<forall>a. (channel_at (client_store (fst (GuildChannelsPositionUpdate_handle data client))) a)
              \<lparr>gc_rawPosition := gc_rawPosition (channel_at (client_store client) a)\<rparr>
            = channel_at (client_store client) a
          \<and> ((\<forall>g. map_of (client_guilds client) (pd_guild_id data) = Some g \<longrightarrow>
                  a \<notin> listed_channels (pd_entries data) (g_channels g)) \<longrightarrow>
               channel_at (client_store (fst (GuildChannelsPositionUpdate_handle data client))) a
                 = channel_at (client_store client) a))
    \<and> (map_of (client_guilds client) (pd_guild_id data) = Some guild
         \<and> pd_entries data = qs @ [q] \<and> map_of (g_channels guild) (Some (pe_id q)) = Some c \<longrightarrow>
         gc_rawPosition
           (channel_at (client_store (fst (GuildChannelsPositionUpdate_handle data client))) c)
         = pe_position q)"
  proof (intro conjI allI impI)
    fix a
    assume "\<forall>g. map_of (client_guilds client) (pd_guild_id data) = Some g \<longrightarrow>
                  a \<notin> listed_channels (pd_entries data) (g_channels g)"
    then show "channel_at (client_store (fst (GuildChannelsPositionUpdate_handle data client))) a
                 = channel_at (client_store client) a"
      by (rule channels_handler_frame(5))
  next
    assume a: "map_of (client_guilds client) (pd_guild_id data) = Some guild
         \<and> pd_entries data = qs @ [q] \<and> map_of (g_channels guild) (Some (pe_id q)) = Some c"
    show "gc_rawPosition
           (channel_at (client_store (fst (GuildChannelsPositionUpdate_handle data client))) c)
         = pe_position q"
      by (rule channels_handler_assigns [OF a [THEN conjunct1] a [THEN conjunct2, THEN conjunct1]
            a [THEN conjunct2, THEN conjunct2]])
  qed (rule channels_handler_frame)+
  show ?thesis by (rule conjI [OF roles channels])
qed


lemma example_client_sels:
  "map_of (client_guilds example_client) ''9'' = Some example_guild"
  "map_of (g_roles example_guild) ''10'' = Some (example_role ''10'' ''everyone'')"
  "map_of (g_roles example_guild) ''404'' = None"
  "map_of (g_channels example_guild) (Some ''1'') = Some 0"
  "map_of (g_channels example_guild) (Some ''404'') = None"
  by (simp_all add: example_client_def example_guild_def)

text \<open>
  The payloads \<open>{guild_id: "9", roles: [{id: "404", position: 1}, {id: "10", position:
  5}]}\<close> and the same with \<open>channels\<close> and the id \<open>"1"\<close>, on the example client:
  the uncached id \<open>"404"\<close> is skipped, the role \<open>"10"\<close> and the channel object 0 get
  raw position 5, and the object at address 1 is as before.
\<close>

theorem position_update_frame_witness:
  "(\<exists>g'. map_of (client_guilds (fst (GuildRolesPositionUpdate_handle
             \<lparr>pd_guild_id = ''9'',
              pd_entries = [\<lparr>pe_id = ''404'', pe_position = Some 1\<rparr>,
                            \<lparr>pe_id = ''10'', pe_position = Some 5\<rparr>]\<rparr> example_client))) ''9''
           = Some g'
        \<and> map_of (g_roles g') ''10''
           = Some ((example_role ''10'' ''everyone'')\<lparr>r_rawPosition := Some 5\<rparr>))
   \<and> gc_rawPosition (channel_at (client_store (fst (GuildChannelsPositionUpdate_handle
             \<lparr>pd_guild_id = ''9'',
              pd_entries = [\<lparr>pe_id = ''404'', pe_position = Some 1\<rparr>,
                            \<lparr>pe_id = ''1'', pe_position = Some 5\<rparr>]\<rparr> example_client))) 0)
       = Some 5
   \<and> channel_at (client_store (fst (GuildChannelsPositionUpdate_handle
             \<lparr>pd_guild_id = ''9'',
              pd_entries = [\<lparr>pe_id = ''404'', pe_position = Some 1\<rparr>,
                            \<lparr>pe_id = ''1'', pe_position = Some 5\<rparr>]\<rparr> example_client))) 1
       = channel_at (client_store example_client) 1"
proof -
  let ?roles = "\<lparr>pd_guild_id = ''9'',
              pd_entries = [\<lparr>pe_id = ''404'', pe_position = Some 1\<rparr>,
                            \<lparr>pe_id = ''10'', pe_position = Some 5\<rparr>]\<rparr>"
  let ?channels = "\<lparr>pd_guild_id = ''9'',
              pd_entries = [\<lparr>pe_id = ''404'', pe_position = Some 1\<rparr>,
                            \<lparr>pe_id = ''1'', pe_position = Some 5\<rparr>]\<rparr>"
  let ?p = "\<lparr>pe_id = ''10'', pe_position = Some 5\<rparr>"
  let ?q = "\<lparr>pe_id = ''1'', pe_position = Some 5\<rparr>"
  have hr: "map_of (client_guilds example_client) (pd_guild_id ?roles) = Some example_guild
         \<and> distinct (map pe_id (pd_entries ?roles)) \<and> ?p \<in> set (pd_entries ?roles)
         \<and> map_of (g_roles example_guild) (pe_id ?p) = Some (example_role ''10'' ''everyone'')"
    by (simp add: example_client_sels)
  have hc: "map_of (client_guilds example_client) (pd_guild_id ?channels) = Some example_guild
         \<and> pd_entries ?channels = [\<lparr>pe_id = ''404'', pe_position = Some 1\<rparr>] @ [?q]
         \<and> map_of (g_channels example_guild) (Some (pe_id ?q)) = Some 0"
    by (simp add: example_client_sels)
  have unlisted: "\<forall>g. map_of (client_guilds example_client) (pd_guild_id ?channels) = Some g \<longrightarrow>
                  1 \<notin> listed_channels (pd_entries ?channels) (g_channels g)"
    by (simp add: example_client_sels listed_channels_def)
  note r = position_update_frame [where data = ?roles and client = example_client
      and guild = example_guild and p = ?p and role = "example_role ''10'' ''everyone''",
      THEN conjunct1, THEN conjunct2, THEN conjunct2, THEN conjunct2, THEN conjunct2,
      rule_format, OF hr]
  note c = position_update_frame [where data = ?channels and client = example_client
      and guild = example_guild and q = ?q and c = 0
      and qs = "[\<lparr>pe_id = ''404'', pe_position = Some 1\<rparr>]", THEN conjunct2]
  note c_assign = c [THEN conjunct2, THEN conjunct2, THEN conjunct2, THEN conjunct2,
      rule_format, OF hc]
  note c_frame = c [THEN conjunct2, THEN conjunct2, THEN conjunct2, THEN conjunct1,
      THEN spec, of 1, THEN conjunct2, THEN mp, OF unlisted]
  from r c_assign c_frame show ?thesis by simp
qed

section \<open>Adding twice under one id\<close>

text \<open>What the patch of a channel object assigns, whatever its class.\<close>

lemma ThreadChannel_patch_sels:
  "ch_id (ThreadChannel_patch C data this) = Some (cd_id data)"
  "ch_deleted (ThreadChannel_patch C data this) = ch_deleted this"
  "ch_type (ThreadChannel_patch C data this) = ch_type this"
  "gc_name (ThreadChannel_patch C data this) =
     (if present (cd_name data) then cd_name data else gc_name this)"
  "gc_rawPosition (ThreadChannel_patch C data this) = gc_rawPosition this"
  by (simp_all add: ThreadChannel_patch_def Channel_patch_def Let_def split: option.splits)

lemma object_patch_sels:
  "ch_id (object_patch C data this) = Some (cd_id data)"
  "ch_deleted (object_patch C data this) = ch_deleted this"
  "ch_type (object_patch C data this) = ch_type this"
  "gc_name (object_patch C data this) =
     (if present (cd_name data) then cd_name data else gc_name this)"
  by (simp_all add: object_patch_def ThreadChannel_patch_sels GuildChannel_patch_sels)

text \<open>\<open>GuildChannelManager._add\<close> by cases, and added twice.\<close>

lemma GuildChannelManager_add_present:
  "ch_id (channel_at store a) = Some i \<Longrightarrow> map_of cache (Some i) = Some b \<Longrightarrow>
   GuildChannelManager_add store a cache = (b, cache)"
  by (simp add: GuildChannelManager_add_def GuildChannelManager_resolve_ById)

lemma GuildChannelManager_add_absent:
  "ch_id (channel_at store a) = Some i \<Longrightarrow> map_of cache (Some i) = None \<Longrightarrow>
   GuildChannelManager_add store a cache = (a, AList.update (Some i) a cache)"
  by (simp add: GuildChannelManager_add_def GuildChannelManager_resolve_ById)

lemma GuildChannelManager_add_undefined:
  "ch_id (channel_at store a) = None \<Longrightarrow>
   GuildChannelManager_add store a cache = (a, AList.update None a cache)"
  by (simp add: GuildChannelManager_add_def)

lemma update_twice: "AList.update k v (AList.update k v al) = AList.update k v al"
  by (induction al) auto

lemma GuildChannelManager_add_again:
  "GuildChannelManager_add store a (snd (GuildChannelManager_add store a cache))
   = GuildChannelManager_add store a cache"
proof (cases "ch_id (channel_at store a)")
  case None
  then show ?thesis by (simp add: GuildChannelManager_add_undefined update_twice)
next
  case (Some i)
  show ?thesis
  proof (cases "map_of cache (Some i)")
    case None
    with Some show ?thesis
      by (simp add: GuildChannelManager_add_absent GuildChannelManager_add_present update_conv')
         
  next
    case (Some b)
    with \<open>ch_id (channel_at store a) = Some i\<close> show ?thesis
      by (simp add: GuildChannelManager_add_present)
  qed
qed

lemma GuildChannelManager_add_keyed:
  assumes "ch_id (channel_at store a) = Some i"
  shows "map_of (snd (GuildChannelManager_add store a cache)) (Some i) \<noteq> None"
proof (cases "map_of cache (Some i)")
  case None
  with assms show ?thesis by (simp add: GuildChannelManager_add_absent update_conv')
next
  case (Some b)
  with assms show ?thesis by (simp add: GuildChannelManager_add_present)
qed

text \<open>The base class \<open>_add\<close> and \<open>ChannelManager._add\<close> after a first call.\<close>

lemma Manager_add_cached:
  "Manager_add key new patch d cache = Inr (v, cache') \<Longrightarrow>
   cache' = AList.update (key d) v cache"
  by (auto simp: Manager_add_def split: option.splits sum.splits)

lemma Manager_add_again:
  assumes "Manager_add key new patch d1 cache = Inr (v1, cache1)" and "key d2 = key d1"
  shows "Manager_add key new patch d2 cache1
         = (case patch d2 v1 of
              Inl e \<Rightarrow> Inl e
            | Inr v2 \<Rightarrow> Inr (v2, AList.update (key d1) v2 cache1))"
    and "map_of cache1 (key d1) = Some v1"
    and "map fst (AList.update (key d1) v2 cache1) = map fst cache1"
proof -
  from Manager_add_cached [OF assms(1)] have c: "cache1 = AList.update (key d1) v1 cache" .
  then show m: "map_of cache1 (key d1) = Some v1" by (simp add: update_conv')
  with assms(2) show "Manager_add key new patch d2 cache1
         = (case patch d2 v1 of
              Inl e \<Rightarrow> Inl e
            | Inr v2 \<Rightarrow> Inr (v2, AList.update (key d1) v2 cache1))"
    by (simp add: Manager_add_def split: sum.splits)
  from m show "map fst (AList.update (key d1) v2 cache1) = map fst cache1"
    by (rule update_existing_keys)
qed

lemma Channel_create_Some:
  assumes "Channel_create C CT d g (store, cache) = (Some a, store', cache')"
  shows "a = next_channel store" and "cache' = AList.update (Some (cd_id d)) a cache"
    and "client_channels store' = client_channels store"
    and "ch_id (channel_at store' a) = Some (cd_id d)"
  using assms
  by (auto simp: Channel_create_def Let_def GuildChannel_patch_sels ThreadChannel_new_def
      ThreadChannel_patch_sels split: option.splits if_splits)

lemma ChannelManager_add_Some:
  assumes "ChannelManager_add C CT d g (store, cache) = (Some a, store1, cache1)"
  shows "map_of (client_channels store1) (cd_id d) = Some a"
    and "map_of cache1 (Some (cd_id d)) \<noteq> None"
proof -
  show "map_of (client_channels store1) (cd_id d) = Some a"
  proof (cases "map_of (client_channels store) (cd_id d)")
    case None
    with assms show ?thesis
      by (auto simp: ChannelManager_add_def Let_def update_conv' split: prod.splits option.splits)
  next
    case (Some existing)
    with assms show ?thesis by (auto simp: ChannelManager_add_def Let_def)
  qed
  show "map_of cache1 (Some (cd_id d)) \<noteq> None"
  proof (cases "map_of (client_channels store) (cd_id d)")
    case None
    with assms obtain store' where
      "Channel_create C CT d g (store, cache) = (Some a, store', cache1)"
      by (auto simp: ChannelManager_add_def Let_def split: prod.splits option.splits)
    from Channel_create_Some(2) [OF this] show ?thesis by (simp add: update_conv')
  next
    case (Some existing)
    let ?store = "store\<lparr>channel_at := (channel_at store)
                            (existing := object_patch C d (channel_at store existing))\<rparr>"
    from Some assms have c: "cache1 = snd (GuildChannelManager_add ?store existing cache)"
      by (auto simp: ChannelManager_add_def Let_def)
    have "ch_id (channel_at ?store existing) = Some (cd_id d)" by (simp add: object_patch_sels)
    from GuildChannelManager_add_keyed [OF this] show ?thesis unfolding c .
  qed
qed

lemma ChannelManager_add_again:
  assumes "ChannelManager_add C CT d1 g (store, cache) = (Some a, store1, cache1)"
    and "cd_id d2 = cd_id d1"
  shows "ChannelManager_add C CT d2 g (store1, cache1)
         = (Some a,
            store1\<lparr>channel_at := (channel_at store1)
                      (a := object_patch C d2 (channel_at store1 a))\<rparr>,
            cache1)"
proof -
  let ?store = "store1\<lparr>channel_at := (channel_at store1)
                      (a := object_patch C d2 (channel_at store1 a))\<rparr>"
  note s = ChannelManager_add_Some [OF assms(1)]
  have i: "ch_id (channel_at ?store a) = Some (cd_id d1)"
    by (simp add: object_patch_sels assms(2))
  from s(2) obtain b where "map_of cache1 (Some (cd_id d1)) = Some b" by blast
  from GuildChannelManager_add_present [OF i this]
  have "snd (GuildChannelManager_add ?store a cache1) = cache1" by simp
  with s(1) assms(2) show ?thesis by (simp add: ChannelManager_add_def Let_def)
qed


lemma RoleManager_add_again:
  assumes "RoleManager_add R r1 roles = Inr (role1, roles1)" and "rd_id r2 = rd_id r1"
    and "rd_permissions r2 = None \<or> numeric_id (rd_permissions r2)"
  shows "\<exists>role2 roles2. RoleManager_add R r2 roles1 = Inr (role2, roles2)
          \<and> Role_patch R r2 role1 = Inr role2
          \<and> map fst roles2 = map fst roles1 \<and> map_of roles2 (rd_id r1) = Some role2
          \<and> r_id role2 = Some (rd_id r1)
          \<and> r_name role2 = (if present (rd_name r2) then rd_name r2 else r_name role1)"
proof -
  from Role_patch_returns [OF assms(3)] obtain role2 where p: "Role_patch R r2 role1 = Inr role2"
    by blast
  note a = Manager_add_again [OF assms(1) [unfolded RoleManager_add_def] assms(2)]
  from a(1) p have "RoleManager_add R r2 roles1 = Inr (role2, AList.update (rd_id r1) role2 roles1)"
    by (simp add: RoleManager_add_def)
  moreover have "map fst (AList.update (rd_id r1) role2 roles1) = map fst roles1" by (rule a(3))
  moreover have "map_of (AList.update (rd_id r1) role2 roles1) (rd_id r1) = Some role2"
    by (simp add: update_conv')
  moreover note Role_patch_name(1,2) [OF p] p assms(2)
  ultimately show ?thesis by simp
qed

text \<open>
  C2. Let a first \<open>add\<close> with a payload return an entity, and let a second payload
  carry the same id. For the \<open>_add\<close> of the manager base class, with any constructor
  and patch: the cache holds the first call's entity under the id; the second call
  patches that entity with the second payload and returns it, the cache keeps its keys in
  their order and holds the returned entity under the id; when the patch throws, the
  call throws. Roles are kept in the slot of the cache, so the slot is the instance: the
  second \<open>RoleManager._add\<close> returns the first call's role patched by \<open>Role._patch\<close>,
  in the same slot, with the same id, and with the first call's name when the second
  payload has none; it returns whenever the second payload's permissions convert. For
  \<open>client.channels\<close> the second call returns the address that the first call
  returned; the object at that address is the first call's object patched by the
  \<open>_patch\<close> of its class, which for every class that extends \<open>GuildChannel\<close> is
  \<open>GuildChannel._patch\<close>; no other object and neither cache is changed.
  \<open>GuildChannelManager._add\<close>, which takes a channel object, returns the same object
  and leaves the cache as it is when it is given the object a second time.
\<close>

theorem manager_add_identity_stability:
  "(Manager_add key new patch d1 cache = Inr (v1, cache1) \<and> key d2 = key d1 \<longrightarrow>
      map_of cache1 (key d1) = Some v1
      \<and> (\<forall>e. patch d2 v1 = Inl e \<longrightarrow> Manager_add key new patch d2 cache1 = Inl e)
      \<and> (\<forall>v2. patch d2 v1 = Inr v2 \<longrightarrow>
            Manager_add key new patch d2 cache1 = Inr (v2, AList.update (key d1) v2 cache1)
            \<and> map fst (AList.update (key d1) v2 cache1) = map fst cache1
            \<and> map_of (AList.update (key d1) v2 cache1) (key d1) = Some v2))
   \<and> (RoleManager_add R r1 roles = Inr (role1, roles1) \<and> rd_id r2 = rd_id r1
        \<and> (rd_permissions r2 = None \<or> numeric_id (rd_permissions r2)) \<longrightarrow>
      (\<exists>role2 roles2. RoleManager_add R r2 roles1 = Inr (role2, roles2)
          \<and> Role_patch R r2 role1 = Inr role2
          \<and> map fst roles2 = map fst roles1 \<and> map_of roles2 (rd_id r1) = Some role2
          \<and> r_id role2 = Some (rd_id r1)
          \<and> r_name role2 = (if present (rd_name r2) then rd_name r2 else r_name role1)))
   \<and> (ChannelManager_add C ChannelTypes c1 guild (store, channels) = (Some a, store1, channels1)
        \<and> cd_id c2 = cd_id c1 \<longrightarrow>
      ChannelManager_add C ChannelTypes c2 guild (store1, channels1)
        = (Some a,
           store1\<lparr>channel_at := (channel_at store1)
                     (a := object_patch C c2 (channel_at store1 a))\<rparr>,
           channels1)
      \<and> map_of (client_channels store1) (cd_id c1) = Some a
      \<and> ch_id (object_patch C c2 (channel_at store1 a)) = Some (cd_id c1)
      \<and> gc_name (object_patch C c2 (channel_at store1 a))
          = (if present (cd_name c2) then cd_name c2 else gc_name (channel_at store1 a))
      \<and> (ch_type (channel_at store1 a) \<notin> set thread_types \<longrightarrow>
           object_patch C c2 (channel_at store1 a)
           = GuildChannel_patch C c2 (channel_at store1 a)))
   \<and> GuildChannelManager_add objects b (snd (GuildChannelManager_add objects b cached))
       = GuildChannelManager_add objects b cached"
proof (intro conjI impI allI)
  assume a: "Manager_add key new patch d1 cache = Inr (v1, cache1) \<and> key d2 = key d1"
  note m = Manager_add_again [OF a [THEN conjunct1] a [THEN conjunct2]]
  show "map_of cache1 (key d1) = Some v1" by (rule m(2))
  {
    fix e assume "patch d2 v1 = Inl e"
    with m(1) show "Manager_add key new patch d2 cache1 = Inl e" by simp
  }
  {
    fix v2 assume "patch d2 v1 = Inr v2"
    with m(1) show "Manager_add key new patch d2 cache1
                    = Inr (v2, AList.update (key d1) v2 cache1)" by simp
    show "map fst (AList.update (key d1) v2 cache1) = map fst cache1" by (rule m(3))
    show "map_of (AList.update (key d1) v2 cache1) (key d1) = Some v2" by (simp add: update_conv')
  }
next
  assume a: "RoleManager_add R r1 roles = Inr (role1, roles1) \<and> rd_id r2 = rd_id r1
        \<and> (rd_permissions r2 = None \<or> numeric_id (rd_permissions r2))"
  show "\<exists>role2 roles2. RoleManager_add R r2 roles1 = Inr (role2, roles2)
          \<and> Role_patch R r2 role1 = Inr role2
          \<and> map fst roles2 = map fst roles1 \<and> map_of roles2 (rd_id r1) = Some role2
          \<and> r_id role2 = Some (rd_id r1)
          \<and> r_name role2 = (if present (rd_name r2) then rd_name r2 else r_name role1)"
    by (rule RoleManager_add_again [OF a [THEN conjunct1] a [THEN conjunct2, THEN conjunct1]
          a [THEN conjunct2, THEN conjunct2]])
next
  assume a: "ChannelManager_add C ChannelTypes c1 guild (store, channels)
               = (Some a, store1, channels1) \<and> cd_id c2 = cd_id c1"
  show "ChannelManager_add C ChannelTypes c2 guild (store1, channels1)
        = (Some a,
           store1\<lparr>channel_at := (channel_at store1)
                     (a := object_patch C c2 (channel_at store1 a))\<rparr>,
           channels1)"
    by (rule ChannelManager_add_again [OF a [THEN conjunct1] a [THEN conjunct2]])
  show "map_of (client_channels store1) (cd_id c1) = Some a"
    by (rule ChannelManager_add_Some(1) [OF a [THEN conjunct1]])
  from a show "ch_id (object_patch C c2 (channel_at store1 a)) = Some (cd_id c1)"
    by (simp add: object_patch_sels)
  show "gc_name (object_patch C c2 (channel_at store1 a))
          = (if present (cd_name c2) then cd_name c2 else gc_name (channel_at store1 a))"
    by (rule object_patch_sels)
next
  assume "ch_type (channel_at store1 a) \<notin> set thread_types"
  then show "object_patch C c2 (channel_at store1 a)
           = GuildChannel_patch C c2 (channel_at store1 a)"
    by (simp add: object_patch_def)
next
  show "GuildChannelManager_add objects b (snd (GuildChannelManager_add objects b cached))
       = GuildChannelManager_add objects b cached"
    by (rule GuildChannelManager_add_again)
qed

text \<open>A role whose permissions convert is added: \<open>RoleManager._add\<close> returns.\<close>

lemma RoleManager_add_returns:
  assumes "rd_permissions d = None \<or> numeric_id (rd_permissions d)"
  shows "\<exists>r cache'. RoleManager_add R d cache = Inr (r, cache')"
proof (cases "map_of cache (rd_id d)")
  case None
  from Role_patch_returns [OF assms] obtain r where "Role_new R d = Inr r"
    unfolding Role_new_def by blast
  with None show ?thesis by (simp add: RoleManager_add_def Manager_add_def)
next
  case (Some existing)
  from Role_patch_returns [OF assms] obtain r where "Role_patch R d existing = Inr r" by blast
  with Some show ?thesis by (simp add: RoleManager_add_def Manager_add_def)
qed

text \<open>
  The role payloads \<open>{id: "10", name: "a"}\<close> and \<open>{id: "10", color: 5}\<close> added to
  an empty role cache, and the channel payloads \<open>{id: "1", type: 0, name: "general"}\<close>
  and \<open>{id: "1", position: 3}\<close> added for the guild \<open>"9"\<close> to an empty client:
  the second call returns the slot, or the address 0, of the first, with the name kept.
\<close>

theorem manager_add_identity_stability_witness:
  "(\<exists>role1 roles1 role2 roles2.
      RoleManager_add example_RoleFlags_new ((rd_only ''10'')\<lparr>rd_name := Some ''a''\<rparr>) []
        = Inr (role1, roles1)
      \<and> RoleManager_add example_RoleFlags_new ((rd_only ''10'')\<lparr>rd_color := Some 5\<rparr>) roles1
        = Inr (role2, roles2)
      \<and> map fst roles2 = map fst roles1 \<and> map_of roles2 ''10'' = Some role2
      \<and> r_name role2 = r_name role1)
   \<and> (\<exists>store1 channels1 store2.
      ChannelManager_add example_collab example_ChannelTypes
          ((cd_only ''1'')\<lparr>cd_type := Some 0, cd_name := Some (Val ''general'')\<rparr>) ''9''
          (example_store [], []) = (Some 0, store1, channels1)
      \<and> ChannelManager_add example_collab example_ChannelTypes
          ((cd_only ''1'')\<lparr>cd_position := Some 3\<rparr>) ''9'' (store1, channels1)
        = (Some 0, store2, channels1)
      \<and> gc_name (channel_at store2 0) = gc_name (channel_at store1 0)
      \<and> channel_at store2 0 = GuildChannel_patch example_collab
          ((cd_only ''1'')\<lparr>cd_position := Some 3\<rparr>) (channel_at store1 0))"
proof -
  let ?r1 = "(rd_only ''10'')\<lparr>rd_name := Some ''a''\<rparr>"
  let ?r2 = "(rd_only ''10'')\<lparr>rd_color := Some 5\<rparr>"
  let ?c1 = "(cd_only ''1'')\<lparr>cd_type := Some 0, cd_name := Some (Val ''general'')\<rparr>"
  let ?c2 = "(cd_only ''1'')\<lparr>cd_position := Some 3\<rparr>"
  have "rd_permissions ?r1 = None \<or> numeric_id (rd_permissions ?r1)" by (simp add: rd_only_def)
  from RoleManager_add_returns [OF this] obtain role1 roles1 where
    r1: "RoleManager_add example_RoleFlags_new ?r1 [] = Inr (role1, roles1)" by blast
  have hr: "RoleManager_add example_RoleFlags_new ?r1 [] = Inr (role1, roles1)
        \<and> rd_id ?r2 = rd_id ?r1
        \<and> (rd_permissions ?r2 = None \<or> numeric_id (rd_permissions ?r2))"
    using r1 by (simp add: rd_only_def)
  note t = manager_add_identity_stability [where R = example_RoleFlags_new and ?r1.0 = ?r1
      and ?r2.0 = ?r2 and roles = "[]" and ?role1.0 = role1 and ?roles1.0 = roles1
      and C = example_collab and ChannelTypes = example_ChannelTypes and ?c1.0 = ?c1
      and ?c2.0 = ?c2 and guild = "''9''" and store = "example_store []" and channels = "[]"
      and a = 0]
  from t [THEN conjunct2, THEN conjunct1, THEN mp, OF hr] obtain role2 roles2 where
    r2: "RoleManager_add example_RoleFlags_new ?r2 roles1 = Inr (role2, roles2)"
      "map fst roles2 = map fst roles1" "map_of roles2 (rd_id ?r1) = Some role2"
      "r_name role2 = (if present (rd_name ?r2) then rd_name ?r2 else r_name role1)"
    by blast
  from r2(3,4) have r3: "map_of roles2 ''10'' = Some role2" "r_name role2 = r_name role1"
    by (simp_all add: rd_only_def present_def)
  have f: "fst (ChannelManager_add example_collab example_ChannelTypes ?c1 ''9''
             (example_store [], [])) = Some 0"
    by (simp add: ChannelManager_add_def Channel_create_def Let_def example_store_def
        type_name_def cd_only_def example_ChannelTypes_def guild_channel_types_def)
  then obtain store1 channels1 where
    c1: "ChannelManager_add example_collab example_ChannelTypes ?c1 ''9''
           (example_store [], []) = (Some 0, store1, channels1)"
    by (cases "ChannelManager_add example_collab example_ChannelTypes ?c1 ''9''
           (example_store [], [])") auto
  have ty: "ch_type (channel_at store1 0) \<notin> set thread_types"
  proof -
    have "ch_type (channel_at (fst (snd (ChannelManager_add example_collab
            example_ChannelTypes ?c1 ''9'' (example_store [], [])))) 0) = ''GUILD_TEXT''"
      by (simp add: ChannelManager_add_def Channel_create_def Let_def example_store_def
        type_name_def cd_only_def example_ChannelTypes_def guild_channel_types_def
        GuildChannel_patch_sels GuildChannel_new_def Channel_new_def channel.defs
        guild_channel.defs)
    then show ?thesis unfolding c1 by (simp add: thread_types_def)
  qed
  have hc: "ChannelManager_add example_collab example_ChannelTypes ?c1 ''9''
              (example_store [], []) = (Some 0, store1, channels1) \<and> cd_id ?c2 = cd_id ?c1"
    using c1 by (simp add: cd_only_def)
  note u = t [where ?store1.0 = store1 and ?channels1.0 = channels1,
      THEN conjunct2, THEN conjunct2, THEN conjunct1, THEN mp, OF hc]
  let ?store2 = "store1\<lparr>channel_at := (channel_at store1)
                     (0 := object_patch example_collab ?c2 (channel_at store1 0))\<rparr>"
  from u have "ChannelManager_add example_collab example_ChannelTypes ?c2 ''9''
                 (store1, channels1) = (Some 0, ?store2, channels1)" by blast
  moreover from u have "gc_name (channel_at ?store2 0) = gc_name (channel_at store1 0)"
    by (simp add: present_def cd_only_def)
  moreover from u ty have "channel_at ?store2 0
      = GuildChannel_patch example_collab ?c2 (channel_at store1 0)" by simp
  ultimately show ?thesis using r1 r2(1,2) r3 c1 by blast
qed

section \<open>Guild snapshots\<close>






























section \<open>Deletion handlers\<close>





section \<open>Operations through the REST collaborator\<close>

text \<open>\<open>RoleManager.edit\<close>: the cache and the clone.\<close>

lemma RoleManager_edit_cache:
  "fst (RoleManager_edit R api_patch ref opts cache) = cache"
  by (simp add: RoleManager_edit_def Let_def split: option.splits sum.splits)

lemma RoleManager_edit_clone:
  assumes "map_of cache i = Some role" and "api_patch (r_id role) opts = Inr d"
    and "rd_permissions d = None \<or> numeric_id (rd_permissions d)"
  shows "\<exists>clone. RoleManager_edit R api_patch (ById i) opts cache = (cache, Inr clone)
           \<and> Role_patch R d role = Inr clone
           \<and> r_name clone = (if present (rd_name d) then rd_name d else r_name role)"
proof -
  from Role_patch_returns [OF assms(3)] obtain clone where c: "Role_patch R d role = Inr clone"
    by blast
  from Role_patch_name(1) [OF c] c assms(1,2) show ?thesis
    by (simp add: RoleManager_edit_def Manager_resolve_def Let_def)
qed

lemma example_edit:
  "RoleManager_edit example_RoleFlags_new example_api_patch (ById ''10'') ''new''
      [(''10'', example_role ''10'' ''old'')]
   = ([(''10'', example_role ''10'' ''old'')],
      Inr ((example_role ''10'' ''old'')
             \<lparr>r_name := Some ''new'', r_tags := Some Null, r_flags := Some 0\<rparr>))"
  by (simp add: RoleManager_edit_def Manager_resolve_def example_api_patch_def example_role_def
      Role_blank_def Role_patch_def Role_patch_head_def Role_patch_tail_def Let_def rd_only_def
      present_def example_RoleFlags_new_def)


text \<open>The \<open>resolve\<close> and \<open>resolveId\<close> of the guild's channel manager by cases.\<close>

lemma GuildChannelManager_resolve_cases:
  "GuildChannelManager_resolve store cache (ById i) = map_of cache (Some i)"
  "ch_type (channel_at store a) \<notin> set thread_types \<Longrightarrow>
   GuildChannelManager_resolve store cache (ByInstance a) = Some a"
  "ch_type (channel_at store a) \<in> set thread_types \<Longrightarrow>
   GuildChannelManager_resolve store cache (ByInstance a)
   = (case ch_id (channel_at store a) of None \<Rightarrow> None | Some i \<Rightarrow> map_of cache (Some i))"
  by (simp_all add: GuildChannelManager_resolve_def Manager_resolve_def map_of_string_keys
      split: option.splits)

lemma GuildChannelManager_resolveId_cases:
  "GuildChannelManager_resolveId store (ById i) = Some i"
  "GuildChannelManager_resolveId store (ByInstance a) = ch_id (channel_at store a)"
  by (simp_all add: GuildChannelManager_resolveId_def Manager_resolveId_def
      split: option.splits)

lemma GuildChannelManager_delete_client:
  "fst (GuildChannelManager_delete api_delete store channel reason client) = client"
  by (simp add: GuildChannelManager_delete_def split: option.splits sum.splits)

text \<open>
  \<open>GuildChannelManager.edit\<close> with a handler that patches the cached channel in place
  and returns it.
\<close>

lemma GuildChannelManager_edit_reflects:
  assumes "\<forall>d c b. map_of (client_channels (client_store c)) (cd_id d) = Some b \<longrightarrow>
             update_handle d c
             = (c\<lparr>client_store :=
                   (client_store c)
                     \<lparr>channel_at := (channel_at (client_store c))
                        (b := object_patch C d (channel_at (client_store c) b))\<rparr>\<rparr>,
                Some b)"
    and "GuildChannelManager_resolve objects channels channel = Some a"
    and "channel_api_patch (ch_id (channel_at objects a)) channel_opts = Inr newData"
    and "map_of (client_channels (client_store client)) (cd_id newData) = Some cached"
  shows "snd (GuildChannelManager_edit update_handle channel_api_patch objects channels channel
                channel_opts client) = Inr (Some cached)"
    and "channel_at (client_store (fst (GuildChannelManager_edit update_handle channel_api_patch
            objects channels channel channel_opts client))) cached
         = object_patch C newData (channel_at (client_store client) cached)"
    and "gc_name (channel_at (client_store (fst (GuildChannelManager_edit update_handle
            channel_api_patch objects channels channel channel_opts client))) cached)
         = (if present (cd_name newData) then cd_name newData
            else gc_name (channel_at (client_store client) cached))"
proof -
  from assms(1) [THEN spec, THEN spec, THEN spec, THEN mp, OF assms(4)]
  have h: "update_handle newData client
           = (client\<lparr>client_store :=
                   (client_store client)
                     \<lparr>channel_at := (channel_at (client_store client))
                        (cached := object_patch C newData
                                     (channel_at (client_store client) cached))\<rparr>\<rparr>,
              Some cached)" .
  from assms(2,3) have e: "GuildChannelManager_edit update_handle channel_api_patch objects
      channels channel channel_opts client
      = (fst (update_handle newData client), Inr (snd (update_handle newData client)))"
    by (simp add: GuildChannelManager_edit_def split: prod.splits)
  show "snd (GuildChannelManager_edit update_handle channel_api_patch objects channels channel
                channel_opts client) = Inr (Some cached)"
    unfolding e h by simp
  show c: "channel_at (client_store (fst (GuildChannelManager_edit update_handle
            channel_api_patch objects channels channel channel_opts client))) cached
         = object_patch C newData (channel_at (client_store client) cached)"
    unfolding e h by simp
  show "gc_name (channel_at (client_store (fst (GuildChannelManager_edit update_handle
            channel_api_patch objects channels channel channel_opts client))) cached)
         = (if present (cd_name newData) then cd_name newData
            else gc_name (channel_at (client_store client) cached))"
    unfolding c by (rule object_patch_sels)
qed

text \<open>
  C7, as the code has it. \<open>RoleManager.create\<close>, \<open>GuildChannelManager.create\<close> and
  \<open>GuildChannelManager.edit\<close> hand the answer of the REST collaborator to the handler
  of the action (\<open>GuildRoleCreate\<close>, \<open>ChannelCreate\<close>, \<open>ChannelUpdate\<close>): the
  client is left as the handler leaves it for that payload, which is how the gateway
  event with that payload leaves it, and the promise resolves with what the handler
  returns; a failure of the collaborator is the result and leaves the client as it is.
  \<open>GuildChannelManager.edit\<close> resolves its argument first: an id through the cache,
  an instance of \<open>ThreadChannel\<close> by its id through the cache, any other instance as it
  is; what does not resolve is a \<open>TypeError\<close>. With a handler of \<open>ChannelUpdate\<close> that
  patches the channel cached under the id of the payload in place and returns it, the edit
  resolves with that cached channel, and the cached channel is the former one patched with
  the answer: its name is the new one when the answer has a name. \<open>RoleManager.edit\<close> calls no handler
  and never changes the role cache: when the role is cached and the collaborator answers,
  it returns a clone of the cached role patched with the answer, so the returned role
  reflects the new data while the cache still resolves to the role as it was; an
  unresolvable role is a \<open>TypeError\<close>. \<open>GuildChannelManager.delete\<close> calls no
  handler and never changes the client: with an id that is not empty it sends the
  request and resolves with \<open>undefined\<close> or fails as the collaborator does; without
  one it is a \<open>TypeError\<close>.
\<close>

theorem rest_operation_reconciliation:
  "(api_post guild_id options = Inr d \<longrightarrow>
      RoleManager_create GuildRoleCreate_handle api_post guild_id options client
        = (fst (GuildRoleCreate_handle guild_id d client),
           Inr (snd (GuildRoleCreate_handle guild_id d client))))
   \<and> (api_post guild_id options = Inl e \<longrightarrow>
        RoleManager_create GuildRoleCreate_handle api_post guild_id options client
          = (client, Inl e))
   \<and> (channel_api_post guild_id name channel_options = Inr newData \<longrightarrow>
        GuildChannelManager_create ChannelCreate_handle channel_api_post guild_id name
            channel_options client
          = (fst (ChannelCreate_handle newData client),
             Inr (snd (ChannelCreate_handle newData client))))
   \<and> (channel_api_post guild_id name channel_options = Inl e \<longrightarrow>
        GuildChannelManager_create ChannelCreate_handle channel_api_post guild_id name
            channel_options client
          = (client, Inl e))
   \<and> (GuildChannelManager_resolve objects channels channel = Some a
        \<and> channel_api_patch (ch_id (channel_at objects a)) channel_opts = Inr newData \<longrightarrow>
        GuildChannelManager_edit ChannelUpdate_handle channel_api_patch objects channels channel
            channel_opts client
          = (fst (ChannelUpdate_handle newData client),
             Inr (snd (ChannelUpdate_handle newData client))))
   \<and> (GuildChannelManager_resolve objects channels channel = Some a
        \<and> channel_api_patch (ch_id (channel_at objects a)) channel_opts = Inl e \<longrightarrow>
        GuildChannelManager_edit ChannelUpdate_handle channel_api_patch objects channels channel
            channel_opts client
          = (client, Inl e))
   \<and> (GuildChannelManager_resolve objects channels channel = None \<longrightarrow>
        GuildChannelManager_edit ChannelUpdate_handle channel_api_patch objects channels channel
            channel_opts client
          = (client, Inl (TypeError ''INVALID_TYPE'')))
   \<and> GuildChannelManager_resolve objects channels (ById c) = map_of channels (Some c)
   \<and> (ch_type (channel_at objects a) \<notin> set thread_types \<longrightarrow>
        GuildChannelManager_resolve objects channels (ByInstance a) = Some a)
   \<and> (ch_type (channel_at objects a) \<in> set thread_types \<longrightarrow>
        GuildChannelManager_resolve objects channels (ByInstance a)
        = (case ch_id (channel_at objects a) of
             None \<Rightarrow> None
           | Some c \<Rightarrow> map_of channels (Some c)))
   \<and> (map_of cache i = Some role \<and> api_patch (r_id role) opts = Inr rd
        \<and> (rd_permissions rd = None \<or> numeric_id (rd_permissions rd)) \<longrightarrow>
        (\<exists>clone. RoleManager_edit R api_patch (ById i) opts cache = (cache, Inr clone)
           \<and> Role_patch R rd role = Inr clone
           \<and> r_name clone = (if present (rd_name rd) then rd_name rd else r_name role))
        \<and> Manager_resolve (fst (RoleManager_edit R api_patch (ById i) opts cache)) (ById i)
            = Some role)
   \<and> fst (RoleManager_edit R api_patch ref opts cache) = cache
   \<and> (Manager_resolve cache ref = None \<longrightarrow>
        snd (RoleManager_edit R api_patch ref opts cache) = Inl (TypeError ''INVALID_TYPE''))
   \<and> fst (GuildChannelManager_delete api_delete objects channel reason client) = client
   \<and> (GuildChannelManager_resolveId objects channel = Some c \<and> c \<noteq> []
        \<and> api_delete c reason = Inr answer \<longrightarrow>
        GuildChannelManager_delete api_delete objects channel reason client = (client, Inr ()))
   \<and> (GuildChannelManager_resolveId objects channel = Some c \<and> c \<noteq> []
        \<and> api_delete c reason = Inl e \<longrightarrow>
        GuildChannelManager_delete api_delete objects channel reason client = (client, Inl e))
   \<and> (GuildChannelManager_resolveId objects channel = None
        \<or> GuildChannelManager_resolveId objects channel = Some [] \<longrightarrow>
        GuildChannelManager_delete api_delete objects channel reason client
          = (client, Inl (TypeError ''INVALID_TYPE'')))
   \<and> GuildChannelManager_resolveId objects (ById c) = Some c
   \<and> GuildChannelManager_resolveId objects (ByInstance a) = ch_id (channel_at objects a)
   \<and> ((\<forall>d c b. map_of (client_channels (client_store c)) (cd_id d) = Some b \<longrightarrow>
            patching_handle d c
            = (c\<lparr>client_store :=
                  (client_store c)
                    \<lparr>channel_at := (channel_at (client_store c))
                       (b := object_patch C d (channel_at (client_store c) b))\<rparr>\<rparr>,
               Some b))
        \<and> GuildChannelManager_resolve objects channels channel = Some a
        \<and> channel_api_patch (ch_id (channel_at objects a)) channel_opts = Inr newData
        \<and> map_of (client_channels (client_store holder)) (cd_id newData) = Some cached \<longrightarrow>
        snd (GuildChannelManager_edit patching_handle channel_api_patch objects channels channel
               channel_opts holder) = Inr (Some cached)
        \<and> channel_at (client_store (fst (GuildChannelManager_edit patching_handle
              channel_api_patch objects channels channel channel_opts holder))) cached
            = object_patch C newData (channel_at (client_store holder) cached)
        \<and> gc_name (channel_at (client_store (fst (GuildChannelManager_edit patching_handle
              channel_api_patch objects channels channel channel_opts holder))) cached)
            = (if present (cd_name newData) then cd_name newData
               else gc_name (channel_at (client_store holder) cached)))"
proof (intro conjI impI)
  assume "api_post guild_id options = Inr d"
  then show "RoleManager_create GuildRoleCreate_handle api_post guild_id options client
        = (fst (GuildRoleCreate_handle guild_id d client),
           Inr (snd (GuildRoleCreate_handle guild_id d client)))"
    by (simp add: RoleManager_create_def split: prod.splits)
next
  assume "api_post guild_id options = Inl e"
  then show "RoleManager_create GuildRoleCreate_handle api_post guild_id options client
          = (client, Inl e)"
    by (simp add: RoleManager_create_def)
next
  assume "channel_api_post guild_id name channel_options = Inr newData"
  then show "GuildChannelManager_create ChannelCreate_handle channel_api_post guild_id name
            channel_options client
          = (fst (ChannelCreate_handle newData client),
             Inr (snd (ChannelCreate_handle newData client)))"
    by (simp add: GuildChannelManager_create_def split: prod.splits)
next
  assume "channel_api_post guild_id name channel_options = Inl e"
  then show "GuildChannelManager_create ChannelCreate_handle channel_api_post guild_id name
            channel_options client
          = (client, Inl e)"
    by (simp add: GuildChannelManager_create_def)
next
  assume "GuildChannelManager_resolve objects channels channel = Some a
        \<and> channel_api_patch (ch_id (channel_at objects a)) channel_opts = Inr newData"
  then show "GuildChannelManager_edit ChannelUpdate_handle channel_api_patch objects channels
            channel channel_opts client
          = (fst (ChannelUpdate_handle newData client),
             Inr (snd (ChannelUpdate_handle newData client)))"
    by (simp add: GuildChannelManager_edit_def split: prod.splits)
next
  assume "GuildChannelManager_resolve objects channels channel = Some a
        \<and> channel_api_patch (ch_id (channel_at objects a)) channel_opts = Inl e"
  then show "GuildChannelManager_edit ChannelUpdate_handle channel_api_patch objects channels
            channel channel_opts client
          = (client, Inl e)"
    by (simp add: GuildChannelManager_edit_def)
next
  assume "GuildChannelManager_resolve objects channels channel = None"
  then show "GuildChannelManager_edit ChannelUpdate_handle channel_api_patch objects channels
            channel channel_opts client
          = (client, Inl (TypeError ''INVALID_TYPE''))"
    by (simp add: GuildChannelManager_edit_def)
next
  show "GuildChannelManager_resolve objects channels (ById c) = map_of channels (Some c)"
    by (rule GuildChannelManager_resolve_cases)
next
  assume "ch_type (channel_at objects a) \<notin> set thread_types"
  then show "GuildChannelManager_resolve objects channels (ByInstance a) = Some a"
    by (rule GuildChannelManager_resolve_cases)
next
  assume "ch_type (channel_at objects a) \<in> set thread_types"
  then show "GuildChannelManager_resolve objects channels (ByInstance a)
        = (case ch_id (channel_at objects a) of
             None \<Rightarrow> None
           | Some c \<Rightarrow> map_of channels (Some c))"
    by (rule GuildChannelManager_resolve_cases)
next
  assume a: "map_of cache i = Some role \<and> api_patch (r_id role) opts = Inr rd
      \<and> (rd_permissions rd = None \<or> numeric_id (rd_permissions rd))"
  show "\<exists>clone. RoleManager_edit R api_patch (ById i) opts cache = (cache, Inr clone)
         \<and> Role_patch R rd role = Inr clone
         \<and> r_name clone = (if present (rd_name rd) then rd_name rd else r_name role)"
    by (rule RoleManager_edit_clone [where api_patch = api_patch and opts = opts
          and role = role and d = rd, OF a [THEN conjunct1] a [THEN conjunct2, THEN conjunct1]
          a [THEN conjunct2, THEN conjunct2]])
  show "Manager_resolve (fst (RoleManager_edit R api_patch (ById i) opts cache)) (ById i)
          = Some role"
    using a by (simp add: RoleManager_edit_cache Manager_resolve_def)
next
  show "fst (RoleManager_edit R api_patch ref opts cache) = cache"
    by (rule RoleManager_edit_cache)
next
  assume "Manager_resolve cache ref = None"
  then show "snd (RoleManager_edit R api_patch ref opts cache) = Inl (TypeError ''INVALID_TYPE'')"
    by (simp add: RoleManager_edit_def)
next
  show "fst (GuildChannelManager_delete api_delete objects channel reason client) = client"
    by (rule GuildChannelManager_delete_client)
next
  assume "GuildChannelManager_resolveId objects channel = Some c \<and> c \<noteq> []
        \<and> api_delete c reason = Inr answer"
  then show "GuildChannelManager_delete api_delete objects channel reason client
             = (client, Inr ())"
    by (simp add: GuildChannelManager_delete_def)
next
  assume "GuildChannelManager_resolveId objects channel = Some c \<and> c \<noteq> []
        \<and> api_delete c reason = Inl e"
  then show "GuildChannelManager_delete api_delete objects channel reason client
             = (client, Inl e)"
    by (simp add: GuildChannelManager_delete_def)
next
  assume "GuildChannelManager_resolveId objects channel = None
        \<or> GuildChannelManager_resolveId objects channel = Some []"
  then show "GuildChannelManager_delete api_delete objects channel reason client
          = (client, Inl (TypeError ''INVALID_TYPE''))"
    by (auto simp: GuildChannelManager_delete_def)
next
  show "GuildChannelManager_resolveId objects (ById c) = Some c"
    by (rule GuildChannelManager_resolveId_cases)
  show "GuildChannelManager_resolveId objects (ByInstance a) = ch_id (channel_at objects a)"
    by (rule GuildChannelManager_resolveId_cases)
next
  assume h: "(\<forall>d c b. map_of (client_channels (client_store c)) (cd_id d) = Some b \<longrightarrow>
            patching_handle d c
            = (c\<lparr>client_store :=
                  (client_store c)
                    \<lparr>channel_at := (channel_at (client_store c))
                       (b := object_patch C d (channel_at (client_store c) b))\<rparr>\<rparr>,
               Some b))
        \<and> GuildChannelManager_resolve objects channels channel = Some a
        \<and> channel_api_patch (ch_id (channel_at objects a)) channel_opts = Inr newData
        \<and> map_of (client_channels (client_store holder)) (cd_id newData) = Some cached"
  note r = GuildChannelManager_edit_reflects [where update_handle = patching_handle
      and C = C and client = holder and objects = objects and channels = channels
      and channel = channel and a = a and channel_api_patch = channel_api_patch
      and channel_opts = channel_opts and newData = newData and cached = cached,
      OF h [THEN conjunct1]
      h [THEN conjunct2, THEN conjunct1] h [THEN conjunct2, THEN conjunct2, THEN conjunct1]
      h [THEN conjunct2, THEN conjunct2, THEN conjunct2]]
  show "snd (GuildChannelManager_edit patching_handle channel_api_patch objects channels channel
               channel_opts holder) = Inr (Some cached)"
    by (rule r(1))
  show "channel_at (client_store (fst (GuildChannelManager_edit patching_handle
              channel_api_patch objects channels channel channel_opts holder))) cached
            = object_patch C newData (channel_at (client_store holder) cached)"
    by (rule r(2))
  show "gc_name (channel_at (client_store (fst (GuildChannelManager_edit patching_handle
              channel_api_patch objects channels channel channel_opts holder))) cached)
            = (if present (cd_name newData) then cd_name newData
               else gc_name (channel_at (client_store holder) cached))"
    by (rule r(3))
qed


lemma example_thread_sels:
  "ch_id (example_thread i n) = Some i" "ch_type (example_thread i n) = ''GUILD_PUBLIC_THREAD''"
  by (simp_all add: example_thread_def example_channel_sels)

text \<open>
  Editing the cached role \<open>"10"\<close>, named \<open>"old"\<close>, to the name \<open>"new"\<close>; editing
  the cached channel \<open>"1"\<close> to the name \<open>"renamed"\<close> with the example handler;
  editing a thread instance that the cache does not hold; deleting the channel \<open>"1"\<close>.
\<close>

theorem rest_operation_reconciliation_witness:
  "(\<exists>clone. RoleManager_edit example_RoleFlags_new example_api_patch (ById ''10'') ''new''
               [(''10'', example_role ''10'' ''old'')]
             = ([(''10'', example_role ''10'' ''old'')], Inr clone)
          \<and> r_name clone = Some ''new'')
   \<and> Manager_resolve
        (fst (RoleManager_edit example_RoleFlags_new example_api_patch (ById ''10'') ''new''
                [(''10'', example_role ''10'' ''old'')])) (ById ''10'')
      = Some (example_role ''10'' ''old'')
   \<and> snd (GuildChannelManager_edit example_ChannelUpdate_handle example_channel_api_patch
             (client_store example_client) (g_channels example_guild) (ById ''1'') ''renamed''
             example_client) = Inr (Some 0)
   \<and> gc_name (channel_at (client_store (fst (GuildChannelManager_edit
             example_ChannelUpdate_handle example_channel_api_patch
             (client_store example_client) (g_channels example_guild) (ById ''1'') ''renamed''
             example_client))) 0) = Some (Val ''renamed'')
   \<and> GuildChannelManager_edit example_ChannelUpdate_handle example_channel_api_patch
        (example_store [example_thread ''7'' ''t'']) [] (ByInstance 0) ''renamed'' example_client
      = (example_client, Inl (TypeError ''INVALID_TYPE''))
   \<and> GuildChannelManager_delete example_api_delete (client_store example_client) (ById ''1'')
        ''cleanup'' example_client = (example_client, Inr ())"
proof -
  let ?cache = "[(''10'', example_role ''10'' ''old'')]"
  let ?d = "(rd_only ''10'')\<lparr>rd_name := Some ''new''\<rparr>"
  let ?n = "(cd_only ''1'')\<lparr>cd_name := Some (Val ''renamed'')\<rparr>"
  let ?threads = "example_store [example_thread ''7'' ''t'']"
  have h: "map_of ?cache ''10'' = Some (example_role ''10'' ''old'')
      \<and> example_api_patch (r_id (example_role ''10'' ''old'')) ''new'' = Inr ?d
      \<and> (rd_permissions ?d = None \<or> numeric_id (rd_permissions ?d))"
    by (simp add: example_api_patch_def example_role_def rd_only_def)
  note t = rest_operation_reconciliation [where cache = ?cache and i = "''10''"
      and role = "example_role ''10'' ''old''" and api_patch = example_api_patch
      and opts = "''new''" and rd = ?d and R = example_RoleFlags_new
      and ChannelUpdate_handle = example_ChannelUpdate_handle
      and channel_api_patch = example_channel_api_patch and channel_opts = "''renamed''"
      and client = example_client and api_delete = example_api_delete
      and reason = "''cleanup''" and c = "''1''" and answer = JNull]
  note role = t [THEN conjunct2, THEN conjunct2, THEN conjunct2, THEN conjunct2, THEN conjunct2,
      THEN conjunct2, THEN conjunct2, THEN conjunct2, THEN conjunct2, THEN conjunct2,
      THEN conjunct1, THEN mp, OF h]
  have r1: "\<exists>clone. RoleManager_edit example_RoleFlags_new example_api_patch (ById ''10'') ''new''
               ?cache = (?cache, Inr clone) \<and> r_name clone = Some ''new''"
    using role [THEN conjunct1] by (auto simp: present_def)
  note r2 = role [THEN conjunct2]
  have he: "GuildChannelManager_resolve (client_store example_client) (g_channels example_guild)
              (ById ''1'') = Some 0
      \<and> example_channel_api_patch (ch_id (channel_at (client_store example_client) 0)) ''renamed''
          = Inr ?n"
    by (simp add: GuildChannelManager_resolve_ById example_client_sels example_client_def
        example_store_def example_channel_sels example_channel_api_patch_def)
  note edit = t [where objects = "client_store example_client"
      and channels = "g_channels example_guild" and channel = "ById ''1''" and a = 0
      and newData = ?n, THEN conjunct2, THEN conjunct2, THEN conjunct2, THEN conjunct2,
      THEN conjunct1, THEN mp, OF he]
  have hu: "example_ChannelUpdate_handle ?n example_client
      = (example_client\<lparr>client_store :=
           (client_store example_client)
             \<lparr>channel_at := (channel_at (client_store example_client))
                (0 := object_patch example_collab ?n
                        (channel_at (client_store example_client) 0))\<rparr>\<rparr>,
         Some 0)"
    by (simp add: example_ChannelUpdate_handle_def example_client_def example_store_def
        cd_only_def)
  have e1: "snd (GuildChannelManager_edit example_ChannelUpdate_handle example_channel_api_patch
             (client_store example_client) (g_channels example_guild) (ById ''1'') ''renamed''
             example_client) = Inr (Some 0)"
    unfolding edit hu by simp
  have hc: "(\<forall>d c b. map_of (client_channels (client_store c)) (cd_id d) = Some b \<longrightarrow>
            example_ChannelUpdate_handle d c
            = (c\<lparr>client_store :=
                  (client_store c)
                    \<lparr>channel_at := (channel_at (client_store c))
                       (b := object_patch example_collab d (channel_at (client_store c) b))\<rparr>\<rparr>,
               Some b))
      \<and> GuildChannelManager_resolve (client_store example_client) (g_channels example_guild)
          (ById ''1'') = Some 0
      \<and> example_channel_api_patch (ch_id (channel_at (client_store example_client) 0)) ''renamed''
          = Inr ?n
      \<and> map_of (client_channels (client_store example_client)) (cd_id ?n) = Some 0"
    using he by (simp add: example_ChannelUpdate_handle_def example_client_def example_store_def
        cd_only_def)
  note reflects = t [where objects = "client_store example_client"
      and channels = "g_channels example_guild" and channel = "ById ''1''" and a = 0
      and newData = ?n and patching_handle = example_ChannelUpdate_handle
      and C = example_collab and holder = example_client and cached = 0,
      THEN conjunct2, THEN conjunct2, THEN conjunct2, THEN conjunct2, THEN conjunct2,
      THEN conjunct2, THEN conjunct2, THEN conjunct2, THEN conjunct2, THEN conjunct2,
      THEN conjunct2, THEN conjunct2, THEN conjunct2, THEN conjunct2, THEN conjunct2,
      THEN conjunct2, THEN conjunct2, THEN conjunct2, THEN conjunct2, THEN mp, OF hc]
  have e2: "gc_name (channel_at (client_store (fst (GuildChannelManager_edit
             example_ChannelUpdate_handle example_channel_api_patch
             (client_store example_client) (g_channels example_guild) (ById ''1'') ''renamed''
             example_client))) 0) = Some (Val ''renamed'')"
    unfolding reflects [THEN conjunct2, THEN conjunct2] by (simp add: present_def cd_only_def)
  have ht: "ch_type (channel_at ?threads 0) \<in> set thread_types"
    by (simp add: example_store_def example_thread_sels thread_types_def)
  note res = t [where objects = ?threads and channels = "[]" and a = 0,
      THEN conjunct2, THEN conjunct2, THEN conjunct2, THEN conjunct2, THEN conjunct2,
      THEN conjunct2, THEN conjunct2, THEN conjunct2, THEN conjunct2, THEN conjunct1,
      THEN mp, OF ht]
  have hn: "GuildChannelManager_resolve ?threads [] (ByInstance 0) = None"
    unfolding res by (simp split: option.splits)
  note e3 = t [where objects = ?threads and channels = "[]" and channel = "ByInstance 0",
      THEN conjunct2, THEN conjunct2, THEN conjunct2, THEN conjunct2, THEN conjunct2,
      THEN conjunct2, THEN conjunct1, THEN mp, OF hn]
  have hd: "GuildChannelManager_resolveId (client_store example_client) (ById ''1'') = Some ''1''
      \<and> ''1'' \<noteq> [] \<and> example_api_delete ''1'' ''cleanup'' = Inr JNull"
    by (simp add: GuildChannelManager_resolveId_cases example_api_delete_def)
  note e4 = t [where objects = "client_store example_client" and channel = "ById ''1''",
      THEN conjunct2, THEN conjunct2, THEN conjunct2, THEN conjunct2, THEN conjunct2,
      THEN conjunct2, THEN conjunct2, THEN conjunct2, THEN conjunct2, THEN conjunct2,
      THEN conjunct2, THEN conjunct2, THEN conjunct2, THEN conjunct2, THEN conjunct1,
      THEN mp, OF hd]
  show ?thesis by (intro conjI r1 r2 e1 e2 e3 e4)
qed

text \<open>
  C7 as stated fails. For roles, the edit resolves with a role named \<open>"new"\<close>, and the
  cached instance is still named \<open>"old"\<close>. For channels, the deletion resolves and the
  client is as before: the channel \<open>"1"\<close> still resolves.
\<close>

theorem rest_operation_reconciliation_counterexample:
  "(case snd (RoleManager_edit example_RoleFlags_new example_api_patch (ById ''10'') ''new''
               [(''10'', example_role ''10'' ''old'')]) of
      Inr clone \<Rightarrow> r_name clone = Some ''new'' | Inl e \<Rightarrow> False)
   \<and> map_option r_name
        (Manager_resolve
           (fst (RoleManager_edit example_RoleFlags_new example_api_patch (ById ''10'') ''new''
                   [(''10'', example_role ''10'' ''old'')])) (ById ''10''))
      = Some (Some ''old'')
   \<and> GuildChannelManager_delete example_api_delete (client_store example_client) (ById ''1'')
        ''cleanup'' example_client = (example_client, Inr ())
   \<and> GuildChannelManager_resolve (client_store example_client) (g_channels example_guild)
        (ById ''1'') = Some 0"
  unfolding example_edit
  by (simp add: Manager_resolve_def example_role_def GuildChannelManager_delete_def
      GuildChannelManager_resolveId_cases example_api_delete_def
      GuildChannelManager_resolve_ById example_client_sels)

section \<open>The administrator override\<close>

text \<open>
  The set of a member's roles, and \<open>memberPermissions\<close> and \<open>rolePermissions\<close> with
  the override off.
\<close>

lemma only_admin_other_flag:
  "flag \<noteq> 0 \<Longrightarrow> flag AND admin = 0 \<Longrightarrow> \<not> BitField_has admin flag"
  by (auto simp: BitField_has_def and.commute)

lemma Permissions_new_cases:
  "(\<exists>e. Permissions_new K bits = Inl e) = (None \<in> set bits)"
  "None \<in> set bits \<Longrightarrow> Permissions_new K bits = Inl (RangeError ''BITFIELD_INVALID'')"
  "Permissions_new K (map Some bs) = Inr (Permissions_of_list K bs)"
proof -
  have "concat (map (\<lambda>b. case b of None \<Rightarrow> [] | Some p \<Rightarrow> [p]) (map Some bs)) = bs"
    by (induction bs) simp_all
  then show "Permissions_new K (map Some bs) = Inr (Permissions_of_list K bs)"
    by (auto simp: Permissions_new_def)
qed (simp_all add: Permissions_new_def)

lemma memberPermissions_off:
  assumes "Permissions_new K (map (r_permissions \<circ> snd) (m_roles member)) = Inr bits"
  shows "memberPermissions K guild_id ownerId permissionOverwrites member False
         = Inr (((((((bits
              AND NOT (case of_everyone (overwritesFor guild_id permissionOverwrites member) of
                         Some e \<Rightarrow> ow_deny e | None \<Rightarrow> Permissions_defaultBit K))
              OR (case of_everyone (overwritesFor guild_id permissionOverwrites member) of
                    Some e \<Rightarrow> ow_allow e | None \<Rightarrow> Permissions_defaultBit K))
              AND NOT (if of_roles (overwritesFor guild_id permissionOverwrites member) \<noteq> []
                       then Permissions_of_list K
                              (map ow_deny
                                 (of_roles (overwritesFor guild_id permissionOverwrites member)))
                       else Permissions_defaultBit K))
              OR (if of_roles (overwritesFor guild_id permissionOverwrites member) \<noteq> []
                  then Permissions_of_list K
                         (map ow_allow
                            (of_roles (overwritesFor guild_id permissionOverwrites member)))
                  else Permissions_defaultBit K))
              AND NOT (case of_member (overwritesFor guild_id permissionOverwrites member) of
                         Some m \<Rightarrow> ow_deny m | None \<Rightarrow> Permissions_defaultBit K))
              OR (case of_member (overwritesFor guild_id permissionOverwrites member) of
                    Some m \<Rightarrow> ow_allow m | None \<Rightarrow> Permissions_defaultBit K)))"
  using assms
  by (simp add: memberPermissions_def Let_def Permissions_remove_def Permissions_add_def)

lemma memberPermissions_same:
  assumes "Permissions_new K (map (r_permissions \<circ> snd) (m_roles member)) = Inr bits"
    and "\<not> BitField_has bits (FLAGS_ADMINISTRATOR K)" and "Some (m_id member) \<noteq> ownerId"
  shows "memberPermissions K guild_id ownerId permissionOverwrites member True
         = memberPermissions K guild_id ownerId permissionOverwrites member False"
  using assms by (simp add: memberPermissions_def Let_def Permissions_has_def)

lemma memberPermissions_plain:
  assumes "Permissions_new K (map (r_permissions \<circ> snd) (m_roles member)) = Inr bits"
    and "overwritesFor guild_id permissionOverwrites member
         = \<lparr>of_everyone = None, of_roles = [], of_member = None\<rparr>"
    and "Permissions_defaultBit K = 0"
  shows "memberPermissions K guild_id ownerId permissionOverwrites member False = Inr bits"
  unfolding memberPermissions_off [OF assms(1)] assms(2) by (simp add: assms(3))

lemma rolePermissions_off:
  assumes "r_permissions role = Some bits"
  shows "rolePermissions K guild_id permissionOverwrites role False
         = Inr (((((bits
              AND NOT (case (case guild_id of None \<Rightarrow> None
                             | Some g \<Rightarrow> map_of permissionOverwrites g) of
                         Some e \<Rightarrow> ow_deny e | None \<Rightarrow> Permissions_defaultBit K))
              OR (case (case guild_id of None \<Rightarrow> None
                        | Some g \<Rightarrow> map_of permissionOverwrites g) of
                    Some e \<Rightarrow> ow_allow e | None \<Rightarrow> Permissions_defaultBit K))
              AND NOT (case (case r_id role of None \<Rightarrow> None
                             | Some i \<Rightarrow> map_of permissionOverwrites i) of
                         Some r \<Rightarrow> ow_deny r | None \<Rightarrow> Permissions_defaultBit K))
              OR (case (case r_id role of None \<Rightarrow> None
                        | Some i \<Rightarrow> map_of permissionOverwrites i) of
                    Some r \<Rightarrow> ow_allow r | None \<Rightarrow> Permissions_defaultBit K)))"
  using assms
  by (simp add: rolePermissions_def Let_def Permissions_remove_def Permissions_add_def)


lemma rolePermissions_plain:
  assumes "r_permissions role = Some bits" and "Permissions_defaultBit K = 0"
    and "\<forall>g. guild_id = Some g \<longrightarrow> map_of permissionOverwrites g = None"
    and "\<forall>i. r_id role = Some i \<longrightarrow> map_of permissionOverwrites i = None"
  shows "rolePermissions K guild_id permissionOverwrites role False = Inr bits"
proof -
  from assms(3) have e:
    "(case guild_id of None \<Rightarrow> None | Some g \<Rightarrow> map_of permissionOverwrites g) = None"
    by (auto split: option.splits)
  from assms(4) have r:
    "(case r_id role of None \<Rightarrow> None | Some i \<Rightarrow> map_of permissionOverwrites i) = None"
    by (auto split: option.splits)
  show ?thesis unfolding rolePermissions_off [OF assms(1)] e r by (simp add: assms(2))
qed

text \<open>
  C8. For a member whose roles all have permissions, \<open>bits\<close> being the set of these:
  with the override on and \<open>ADMINISTRATOR\<close> in the set, \<open>memberPermissions\<close> gives
  \<open>Permissions.ALL\<close>, whatever the overwrites; with the override off it gives the set
  after the overwrites for everyone, for the member's roles and for the member are
  applied in this order, each as deny then allow, so only the bits decide; without
  \<open>ADMINISTRATOR\<close> in the set, and for a member who is not the owner, the override
  makes no difference. Where no overwrite applies the result with the override off is
  the set itself, and if that is \<open>ADMINISTRATOR\<close> alone, the result answers false for
  every other flag. The owner gets \<open>Permissions.ALL\<close> with the override on. A member
  with a role that has no permissions makes the call throw a \<open>RangeError\<close>, unless
  the override returns for the owner first. The same holds of a role and
  \<open>rolePermissions\<close> with the overwrites for everyone and for the role; a role without
  permissions makes it throw a \<open>TypeError\<close>. The \<open>has\<close> of the set itself: with the
  override a set that contains \<open>ADMINISTRATOR\<close> answers true for every flag; without
  it the bits of the flag decide, so that the set with \<open>ADMINISTRATOR\<close> alone answers
  false for every other flag, and true with the override. \<open>Permissions.ALL\<close> answers
  true for each of its flags.
\<close>

theorem administrator_override:
  "(Permissions_new K (map (r_permissions \<circ> snd) (m_roles member)) = Inr bits
        \<and> BitField_has bits (FLAGS_ADMINISTRATOR K) \<longrightarrow>
        memberPermissions K guild_id ownerId permissionOverwrites member True = Inr (Permissions_ALL K))
   \<and> (Permissions_new K (map (r_permissions \<circ> snd) (m_roles member)) = Inr bits \<longrightarrow>
        memberPermissions K guild_id ownerId permissionOverwrites member False
        = Inr (((((((bits
              AND NOT (case of_everyone (overwritesFor guild_id permissionOverwrites member) of
                         Some e \<Rightarrow> ow_deny e | None \<Rightarrow> Permissions_defaultBit K))
              OR (case of_everyone (overwritesFor guild_id permissionOverwrites member) of
                    Some e \<Rightarrow> ow_allow e | None \<Rightarrow> Permissions_defaultBit K))
              AND NOT (if of_roles (overwritesFor guild_id permissionOverwrites member) \<noteq> []
                       then Permissions_of_list K
                              (map ow_deny
                                 (of_roles (overwritesFor guild_id permissionOverwrites member)))
                       else Permissions_defaultBit K))
              OR (if of_roles (overwritesFor guild_id permissionOverwrites member) \<noteq> []
                  then Permissions_of_list K
                         (map ow_allow
                            (of_roles (overwritesFor guild_id permissionOverwrites member)))
                  else Permissions_defaultBit K))
              AND NOT (case of_member (overwritesFor guild_id permissionOverwrites member) of
                         Some m \<Rightarrow> ow_deny m | None \<Rightarrow> Permissions_defaultBit K))
              OR (case of_member (overwritesFor guild_id permissionOverwrites member) of
                    Some m \<Rightarrow> ow_allow m | None \<Rightarrow> Permissions_defaultBit K))))
   \<and> (Permissions_new K (map (r_permissions \<circ> snd) (m_roles member)) = Inr bits
        \<and> \<not> BitField_has bits (FLAGS_ADMINISTRATOR K)
        \<and> Some (m_id member) \<noteq> ownerId \<longrightarrow>
        memberPermissions K guild_id ownerId permissionOverwrites member True
        = memberPermissions K guild_id ownerId permissionOverwrites member False)
   \<and> (Permissions_new K (map (r_permissions \<circ> snd) (m_roles member)) = Inr bits
        \<and> overwritesFor guild_id permissionOverwrites member
            = \<lparr>of_everyone = None, of_roles = [], of_member = None\<rparr>
        \<and> Permissions_defaultBit K = 0 \<longrightarrow>
        memberPermissions K guild_id ownerId permissionOverwrites member False = Inr bits)
   \<and> (Permissions_new K (map (r_permissions \<circ> snd) (m_roles member)) = Inr (FLAGS_ADMINISTRATOR K)
        \<and> overwritesFor guild_id permissionOverwrites member
            = \<lparr>of_everyone = None, of_roles = [], of_member = None\<rparr>
        \<and> Permissions_defaultBit K = 0 \<and> flag \<noteq> 0
        \<and> flag AND FLAGS_ADMINISTRATOR K = 0 \<longrightarrow>
        (\<exists>p. memberPermissions K guild_id ownerId permissionOverwrites member False = Inr p
           \<and> \<not> Permissions_has K p flag False))
   \<and> (Some (m_id member) = ownerId \<longrightarrow>
        memberPermissions K guild_id ownerId permissionOverwrites member True = Inr (Permissions_ALL K))
   \<and> (None \<in> set (map (r_permissions \<circ> snd) (m_roles member))
        \<and> (checkAdmin \<longrightarrow> Some (m_id member) \<noteq> ownerId) \<longrightarrow>
        memberPermissions K guild_id ownerId permissionOverwrites member checkAdmin
        = Inl (RangeError ''BITFIELD_INVALID''))
   \<and> (r_permissions role = Some bits \<and> BitField_has bits (FLAGS_ADMINISTRATOR K) \<longrightarrow>
        rolePermissions K guild_id permissionOverwrites role True = Inr (Permissions_ALL K))
   \<and> (r_permissions role = Some bits \<longrightarrow>
        rolePermissions K guild_id permissionOverwrites role False
        = Inr (((((bits
              AND NOT (case (case guild_id of None \<Rightarrow> None
                             | Some g \<Rightarrow> map_of permissionOverwrites g) of
                         Some e \<Rightarrow> ow_deny e | None \<Rightarrow> Permissions_defaultBit K))
              OR (case (case guild_id of None \<Rightarrow> None
                        | Some g \<Rightarrow> map_of permissionOverwrites g) of
                    Some e \<Rightarrow> ow_allow e | None \<Rightarrow> Permissions_defaultBit K))
              AND NOT (case (case r_id role of None \<Rightarrow> None
                             | Some i \<Rightarrow> map_of permissionOverwrites i) of
                         Some r \<Rightarrow> ow_deny r | None \<Rightarrow> Permissions_defaultBit K))
              OR (case (case r_id role of None \<Rightarrow> None
                        | Some i \<Rightarrow> map_of permissionOverwrites i) of
                    Some r \<Rightarrow> ow_allow r | None \<Rightarrow> Permissions_defaultBit K))))
   \<and> (r_permissions role = Some bits \<and> \<not> BitField_has bits (FLAGS_ADMINISTRATOR K) \<longrightarrow>
        rolePermissions K guild_id permissionOverwrites role True
        = rolePermissions K guild_id permissionOverwrites role False)
   \<and> (r_permissions role = Some bits \<and> Permissions_defaultBit K = 0
        \<and> (\<forall>g. guild_id = Some g \<longrightarrow> map_of permissionOverwrites g = None)
        \<and> (\<forall>i. r_id role = Some i \<longrightarrow> map_of permissionOverwrites i = None) \<longrightarrow>
        rolePermissions K guild_id permissionOverwrites role False = Inr bits)
   \<and> (r_permissions role = Some (FLAGS_ADMINISTRATOR K) \<and> Permissions_defaultBit K = 0
        \<and> (\<forall>g. guild_id = Some g \<longrightarrow> map_of permissionOverwrites g = None)
        \<and> (\<forall>i. r_id role = Some i \<longrightarrow> map_of permissionOverwrites i = None)
        \<and> flag \<noteq> 0 \<and> flag AND FLAGS_ADMINISTRATOR K = 0 \<longrightarrow>
        (\<exists>p. rolePermissions K guild_id permissionOverwrites role False = Inr p
           \<and> \<not> Permissions_has K p flag False))
   \<and> (r_permissions role = None \<longrightarrow>
        rolePermissions K guild_id permissionOverwrites role checkAdmin
        = Inl (TypeError ''Cannot read properties of undefined''))
   \<and> (BitField_has bits (FLAGS_ADMINISTRATOR K) \<longrightarrow>
        Permissions_has K bits flag True)
   \<and> Permissions_has K bits flag False = BitField_has bits flag
   \<and> (flag \<noteq> 0 \<and> flag AND FLAGS_ADMINISTRATOR K = 0 \<longrightarrow>
        \<not> Permissions_has K (FLAGS_ADMINISTRATOR K) flag False
        \<and> Permissions_has K (FLAGS_ADMINISTRATOR K) flag True)
   \<and> (BitField_has (Permissions_ALL K) flag \<longrightarrow>
        Permissions_has K (Permissions_ALL K) flag checkAdmin)"
proof (intro conjI impI)
  assume a: "Permissions_new K (map (r_permissions \<circ> snd) (m_roles member)) = Inr bits
        \<and> BitField_has bits (FLAGS_ADMINISTRATOR K)"
  show "memberPermissions K guild_id ownerId permissionOverwrites member True = Inr (Permissions_ALL K)"
    using a by (simp add: memberPermissions_def Let_def Permissions_has_def)
next
  assume a: "Permissions_new K (map (r_permissions \<circ> snd) (m_roles member)) = Inr bits"
  show "memberPermissions K guild_id ownerId permissionOverwrites member False
        = Inr (((((((bits
              AND NOT (case of_everyone (overwritesFor guild_id permissionOverwrites member) of
                         Some e \<Rightarrow> ow_deny e | None \<Rightarrow> Permissions_defaultBit K))
              OR (case of_everyone (overwritesFor guild_id permissionOverwrites member) of
                    Some e \<Rightarrow> ow_allow e | None \<Rightarrow> Permissions_defaultBit K))
              AND NOT (if of_roles (overwritesFor guild_id permissionOverwrites member) \<noteq> []
                       then Permissions_of_list K
                              (map ow_deny
                                 (of_roles (overwritesFor guild_id permissionOverwrites member)))
                       else Permissions_defaultBit K))
              OR (if of_roles (overwritesFor guild_id permissionOverwrites member) \<noteq> []
                  then Permissions_of_list K
                         (map ow_allow
                            (of_roles (overwritesFor guild_id permissionOverwrites member)))
                  else Permissions_defaultBit K))
              AND NOT (case of_member (overwritesFor guild_id permissionOverwrites member) of
                         Some m \<Rightarrow> ow_deny m | None \<Rightarrow> Permissions_defaultBit K))
              OR (case of_member (overwritesFor guild_id permissionOverwrites member) of
                    Some m \<Rightarrow> ow_allow m | None \<Rightarrow> Permissions_defaultBit K)))"
    by (rule memberPermissions_off [OF a])
next
  assume a: "Permissions_new K (map (r_permissions \<circ> snd) (m_roles member)) = Inr bits
        \<and> \<not> BitField_has bits (FLAGS_ADMINISTRATOR K)
        \<and> Some (m_id member) \<noteq> ownerId"
  show "memberPermissions K guild_id ownerId permissionOverwrites member True
        = memberPermissions K guild_id ownerId permissionOverwrites member False"
    by (rule memberPermissions_same [OF a [THEN conjunct1] a [THEN conjunct2, THEN conjunct1]
          a [THEN conjunct2, THEN conjunct2]])
next
  assume a: "Permissions_new K (map (r_permissions \<circ> snd) (m_roles member)) = Inr bits
        \<and> overwritesFor guild_id permissionOverwrites member
            = \<lparr>of_everyone = None, of_roles = [], of_member = None\<rparr>
        \<and> Permissions_defaultBit K = 0"
  show "memberPermissions K guild_id ownerId permissionOverwrites member False = Inr bits"
    by (rule memberPermissions_plain [OF a [THEN conjunct1] a [THEN conjunct2, THEN conjunct1]
          a [THEN conjunct2, THEN conjunct2]])
next
  assume a: "Permissions_new K (map (r_permissions \<circ> snd) (m_roles member)) = Inr (FLAGS_ADMINISTRATOR K)
        \<and> overwritesFor guild_id permissionOverwrites member
            = \<lparr>of_everyone = None, of_roles = [], of_member = None\<rparr>
        \<and> Permissions_defaultBit K = 0 \<and> flag \<noteq> 0
        \<and> flag AND FLAGS_ADMINISTRATOR K = 0"
  show "\<exists>p. memberPermissions K guild_id ownerId permissionOverwrites member False = Inr p
           \<and> \<not> Permissions_has K p flag False"
    using memberPermissions_plain [OF a [THEN conjunct1] a [THEN conjunct2, THEN conjunct1]
        a [THEN conjunct2, THEN conjunct2, THEN conjunct1], of ownerId]
      only_admin_other_flag [of flag "FLAGS_ADMINISTRATOR K"] a
    by (simp add: Permissions_has_def)
next
  assume a: "Some (m_id member) = ownerId"
  show "memberPermissions K guild_id ownerId permissionOverwrites member True = Inr (Permissions_ALL K)"
    using a by (simp add: memberPermissions_def)
next
  assume a: "None \<in> set (map (r_permissions \<circ> snd) (m_roles member))
        \<and> (checkAdmin \<longrightarrow> Some (m_id member) \<noteq> ownerId)"
  show "memberPermissions K guild_id ownerId permissionOverwrites member checkAdmin
        = Inl (RangeError ''BITFIELD_INVALID'')"
    using a Permissions_new_cases(2) [of "map (r_permissions \<circ> snd) (m_roles member)" K]
    by (auto simp: memberPermissions_def Let_def)
next
  assume a: "r_permissions role = Some bits \<and> BitField_has bits (FLAGS_ADMINISTRATOR K)"
  show "rolePermissions K guild_id permissionOverwrites role True = Inr (Permissions_ALL K)"
    using a by (simp add: rolePermissions_def Permissions_has_def)
next
  assume a: "r_permissions role = Some bits"
  show "rolePermissions K guild_id permissionOverwrites role False
        = Inr (((((bits
              AND NOT (case (case guild_id of None \<Rightarrow> None
                             | Some g \<Rightarrow> map_of permissionOverwrites g) of
                         Some e \<Rightarrow> ow_deny e | None \<Rightarrow> Permissions_defaultBit K))
              OR (case (case guild_id of None \<Rightarrow> None
                        | Some g \<Rightarrow> map_of permissionOverwrites g) of
                    Some e \<Rightarrow> ow_allow e | None \<Rightarrow> Permissions_defaultBit K))
              AND NOT (case (case r_id role of None \<Rightarrow> None
                             | Some i \<Rightarrow> map_of permissionOverwrites i) of
                         Some r \<Rightarrow> ow_deny r | None \<Rightarrow> Permissions_defaultBit K))
              OR (case (case r_id role of None \<Rightarrow> None
                        | Some i \<Rightarrow> map_of permissionOverwrites i) of
                    Some r \<Rightarrow> ow_allow r | None \<Rightarrow> Permissions_defaultBit K)))"
    by (rule rolePermissions_off [OF a])
next
  assume a: "r_permissions role = Some bits \<and> \<not> BitField_has bits (FLAGS_ADMINISTRATOR K)"
  show "rolePermissions K guild_id permissionOverwrites role True
        = rolePermissions K guild_id permissionOverwrites role False"
    using a by (simp add: rolePermissions_def Permissions_has_def)
next
  assume a: "r_permissions role = Some bits \<and> Permissions_defaultBit K = 0
        \<and> (\<forall>g. guild_id = Some g \<longrightarrow> map_of permissionOverwrites g = None)
        \<and> (\<forall>i. r_id role = Some i \<longrightarrow> map_of permissionOverwrites i = None)"
  show "rolePermissions K guild_id permissionOverwrites role False = Inr bits"
    by (rule rolePermissions_plain [OF a [THEN conjunct1] a [THEN conjunct2, THEN conjunct1]
          a [THEN conjunct2, THEN conjunct2, THEN conjunct1]
          a [THEN conjunct2, THEN conjunct2, THEN conjunct2]])
next
  assume a: "r_permissions role = Some (FLAGS_ADMINISTRATOR K) \<and> Permissions_defaultBit K = 0
        \<and> (\<forall>g. guild_id = Some g \<longrightarrow> map_of permissionOverwrites g = None)
        \<and> (\<forall>i. r_id role = Some i \<longrightarrow> map_of permissionOverwrites i = None)
        \<and> flag \<noteq> 0 \<and> flag AND FLAGS_ADMINISTRATOR K = 0"
  show "\<exists>p. rolePermissions K guild_id permissionOverwrites role False = Inr p
           \<and> \<not> Permissions_has K p flag False"
    using rolePermissions_plain [OF a [THEN conjunct1] a [THEN conjunct2, THEN conjunct1]
        a [THEN conjunct2, THEN conjunct2, THEN conjunct1]
        a [THEN conjunct2, THEN conjunct2, THEN conjunct2, THEN conjunct1]]
      only_admin_other_flag [of flag "FLAGS_ADMINISTRATOR K"] a
    by (simp add: Permissions_has_def)
next
  assume a: "r_permissions role = None"
  show "rolePermissions K guild_id permissionOverwrites role checkAdmin
        = Inl (TypeError ''Cannot read properties of undefined'')"
    using a by (simp add: rolePermissions_def)
next
  assume a: "BitField_has bits (FLAGS_ADMINISTRATOR K)"
  show "Permissions_has K bits flag True"
    using a by (simp add: Permissions_has_def)
next
  show "Permissions_has K bits flag False = BitField_has bits flag"
    by (simp add: Permissions_has_def)
next
  assume a: "flag \<noteq> 0 \<and> flag AND FLAGS_ADMINISTRATOR K = 0"
  show "\<not> Permissions_has K (FLAGS_ADMINISTRATOR K) flag False"
    using a only_admin_other_flag [of flag "FLAGS_ADMINISTRATOR K"]
    by (simp add: Permissions_has_def)
  show "Permissions_has K (FLAGS_ADMINISTRATOR K) flag True"
    by (simp add: Permissions_has_def BitField_has_def)
next
  assume "BitField_has (Permissions_ALL K) flag"
  then show "Permissions_has K (Permissions_ALL K) flag checkAdmin"
    by (simp add: Permissions_has_def)
qed


text \<open>
  A member whose only role has the set \<open>{ADMINISTRATOR}\<close>, and that role, in a channel
  without overwrites, with and without the override; a member whose role has no
  permissions; and the set \<open>{ADMINISTRATOR}\<close> queried for the flag 2048.
\<close>

theorem administrator_override_witness:
  "memberPermissions example_permissions (Some ''9'') (Some ''1'') []
      \<lparr>m_id = ''7'', m_roles = [(''10'', (example_role ''10'' ''admin'')\<lparr>r_permissions := Some 8\<rparr>)]\<rparr>
      True = Inr 4095
   \<and> memberPermissions example_permissions (Some ''9'') (Some ''1'') []
      \<lparr>m_id = ''7'', m_roles = [(''10'', (example_role ''10'' ''admin'')\<lparr>r_permissions := Some 8\<rparr>)]\<rparr>
      False = Inr 8
   \<and> (\<exists>p. memberPermissions example_permissions (Some ''9'') (Some ''1'') []
          \<lparr>m_id = ''7'',
           m_roles = [(''10'', (example_role ''10'' ''admin'')\<lparr>r_permissions := Some 8\<rparr>)]\<rparr>
          False = Inr p
        \<and> \<not> Permissions_has example_permissions p 2048 False)
   \<and> memberPermissions example_permissions (Some ''9'') (Some ''1'') []
      \<lparr>m_id = ''7'', m_roles = [(''10'', example_role ''10'' ''plain'')]\<rparr> False
      = Inl (RangeError ''BITFIELD_INVALID'')
   \<and> rolePermissions example_permissions (Some ''9'') []
        ((example_role ''10'' ''admin'')\<lparr>r_permissions := Some 8\<rparr>) True = Inr 4095
   \<and> rolePermissions example_permissions (Some ''9'') []
        ((example_role ''10'' ''admin'')\<lparr>r_permissions := Some 8\<rparr>) False = Inr 8
   \<and> Permissions_has example_permissions 8 2048 True
   \<and> \<not> Permissions_has example_permissions 8 2048 False"
proof -
  let ?role = "(example_role ''10'' ''admin'')\<lparr>r_permissions := Some 8\<rparr>"
  let ?member = "\<lparr>m_id = ''7'', m_roles = [(''10'', ?role)]\<rparr>"
  let ?bare = "\<lparr>m_id = ''7'', m_roles = [(''10'', example_role ''10'' ''plain'')]\<rparr> :: int member"
  have k: "FLAGS_ADMINISTRATOR example_permissions = 8"
    "Permissions_ALL example_permissions = 4095" "Permissions_defaultBit example_permissions = 0"
    by (simp_all add: example_permissions_def)
  have admin: "BitField_has 8 (FLAGS_ADMINISTRATOR example_permissions)"
    by (simp add: BitField_has_def k)
  have other: "(2048::int) \<noteq> 0 \<and> 2048 AND FLAGS_ADMINISTRATOR example_permissions = 0"
    by (simp add: k)
  have set: "Permissions_new example_permissions (map (r_permissions \<circ> snd) (m_roles ?member))
             = Inr 8"
    by (simp add: Permissions_new_def Permissions_of_list_def k)
  have none: "overwritesFor (Some ''9'') [] ?member
              = \<lparr>of_everyone = None, of_roles = [], of_member = None\<rparr>"
    by (simp add: overwritesFor_def)
  have rnone: "(\<forall>g. Some ''9'' = Some g \<longrightarrow> map_of ([] :: overwrite collection) g = None)
        \<and> (\<forall>i. r_id ?role = Some i \<longrightarrow> map_of ([] :: overwrite collection) i = None)"
    by simp
  have h1: "Permissions_new example_permissions (map (r_permissions \<circ> snd) (m_roles ?member))
              = Inr 8 \<and> BitField_has 8 (FLAGS_ADMINISTRATOR example_permissions)"
    using set admin by simp
  have h4: "Permissions_new example_permissions (map (r_permissions \<circ> snd) (m_roles ?member))
              = Inr 8
        \<and> overwritesFor (Some ''9'') [] ?member
            = \<lparr>of_everyone = None, of_roles = [], of_member = None\<rparr>
        \<and> Permissions_defaultBit example_permissions = 0"
    using set none k by simp
  have h5: "Permissions_new example_permissions (map (r_permissions \<circ> snd) (m_roles ?member))
              = Inr (FLAGS_ADMINISTRATOR example_permissions)
        \<and> overwritesFor (Some ''9'') [] ?member
            = \<lparr>of_everyone = None, of_roles = [], of_member = None\<rparr>
        \<and> Permissions_defaultBit example_permissions = 0 \<and> (2048::int) \<noteq> 0
        \<and> 2048 AND FLAGS_ADMINISTRATOR example_permissions = 0"
    using set none k by simp
  have h7: "None \<in> set (map (r_permissions \<circ> snd) (m_roles ?bare))
        \<and> (False \<longrightarrow> Some (m_id ?bare) \<noteq> Some ''1'')"
    by (simp add: example_role_def Role_blank_def)
  have h8: "r_permissions ?role = Some 8 \<and> BitField_has 8 (FLAGS_ADMINISTRATOR example_permissions)"
    using admin by simp
  have h11: "r_permissions ?role = Some 8 \<and> Permissions_defaultBit example_permissions = 0
        \<and> (\<forall>g. Some ''9'' = Some g \<longrightarrow> map_of ([] :: overwrite collection) g = None)
        \<and> (\<forall>i. r_id ?role = Some i \<longrightarrow> map_of ([] :: overwrite collection) i = None)"
    using k by simp
  note t = administrator_override [where K = example_permissions and bits = 8 and flag = 2048
      and role = ?role and guild_id = "Some ''9''" and ownerId = "Some ''1''"
      and permissionOverwrites = "[]"]
  note tm = t [where member = ?member]
  note t1 = tm [THEN conjunct1, THEN mp, OF h1, unfolded k]
  note t4 = tm [THEN conjunct2, THEN conjunct2, THEN conjunct2, THEN conjunct1, THEN mp, OF h4]
  note t5 = tm [THEN conjunct2, THEN conjunct2, THEN conjunct2, THEN conjunct2, THEN conjunct1,
      THEN mp, OF h5]
  note t7 = t [where member = ?bare and checkAdmin = False, THEN conjunct2, THEN conjunct2,
      THEN conjunct2, THEN conjunct2, THEN conjunct2, THEN conjunct2, THEN conjunct1, THEN mp,
      OF h7]
  note t8 = t [THEN conjunct2, THEN conjunct2, THEN conjunct2, THEN conjunct2, THEN conjunct2,
      THEN conjunct2, THEN conjunct2, THEN conjunct1, THEN mp, OF h8, unfolded k]
  note t11 = t [THEN conjunct2, THEN conjunct2, THEN conjunct2, THEN conjunct2, THEN conjunct2,
      THEN conjunct2, THEN conjunct2, THEN conjunct2, THEN conjunct2, THEN conjunct2,
      THEN conjunct1, THEN mp, OF h11]
  note t14 = t [THEN conjunct2, THEN conjunct2, THEN conjunct2, THEN conjunct2, THEN conjunct2,
      THEN conjunct2, THEN conjunct2, THEN conjunct2, THEN conjunct2, THEN conjunct2,
      THEN conjunct2, THEN conjunct2, THEN conjunct2, THEN conjunct1, THEN mp, OF admin]
  note t16 = t [THEN conjunct2, THEN conjunct2, THEN conjunct2, THEN conjunct2, THEN conjunct2,
      THEN conjunct2, THEN conjunct2, THEN conjunct2, THEN conjunct2, THEN conjunct2,
      THEN conjunct2, THEN conjunct2, THEN conjunct2, THEN conjunct2, THEN conjunct2,
      THEN conjunct1, THEN mp, OF other, THEN conjunct1, unfolded k]
  show ?thesis by (intro conjI t1 t4 t5 t7 t8 t11 t14 t16)
qed

end
